theory Spec2Isabelle
  imports Complex_Main "HOL-Library.AList" "HOL-Library.Sublist"
begin

section \<open>JavaScript values, errors and the network\<close>

text \<open>
  JSON values as the agents exchange them. A JavaScript object is an association list
  read by its first matching key; numbers are rationals (the doubles of the source are
  idealised); strings are lists of 8-bit characters (texts are restricted to Latin-1).
  \<open>JUndefined\<close> is the value of an absent property.
\<close>

datatype json =
    JUndefined
  | JNull
  | JBool bool
  | JNum rat
  | JStr string
  | JArr "json list"
  | JObj "(string \<times> json) list"

text \<open>JavaScript truthiness: what \<open>if (x)\<close>, \<open>!x\<close> and \<open>x || y\<close> test.\<close>

fun truthy :: "json \<Rightarrow> bool" where
  "truthy JUndefined = False"
| "truthy JNull = False"
| "truthy (JBool b) = b"
| "truthy (JNum n) = (n \<noteq> 0)"
| "truthy (JStr s) = (s \<noteq> [])"
| "truthy (JArr xs) = True"
| "truthy (JObj kvs) = True"

text \<open>
  Every \<open>throw\<close> site of the modelled code is one constructor; a template literal in the
  message keeps its interpolated values as arguments.
\<close>

datatype js_error =
    ReferenceError string
      \<comment> \<open>\<open>Cannot access '<name>' before initialization\<close>\<close>
  | TypeError string
      \<comment> \<open>property read on \<open>undefined\<close>/\<open>null\<close>, or a call of a non-function\<close>
  | AxiosError string
      \<comment> \<open>a rejected HTTP call: connection refused, timeout, or a non-2xx status\<close>
  | ConfigNotFound string
      \<comment> \<open>\<open>Agent configuration not found: ${agentId}\<close>\<close>
  | AlreadyRunning string
      \<comment> \<open>\<open>Agent ${agentId} is already running\<close>\<close>
  | NotFoundOrNotRunning string
      \<comment> \<open>\<open>Agent ${agentId} not found or not running\<close>\<close>
  | StartTimeout nat nat
      \<comment> \<open>\<open>Agent on port ${port} did not start within ${timeout}ms\<close>\<close>
  | UnableToRoute string
      \<comment> \<open>\<open>Unable to route method: ${method}\<close>\<close>
  | NoAgentForType string
      \<comment> \<open>\<open>No agent found for type: ${targetAgentType}\<close>\<close>
  | AgentError json
      \<comment> \<open>\<open>Agent error: ${response.data.error.message}\<close>\<close>
  | TaskFailed json
      \<comment> \<open>\<open>Task failed: ${task.error}\<close>\<close>
  | TaskTimeout json
      \<comment> \<open>\<open>Task ${taskId} timeout\<close>\<close>
  | TextRequired
      \<comment> \<open>\<open>Text parameter is required\<close>\<close>
  | UnknownMethod json
      \<comment> \<open>\<open>Unknown method: ${method}\<close> (Agent E), \<open>Unsupported method: ${method}\<close> (Agent A)\<close>
  | HandlerError string
      \<comment> \<open>an error thrown by one of Agent A's text functions\<close>

text \<open>Reading a property: \<open>x.k\<close> throws on \<open>undefined\<close> and \<open>null\<close>.\<close>

fun get_prop :: "json \<Rightarrow> string \<Rightarrow> js_error + json" where
  "get_prop JUndefined k = Inl (TypeError k)"
| "get_prop JNull k = Inl (TypeError k)"
| "get_prop (JObj kvs) k = Inr (case map_of kvs k of None \<Rightarrow> JUndefined | Some v \<Rightarrow> v)"
| "get_prop v k = Inr JUndefined"

text \<open>Optional chaining \<open>x?.k\<close>: \<open>undefined\<close> on \<open>undefined\<close> and \<open>null\<close>.\<close>

fun get_prop_opt :: "json \<Rightarrow> string \<Rightarrow> json" where
  "get_prop_opt (JObj kvs) k = (case map_of kvs k of None \<Rightarrow> JUndefined | Some v \<Rightarrow> v)"
| "get_prop_opt v k = JUndefined"

text \<open>
  The manifest an agent serves at \<open>/agent-card\<close>, with the fields the discovery code
  reads.
\<close>

record agent_card =
  card_id :: string
  card_name :: string
  card_type :: string
  card_capabilities :: "json list"

text \<open>
  The world outside a process: what an HTTP request sent at a given time (milliseconds)
  is answered with, and after how long; the identifiers \<open>uuidv4()\<close> draws; how spawned
  processes behave. A rejected call (\<open>Inl\<close>) is what axios throws. \<open>http_get_task url id\<close>
  answers \<open>GET ${url}/task/${id}\<close>.
\<close>

record world =
  http_get :: "string \<Rightarrow> nat \<Rightarrow> nat \<times> (js_error + json)"
  http_get_card :: "string \<Rightarrow> nat \<Rightarrow> nat \<times> (js_error + agent_card)"
  http_get_task :: "string \<Rightarrow> json \<Rightarrow> nat \<Rightarrow> nat \<times> (js_error + json)"
  http_post :: "string \<Rightarrow> json \<Rightarrow> nat \<Rightarrow> nat \<times> (js_error + json)"
  uuidv4 :: "nat \<Rightarrow> string"
  dirname :: string
  spawn_child :: "string \<Rightarrow> nat \<Rightarrow> nat"
  kill_delivered :: "nat \<Rightarrow> nat \<Rightarrow> bool"
  exit_delay :: "nat \<Rightarrow> nat \<Rightarrow> nat option"

text \<open>
  A request sent at time \<open>t\<close> with axios' \<open>timeout\<close> option: the time the promise settles
  and its outcome. Without the option axios waits for the answer.
\<close>

definition with_timeout :: "nat option \<Rightarrow> nat \<Rightarrow> nat \<times> (js_error + 'a) \<Rightarrow> nat \<times> (js_error + 'a)" where
  "with_timeout timeout t answer =
     (case answer of (latency, outcome) \<Rightarrow>
        (case timeout of
           None \<Rightarrow> (t + latency, outcome)
         | Some limit \<Rightarrow>
             if limit \<le> latency then (t + limit, Inl (AxiosError ''timeout''))
             else (t + latency, outcome)))"

definition axios_get :: "world \<Rightarrow> string \<Rightarrow> nat option \<Rightarrow> nat \<Rightarrow> nat \<times> (js_error + json)" where
  "axios_get w url timeout t = with_timeout timeout t (http_get w url t)"

definition axios_get_card :: "world \<Rightarrow> string \<Rightarrow> nat option \<Rightarrow> nat \<Rightarrow> nat \<times> (js_error + agent_card)" where
  "axios_get_card w url timeout t = with_timeout timeout t (http_get_card w url t)"

definition axios_get_task :: "world \<Rightarrow> string \<Rightarrow> json \<Rightarrow> nat option \<Rightarrow> nat \<Rightarrow> nat \<times> (js_error + json)" where
  "axios_get_task w url taskId timeout t = with_timeout timeout t (http_get_task w url taskId t)"

definition axios_post :: "world \<Rightarrow> string \<Rightarrow> json \<Rightarrow> nat option \<Rightarrow> nat \<Rightarrow> nat \<times> (js_error + json)" where
  "axios_post w url body timeout t = with_timeout timeout t (http_post w url body t)"

lemma with_timeout_later: "with_timeout timeout t answer = (t', r) \<Longrightarrow> t \<le> t'"
  by (auto simp: with_timeout_def split: prod.splits option.splits if_splits)

lemma with_timeout_bound:
  "with_timeout (Some limit) t answer = (t', r) \<Longrightarrow> t' \<le> t + limit"
  by (auto simp: with_timeout_def split: prod.splits if_splits)

lemma axios_get_later: "axios_get w url timeout t = (t', r) \<Longrightarrow> t \<le> t'"
  unfolding axios_get_def by (rule with_timeout_later)

lemma axios_get_task_later: "axios_get_task w url taskId timeout t = (t', r) \<Longrightarrow> t \<le> t'"
  unfolding axios_get_task_def by (rule with_timeout_later)

text \<open>Decimal digits of a number, as \<open>${port}\<close> prints it in a template literal.\<close>

definition digit_char :: "nat \<Rightarrow> char" where
  "digit_char d = ''0123456789'' ! d"

function string_of_nat :: "nat \<Rightarrow> string" where
  "string_of_nat n =
     (if n < 10 then [digit_char n]
      else string_of_nat (n div 10) @ [digit_char (n mod 10)])"
  by pat_completeness auto
termination
  by (relation "measure id") auto

declare string_of_nat.simps [simp del]

definition localhost_url :: "nat \<Rightarrow> string" where
  "localhost_url port = ''http://localhost:'' @ string_of_nat port"

text \<open>
  A \<open>const\<close> binding is uninitialised from the start of its block until its initialiser
  has been evaluated; reading it before that throws a ReferenceError.
\<close>

datatype 'a binding = Uninitialized | Initialized 'a

fun read_binding :: "string \<Rightarrow> 'a binding \<Rightarrow> js_error + 'a" where
  "read_binding name Uninitialized = Inl (ReferenceError name)"
| "read_binding name (Initialized v) = Inr v"


section \<open>The process supervisor (advanced-orchestrator.js)\<close>

record agent_config =
  cfg_id :: string
  cfg_name :: string
  cfg_port :: nat
  cfg_type :: string
  cfg_script :: string
  cfg_healthPath :: string
  cfg_capabilities :: "string list"

definition agentConfigs :: "agent_config list" where
  "agentConfigs =
     [\<lparr>cfg_id = ''agent-a'', cfg_name = ''Text Processor'', cfg_port = 4001,
       cfg_type = ''text-processor'', cfg_script = ''agent-a-server.js'',
       cfg_healthPath = ''/status'',
       cfg_capabilities = [''text_analysis'', ''text_transform'', ''text_validation'']\<rparr>,
      \<lparr>cfg_id = ''agent-b'', cfg_name = ''Math Calculator'', cfg_port = 4002,
       cfg_type = ''math-calculator'', cfg_script = ''agent-b-server.js'',
       cfg_healthPath = ''/status'',
       cfg_capabilities = [''basic_math'', ''advanced_math'', ''statistical_analysis'',
         ''equation_solving'']\<rparr>,
      \<lparr>cfg_id = ''agent-c'', cfg_name = ''Sentiment Analyzer'', cfg_port = 4003,
       cfg_type = ''sentiment-analyzer'', cfg_script = ''agent-c-server.js'',
       cfg_healthPath = ''/status'',
       cfg_capabilities = [''sentiment_analysis'', ''emotion_detection'', ''polarity_analysis'',
         ''batch_sentiment'']\<rparr>,
      \<lparr>cfg_id = ''agent-d'', cfg_name = ''Language Detector'', cfg_port = 4004,
       cfg_type = ''language-detector'', cfg_script = ''agent-d-server.js'',
       cfg_healthPath = ''/status'',
       cfg_capabilities = [''language_detection'', ''multilingual_analysis'',
         ''language_statistics'', ''batch_language_detection'']\<rparr>]"

datatype proc_status = Starting | Running | Stopping | Stopped

datatype signal = SIGTERM | SIGKILL

text \<open>The record \<open>startAgent\<close> keeps per spawned agent; \<open>a_process\<close> is the child's handle.\<close>

record supervised =
  a_config :: agent_config
  a_process :: nat
  a_status :: proc_status
  a_startTime :: nat
  a_lastHealthCheck :: "nat option"
  a_responseTime :: "nat option"
  a_errorCount :: nat

text \<open>What the supervisor does to the outside: signals sent, and its console lines.\<close>

datatype orch_event =
    Kill nat signal
  | LogHealthCheckFailed string js_error
  | LogAutoRestarting string
  | LogRestartFailed string js_error

text \<open>
  \<open>agents\<close> is the \<open>Map\<close> from agent id to record, in insertion order; \<open>clock\<close> is the
  wall clock (\<open>Date.now()\<close>), advanced by every awaited call and sleep.
\<close>

record orchestrator =
  agents :: "(string \<times> supervised) list"
  clock :: nat
  events :: "orch_event list"

record start_result =
  sr_agentId :: string
  sr_status :: proc_status
  sr_port :: nat

record stop_result =
  st_agentId :: string
  st_status :: proc_status

text \<open>
  \<open>waitForAgent(port, timeout)\<close>: probe \<open>/status\<close> with a 1 s timeout until it answers,
  sleeping 500 ms after each failure, until \<open>timeout\<close> ms have passed since \<open>start\<close>.
\<close>

function waitForAgent_loop :: "world \<Rightarrow> nat \<Rightarrow> nat \<Rightarrow> nat \<Rightarrow> nat \<Rightarrow> nat \<times> (js_error + bool)" where
  "waitForAgent_loop w port timeout start now =
     (if now - start < timeout then
        (case axios_get w (localhost_url port @ ''/status'') (Some 1000) now of
           (t', Inr response) \<Rightarrow> (t', Inr True)
         | (t', Inl err) \<Rightarrow> waitForAgent_loop w port timeout start (t' + 500))
      else (now, Inl (StartTimeout port timeout)))"
  by pat_completeness auto
termination
  apply (relation "measure (\<lambda>(w, port, timeout, start, now). start + timeout - now)")
   apply simp
  apply (auto dest: axios_get_later [OF sym])
  done

declare waitForAgent_loop.simps [simp del]

definition waitForAgent :: "world \<Rightarrow> nat \<Rightarrow> nat \<Rightarrow> nat \<Rightarrow> nat \<times> (js_error + bool)" where
  "waitForAgent w port timeout now = waitForAgent_loop w port timeout now now"

text \<open>
  \<open>startAgent(agentId)\<close>. The statement
  \<^verbatim>\<open>const process = spawn('node', [scriptPath], { ..., env: { ...process.env, ... } })\<close>
  declares \<open>process\<close> in the function's own block, so the \<open>process\<close> inside its initialiser
  is that binding, read before it is initialised. The rest of the function is modelled
  as written: spawn, store the record with status \<open>starting\<close>, wait for the agent, mark
  it \<open>running\<close>.
\<close>

definition startAgent :: "world \<Rightarrow> string \<Rightarrow> orchestrator \<Rightarrow> (js_error + start_result) \<times> orchestrator" where
  "startAgent w agentId s =
     (case find (\<lambda>c. cfg_id c = agentId) agentConfigs of
        None \<Rightarrow> (Inl (ConfigNotFound agentId), s)
      | Some config \<Rightarrow>
          if (case map_of (agents s) agentId of
                None \<Rightarrow> False
              | Some existing \<Rightarrow> a_status existing = Running)
          then (Inl (AlreadyRunning agentId), s)
          else
            (case read_binding ''process'' (Uninitialized :: nat binding) of
               Inl err \<Rightarrow> (Inl err, s)
             | Inr shadowed \<Rightarrow>
                 (let child = spawn_child w (dirname w @ ''/'' @ cfg_script config) (clock s);
                      agent = \<lparr>a_config = config, a_process = child, a_status = Starting,
                               a_startTime = clock s, a_lastHealthCheck = None,
                               a_responseTime = None, a_errorCount = 0\<rparr>;
                      s1 = s\<lparr>agents := AList.update agentId agent (agents s)\<rparr>
                  in case waitForAgent w (cfg_port config) 10000 (clock s1) of
                       (t', Inl err) \<Rightarrow> (Inl err, s1\<lparr>clock := t'\<rparr>)
                     | (t', Inr ok) \<Rightarrow>
                         (Inr \<lparr>sr_agentId = agentId, sr_status = Running,
                               sr_port = cfg_port config\<rparr>,
                          s1\<lparr>clock := t',
                             agents := AList.update agentId (agent\<lparr>a_status := Running\<rparr>)
                                         (agents s1)\<rparr>))))"

text \<open>
  \<open>stopAgent(agentId)\<close>: SIGTERM, status \<open>stopping\<close>, wait for the exit event or 5 s, status
  \<open>stopped\<close>. The 5 s timer sends SIGKILL when \<open>process.killed\<close> is false, that is, when
  the SIGTERM could not be delivered.
\<close>

definition stopAgent :: "world \<Rightarrow> string \<Rightarrow> orchestrator \<Rightarrow> (js_error + stop_result) \<times> orchestrator" where
  "stopAgent w agentId s =
     (case map_of (agents s) agentId of
        None \<Rightarrow> (Inl (NotFoundOrNotRunning agentId), s)
      | Some agent \<Rightarrow>
          (let killed = kill_delivered w (a_process agent) (clock s);
               waited = (case exit_delay w (a_process agent) (clock s) of
                           None \<Rightarrow> 5000
                         | Some d \<Rightarrow> min d 5000);
               sent = Kill (a_process agent) SIGTERM #
                        (if killed then [] else [Kill (a_process agent) SIGKILL])
           in (Inr \<lparr>st_agentId = agentId, st_status = Stopped\<rparr>,
               s\<lparr>agents := AList.update agentId (agent\<lparr>a_status := Stopped\<rparr>) (agents s),
                 clock := clock s + waited,
                 events := events s @ sent\<rparr>)))"



text \<open>
  One iteration of the loop inside \<open>startHealthMonitoring\<close>, for the Map entry
  \<open>agentId\<close>. After a successful restart the source resets \<open>errorCount\<close> on the object the
  iteration holds, which \<open>startAgent\<close> has by then replaced in the Map by a fresh record
  whose counter is 0; the Map is left as \<open>startAgent\<close> returned it.
\<close>

definition checkAgentHealth :: "world \<Rightarrow> string \<Rightarrow> orchestrator \<Rightarrow> orchestrator" where
  "checkAgentHealth w agentId s =
     (case map_of (agents s) agentId of
        None \<Rightarrow> s
      | Some agent \<Rightarrow>
          if a_status agent = Running then
            (case axios_get w (localhost_url (cfg_port (a_config agent)) @ ''/status'')
                    (Some 5000) (clock s) of
               (t', Inr response) \<Rightarrow>
                 s\<lparr>agents := AList.update agentId
                                (agent\<lparr>a_lastHealthCheck := Some t',
                                       a_responseTime := Some (t' - clock s)\<rparr>) (agents s),
                   clock := t'\<rparr>
             | (t', Inl err) \<Rightarrow>
                 (let agent1 = agent\<lparr>a_errorCount := a_errorCount agent + 1\<rparr>;
                      s1 = s\<lparr>agents := AList.update agentId agent1 (agents s),
                             clock := t',
                             events := events s @ [LogHealthCheckFailed agentId err]\<rparr>
                  in if 3 < a_errorCount agent1 then
                       (let s2 = s1\<lparr>events := events s1 @ [LogAutoRestarting agentId]\<rparr>
                        in case stopAgent w agentId s2 of
                             (Inl restartError, s3) \<Rightarrow>
                               s3\<lparr>events := events s3 @ [LogRestartFailed agentId restartError]\<rparr>
                           | (Inr stopped, s3) \<Rightarrow>
                               (case startAgent w agentId (s3\<lparr>clock := clock s3 + 2000\<rparr>) of
                                  (Inl restartError, s4) \<Rightarrow>
                                    s4\<lparr>events := events s4 @
                                          [LogRestartFailed agentId restartError]\<rparr>
                                | (Inr started, s4) \<Rightarrow> s4))
                     else s1))
          else s)"


subsection \<open>Starting an agent\<close>

lemma find_agent_config:
  "agentId \<in> set (map cfg_id agentConfigs) \<Longrightarrow>
   \<exists>config. find (\<lambda>c. cfg_id c = agentId) agentConfigs = Some config"
  by (cases "find (\<lambda>c. cfg_id c = agentId) agentConfigs") (auto simp: find_None_iff)

definition fresh_orchestrator :: orchestrator where
  "fresh_orchestrator = \<lparr>agents = [], clock = 0, events = []\<rparr>"

text \<open>A world in which nothing listens: every connection is refused after 3 ms.\<close>

definition world_down :: world where
  "world_down =
     \<lparr>http_get = (\<lambda>url t. (3, Inl (AxiosError ''ECONNREFUSED''))),
      http_get_card = (\<lambda>url t. (3, Inl (AxiosError ''ECONNREFUSED''))),
      http_get_task = (\<lambda>url taskId t. (3, Inl (AxiosError ''ECONNREFUSED''))),
      http_post = (\<lambda>url body t. (3, Inl (AxiosError ''ECONNREFUSED''))),
      uuidv4 = (\<lambda>t. ''uuid-'' @ string_of_nat t),
      dirname = ''/app/src/dynamic-discovery'',
      spawn_child = (\<lambda>script t. 1000 + t),
      kill_delivered = (\<lambda>child t. True),
      exit_delay = (\<lambda>child t. Some 40)\<rparr>"

text \<open>
  C3. The claim: for a configured agent that is not running, \<open>startAgent\<close> spawns the
  process, waits for its liveness endpoint and returns status \<open>running\<close>. The code: for
  every configured agent id whose record is absent or not \<open>running\<close>, \<open>startAgent\<close> throws
  a ReferenceError while it evaluates the arguments of \<open>spawn\<close>; nothing is spawned, no
  record is stored, the supervisor's state is unchanged.
\<close>

theorem startAgent_throws_before_spawn:
  assumes "agentId \<in> set (map cfg_id agentConfigs)"
    and "\<forall>a. map_of (agents s) agentId = Some a \<longrightarrow> a_status a \<noteq> Running"
  shows "startAgent w agentId s = (Inl (ReferenceError ''process''), s)"
proof -
  from assms(1) obtain config
    where cfg: "find (\<lambda>c. cfg_id c = agentId) agentConfigs = Some config"
    using find_agent_config by blast
  from assms(2) have idle:
    "\<not> (case map_of (agents s) agentId of None \<Rightarrow> False
         | Some existing \<Rightarrow> a_status existing = Running)"
    by (simp split: option.splits)
  show ?thesis
    unfolding startAgent_def by (simp add: cfg idle)
qed

theorem startAgent_throws_before_spawn_witness:
  "''agent-a'' \<in> set (map cfg_id agentConfigs)
   \<and> map_of (agents fresh_orchestrator) ''agent-a'' = None
   \<and> startAgent world_down ''agent-a'' fresh_orchestrator
       = (Inl (ReferenceError ''process''), fresh_orchestrator)"
proof -
  have configured: "''agent-a'' \<in> set (map cfg_id agentConfigs)"
    by (simp add: agentConfigs_def)
  have absent: "map_of (agents fresh_orchestrator) ''agent-a'' = None"
    by (simp add: fresh_orchestrator_def)
  then have idle:
    "\<forall>a. map_of (agents fresh_orchestrator) ''agent-a'' = Some a \<longrightarrow> a_status a \<noteq> Running"
    by simp
  from startAgent_throws_before_spawn [OF configured idle, of world_down] configured absent
  show ?thesis by simp
qed

text \<open>The other two exits of \<open>startAgent\<close>, which the claim describes as the code has them.\<close>

lemma startAgent_already_running:
  assumes "find (\<lambda>c. cfg_id c = agentId) agentConfigs = Some config"
    and "map_of (agents s) agentId = Some a" and "a_status a = Running"
  shows "startAgent w agentId s = (Inl (AlreadyRunning agentId), s)"
  unfolding startAgent_def using assms by simp

lemma startAgent_already_running_only:
  assumes "startAgent w agentId s = (Inl (AlreadyRunning other), s')"
  shows "\<exists>a. map_of (agents s) agentId = Some a \<and> a_status a = Running"
  using assms unfolding startAgent_def
  by (auto split: option.splits if_splits prod.splits sum.splits)

subsection \<open>The body of the health-monitoring loop\<close>

definition errorCount_of :: "orchestrator \<Rightarrow> string \<Rightarrow> nat option" where
  "errorCount_of s agentId = map_option a_errorCount (map_of (agents s) agentId)"

definition status_of :: "orchestrator \<Rightarrow> string \<Rightarrow> proc_status option" where
  "status_of s agentId = map_option a_status (map_of (agents s) agentId)"

lemma stopAgent_known:
  assumes "map_of (agents s) agentId = Some a"
  shows "\<exists>s3. stopAgent w agentId s
            = (Inr \<lparr>st_agentId = agentId, st_status = Stopped\<rparr>, s3)
          \<and> Kill (a_process a) SIGTERM \<in> set (events s3)
          \<and> status_of s3 agentId = Some Stopped
          \<and> errorCount_of s3 agentId = Some (a_errorCount a)"
  using assms
  by (simp add: stopAgent_def Let_def status_of_def errorCount_of_def update_conv')

lemma checkAgentHealth_success:
  assumes "map_of (agents s) agentId = Some a" and "a_status a = Running"
    and "axios_get w (localhost_url (cfg_port (a_config a)) @ ''/status'') (Some 5000) (clock s)
           = (t', Inr response)"
  shows "checkAgentHealth w agentId s
           = s\<lparr>agents := AList.update agentId
                            (a\<lparr>a_lastHealthCheck := Some t',
                               a_responseTime := Some (t' - clock s)\<rparr>) (agents s),
               clock := t'\<rparr>"
  using assms by (simp add: checkAgentHealth_def)

text \<open>
  One iteration of the loop on a Map entry that is \<open>running\<close>, read off the code: a
  successful probe leaves the entry's error counter as it was; a failed probe increments
  it by one; when the incremented counter exceeds 3, \<open>stopAgent\<close> is run and, 2 s later,
  \<open>startAgent\<close> is called on the same id. This is the loop as it is written; no run of
  the supervisor stores an entry for it to work on (see \<open>orchestrator_reachable_empty\<close>
  below).
\<close>

lemma checkAgentHealth_running:
  assumes "map_of (agents s) agentId = Some a" and "a_status a = Running"
    and "axios_get w (localhost_url (cfg_port (a_config a)) @ ''/status'') (Some 5000) (clock s)
           = (t', r)"
  shows "case r of
           Inr response \<Rightarrow>
             errorCount_of (checkAgentHealth w agentId s) agentId = Some (a_errorCount a)
         | Inl err \<Rightarrow>
             (let s1 = s\<lparr>agents := AList.update agentId
                                     (a\<lparr>a_errorCount := a_errorCount a + 1\<rparr>) (agents s),
                        clock := t',
                        events := events s @ [LogHealthCheckFailed agentId err]\<rparr>
              in if a_errorCount a + 1 \<le> 3
                 then checkAgentHealth w agentId s = s1
                    \<and> errorCount_of (checkAgentHealth w agentId s) agentId
                        = Some (a_errorCount a + 1)
                 else (\<exists>stopped s3.
                         stopAgent w agentId (s1\<lparr>events := events s1 @ [LogAutoRestarting agentId]\<rparr>)
                           = (Inr stopped, s3)
                       \<and> Kill (a_process a) SIGTERM \<in> set (events s3)
                       \<and> status_of s3 agentId = Some Stopped
                       \<and> checkAgentHealth w agentId s
                           = (case startAgent w agentId (s3\<lparr>clock := clock s3 + 2000\<rparr>) of
                                (Inl restartError, s4) \<Rightarrow>
                                  s4\<lparr>events := events s4 @ [LogRestartFailed agentId restartError]\<rparr>
                              | (Inr started, s4) \<Rightarrow> s4)))"
proof (cases r)
  case (Inr response)
  with assms show ?thesis
    by (simp add: checkAgentHealth_success errorCount_of_def update_conv')
next
  case (Inl err)
  define s1 where "s1 = s\<lparr>agents := AList.update agentId
                                     (a\<lparr>a_errorCount := a_errorCount a + 1\<rparr>) (agents s),
                        clock := t',
                        events := events s @ [LogHealthCheckFailed agentId err]\<rparr>"
  define s2 where "s2 = s1\<lparr>events := events s1 @ [LogAutoRestarting agentId]\<rparr>"
  have held: "map_of (agents s2) agentId = Some (a\<lparr>a_errorCount := a_errorCount a + 1\<rparr>)"
    by (simp add: s2_def s1_def update_conv')
  show ?thesis
  proof (cases "a_errorCount a + 1 \<le> 3")
    case True
    with assms Inl show ?thesis
      by (simp add: checkAgentHealth_def Let_def errorCount_of_def update_conv')
  next
    case False
    from stopAgent_known [OF held, of w] obtain s3
      where stop: "stopAgent w agentId s2 = (Inr \<lparr>st_agentId = agentId, st_status = Stopped\<rparr>, s3)"
        and sent: "Kill (a_process a) SIGTERM \<in> set (events s3)"
        and stopped: "status_of s3 agentId = Some Stopped"
      by auto
    have "checkAgentHealth w agentId s
            = (case startAgent w agentId (s3\<lparr>clock := clock s3 + 2000\<rparr>) of
                 (Inl restartError, s4) \<Rightarrow>
                   s4\<lparr>events := events s4 @ [LogRestartFailed agentId restartError]\<rparr>
               | (Inr started, s4) \<Rightarrow> s4)"
      using assms Inl False stop
      by (simp add: checkAgentHealth_def Let_def s2_def s1_def)
    with stop sent stopped Inl False show ?thesis
      by (simp add: Let_def s2_def s1_def)
  qed
qed

section \<open>Task acceptance and lifecycle of a leaf agent\<close>

datatype task_status = Processing | Completed | Failed

text \<open>
  A task record. Agent A creates it without \<open>result\<close> and \<open>error\<close> and with
  \<open>agent: 'agent-a'\<close>; Agent E creates it with \<open>result: null, error: null\<close>. An absent
  or \<open>null\<close> field is \<open>None\<close>. \<open>t_error\<close> holds \<open>error.message\<close> of the caught error.
\<close>

record task =
  t_id :: string
  t_status :: task_status
  t_method :: json
  t_params :: json
  t_created_at :: nat
  t_agent :: "string option"
  t_result :: "json option"
  t_error :: "js_error option"
  t_completed_at :: "nat option"
  t_failed_at :: "nat option"

text \<open>The four properties \<open>{ jsonrpc, method, params, id }\<close> read from the request body.\<close>

record rpc_request =
  rq_jsonrpc :: json
  rq_method :: json
  rq_params :: json
  rq_id :: json

datatype rpc_message =
    InvalidRequest
      \<comment> \<open>\<open>Invalid Request\<close>\<close>
  | MethodRequired
      \<comment> \<open>\<open>Method required\<close>\<close>
  | MethodNotFound json
      \<comment> \<open>\<open>Method not found: ${method}\<close>\<close>

text \<open>
  The body of an answer of \<open>/rpc\<close>: \<open>{ jsonrpc, error: { code, message }, id }\<close> or
  \<open>{ jsonrpc, result: { task_id, status: 'accepted', message }, id }\<close>.
\<close>

datatype rpc_body =
    RpcError int rpc_message json
  | RpcAccepted string json

record http_response =
  r_status :: nat
  r_body :: rpc_body

text \<open>The answer of \<open>GET /task/:taskId\<close>: the record (200) or \<open>Task not found\<close> (404).\<close>

datatype task_response = TaskFound task | TaskNotFound

fun task_response_status :: "task_response \<Rightarrow> nat" where
  "task_response_status (TaskFound t) = 200"
| "task_response_status TaskNotFound = 404"

definition get_task :: "(string \<rightharpoonup> task) \<Rightarrow> string \<Rightarrow> task_response" where
  "get_task tasks taskId =
     (case tasks taskId of None \<Rightarrow> TaskNotFound | Some t \<Rightarrow> TaskFound t)"


subsection \<open>Agent A (agent-a-server.js)\<close>

text \<open>
  The text functions of Agent A are the pluggable business logic: each returns an object
  literal, given here by its properties, or throws.
\<close>

record text_functions =
  analyzeText :: "json \<Rightarrow> js_error + (string \<times> json) list"
  transformText :: "json \<Rightarrow> json \<Rightarrow> js_error + (string \<times> json) list"
  validateText :: "json \<Rightarrow> json \<Rightarrow> js_error + (string \<times> json) list"

text \<open>
  \<open>a_tasks\<close> is \<open>this.tasks\<close>; \<open>a_pending\<close> are the calls of \<open>processTask\<close> that wait in
  their first \<open>await\<close>.
\<close>

record agentA =
  a_tasks :: "string \<rightharpoonup> task"
  a_pending :: "(string \<times> json \<times> json) list"

definition supportedMethods :: "string list" where
  "supportedMethods = [''text_analysis'', ''text_transform'', ''text_validation'']"

text \<open>
  The handler of \<open>POST /rpc\<close>. \<open>taskId\<close> is the identifier \<open>uuidv4()\<close> returns, \<open>now\<close> the
  clock. The state it returns is the state in which the response is sent.
\<close>

definition agentA_rpc :: "string \<Rightarrow> nat \<Rightarrow> rpc_request \<Rightarrow> agentA \<Rightarrow> http_response \<times> agentA" where
  "agentA_rpc taskId now req s =
     (if rq_jsonrpc req \<noteq> JStr ''2.0'' then
        (\<lparr>r_status = 400, r_body = RpcError (- 32600) InvalidRequest (rq_id req)\<rparr>, s)
      else if rq_method req \<notin> set (map JStr supportedMethods) then
        (\<lparr>r_status = 400,
          r_body = RpcError (- 32601) (MethodNotFound (rq_method req)) (rq_id req)\<rparr>, s)
      else
        (let s1 = s\<lparr>a_tasks := (a_tasks s)(taskId \<mapsto>
                      \<lparr>t_id = taskId, t_status = Processing, t_method = rq_method req,
                       t_params = rq_params req, t_created_at = now,
                       t_agent = Some ''agent-a'', t_result = None, t_error = None,
                       t_completed_at = None, t_failed_at = None\<rparr>)\<rparr>;
             s2 = s1\<lparr>a_pending := a_pending s1 @ [(taskId, rq_method req, rq_params req)]\<rparr>
         in (\<lparr>r_status = 200, r_body = RpcAccepted taskId (rq_id req)\<rparr>, s2)))"

text \<open>The \<open>switch (method)\<close> of \<open>processTask\<close>.\<close>

definition dispatchA :: "text_functions \<Rightarrow> json \<Rightarrow> json \<Rightarrow> js_error + (string \<times> json) list" where
  "dispatchA f method params =
     (if method = JStr ''text_analysis'' then
        (case get_prop params ''text'' of
           Inl err \<Rightarrow> Inl err
         | Inr text \<Rightarrow> analyzeText f text)
      else if method = JStr ''text_transform'' then
        (case get_prop params ''text'' of
           Inl err \<Rightarrow> Inl err
         | Inr text \<Rightarrow>
             (case get_prop params ''operation'' of
                Inl err \<Rightarrow> Inl err
              | Inr operation \<Rightarrow> transformText f text operation))
      else if method = JStr ''text_validation'' then
        (case get_prop params ''text'' of
           Inl err \<Rightarrow> Inl err
         | Inr text \<Rightarrow>
             (case get_prop params ''validation_type'' of
                Inl err \<Rightarrow> Inl err
              | Inr validation_type \<Rightarrow> validateText f text validation_type))
      else Inl (UnknownMethod method))"

text \<open>
  \<open>processTask\<close> from the end of its 1.5 s sleep on: the \<open>try\<close> block with its three
  assignments, or the \<open>catch\<close> block with its three. No \<open>await\<close> stands between the
  assignments, so no other handler runs between them.
\<close>

definition processTaskA :: "text_functions \<Rightarrow> nat \<Rightarrow> string \<Rightarrow> json \<Rightarrow> json \<Rightarrow> agentA \<Rightarrow> agentA" where
  "processTaskA f now taskId method params s =
     (case a_tasks s taskId of
        None \<Rightarrow> s
      | Some task \<Rightarrow>
          (case dispatchA f method params of
             Inr result \<Rightarrow>
               s\<lparr>a_tasks := (a_tasks s)(taskId \<mapsto>
                    task\<lparr>t_status := Completed, t_result := Some (JObj result),
                         t_completed_at := Some now\<rparr>)\<rparr>
           | Inl err \<Rightarrow>
               s\<lparr>a_tasks := (a_tasks s)(taskId \<mapsto>
                    task\<lparr>t_status := Failed, t_error := Some err,
                         t_failed_at := Some now\<rparr>)\<rparr>))"

text \<open>
  What Agent A does between two states: it answers a request on \<open>/rpc\<close> (the identifier
  drawn is new, as a UUID is), or one waiting \<open>processTask\<close> runs to its end.
\<close>

inductive agentA_step :: "text_functions \<Rightarrow> agentA \<Rightarrow> agentA \<Rightarrow> bool" for f where
  A_rpc: "taskId \<notin> dom (a_tasks s) \<Longrightarrow>
          agentA_step f s (snd (agentA_rpc taskId now req s))"
| A_run: "(taskId, method, params) \<in> set (a_pending s) \<Longrightarrow>
          agentA_step f s
            (processTaskA f now taskId method params
               (s\<lparr>a_pending := remove1 (taskId, method, params) (a_pending s)\<rparr>))"

definition agentA_init :: agentA where
  "agentA_init = \<lparr>a_tasks = Map.empty, a_pending = []\<rparr>"

inductive agentA_reachable :: "text_functions \<Rightarrow> agentA \<Rightarrow> bool" for f where
  A_init: "agentA_reachable f agentA_init"
| A_next: "agentA_reachable f s \<Longrightarrow> agentA_step f s s' \<Longrightarrow> agentA_reachable f s'"

subsection \<open>Agent E, the intelligent orchestrator (agent-e-server.js)\<close>

text \<open>String operations of JavaScript on Latin-1 text.\<close>

definition is_space :: "char \<Rightarrow> bool" where
  "is_space c = (of_char c \<in> {9, 10, 11, 12, 13, 32, 160 :: nat})"

definition to_lower_char :: "char \<Rightarrow> char" where
  "to_lower_char c =
     (let n = of_char c :: nat
      in if (65 \<le> n \<and> n \<le> 90) \<or> (192 \<le> n \<and> n \<le> 222 \<and> n \<noteq> 215)
         then char_of (n + 32) else c)"

definition toLowerCase :: "string \<Rightarrow> string" where
  "toLowerCase s = map to_lower_char s"

text \<open>
  \<open>s.split(/\s+/)\<close>: the pieces between the maximal runs of white space, the empty
  pieces at the two ends included. \<open>cur\<close> is the piece being read, reversed; \<open>in_run\<close>
  says that the previous character was white space.
\<close>

fun split_spaces_from :: "string \<Rightarrow> string \<Rightarrow> bool \<Rightarrow> string list" where
  "split_spaces_from [] cur in_run = [rev cur]"
| "split_spaces_from (c # cs) cur in_run =
     (if is_space c then
        (if in_run then split_spaces_from cs [] True
         else rev cur # split_spaces_from cs [] True)
      else split_spaces_from cs (c # cur) False)"

definition split_spaces :: "string \<Rightarrow> string list" where
  "split_spaces s = split_spaces_from s [] False"

text \<open>\<open>s.includes(sub)\<close>.\<close>

fun str_includes :: "string \<Rightarrow> string \<Rightarrow> bool" where
  "str_includes [] sub = (sub = [])"
| "str_includes (c # cs) sub = (prefix sub (c # cs) \<or> str_includes cs sub)"

text \<open>
  The local routines that no claim looks into are parameters of the model:
  \<open>analyzeTextBasic\<close> (text statistics) and \<open>languageFallback\<close> (regular-expression
  language scores), both pure and total on strings, and the text of \<open>delegation_rate\<close>,
  computed from the two counters with \<open>toFixed(1)\<close>.
\<close>

record local_text =
  analyzeTextBasic :: "string \<Rightarrow> json"
  languageFallback :: "string \<Rightarrow> json"
  delegation_rate :: "nat \<Rightarrow> nat \<Rightarrow> string"

definition positiveWords :: "string list" where
  "positiveWords = [''good'', ''great'', ''excellent'', ''amazing'', ''wonderful'',
     ''fantastic'', ''love'', ''happy'', ''joy'']"

definition negativeWords :: "string list" where
  "negativeWords = [''bad'', ''terrible'', ''awful'', ''hate'', ''sad'', ''angry'',
     ''disappointed'', ''horrible'', ''worst'']"

definition sentiment_label :: "nat \<Rightarrow> nat \<Rightarrow> string" where
  "sentiment_label positive negative =
     (if negative < positive then ''positive''
      else if positive < negative then ''negative''
      else ''neutral'')"

text \<open>
  The score in exact arithmetic. The source computes it in doubles, where
  \<open>0.3 + 3 * 0.1\<close> is \<open>0.6000000000000001\<close>; the label, the confidence and the word
  counts are the same in both.
\<close>

definition sentiment_score :: "nat \<Rightarrow> nat \<Rightarrow> rat" where
  "sentiment_score positive negative =
     (if negative < positive then
        min (8 / 10) (3 / 10 + of_nat (positive - negative) * (1 / 10))
      else if positive < negative then
        max (- (8 / 10)) (- (3 / 10) - of_nat (negative - positive) * (1 / 10))
      else 0)"

definition sentimentFallback :: "string \<Rightarrow> json" where
  "sentimentFallback text =
     (let words = split_spaces (toLowerCase text);
          positive = length (filter (\<lambda>word. word \<in> set positiveWords) words);
          negative = length (filter (\<lambda>word. word \<in> set negativeWords) words);
          sentiment = sentiment_label positive negative;
          score = sentiment_score positive negative
      in JObj [(''sentiment'', JStr sentiment),
               (''score'', JNum score),
               (''confidence'', JNum (if 0 < \<bar>score\<bar> then 6 / 10 else 4 / 10)),
               (''processed_by'', JStr ''Agent E (fallback sentiment)''),
               (''details'', JObj [(''positive_words'', JNum (of_nat positive)),
                                   (''negative_words'', JNum (of_nat negative)),
                                   (''total_words'', JNum (of_nat (length words)))])])"

text \<open>An entry of \<open>this.discoveredAgents\<close>.\<close>

record discovered_agent =
  d_id :: string
  d_name :: string
  d_type :: string
  d_url :: string
  d_capabilities :: "json list"
  d_last_seen :: nat
  d_card :: agent_card

text \<open>
  The state of Agent E. \<open>discoveredAgents\<close> is the \<open>Map\<close> in insertion order; \<open>e_now\<close> is
  the wall clock, advanced by every awaited call and sleep; \<open>e_pending\<close> are the calls
  of \<open>processTask\<close> that have not run yet.
\<close>

record agentE =
  e_port :: nat
  e_tasks :: "string \<rightharpoonup> task"
  e_pending :: "(string \<times> json \<times> json) list"
  discoveredAgents :: "(string \<times> discovered_agent) list"
  lastDiscovery :: "nat option"
  delegationCount :: nat
  fallbackCount :: nat
  e_now :: nat

text \<open>
  The \<open>catch\<close> block of \<open>performDiscovery\<close>: every entry whose url includes \<open>:${port}\<close> is
  deleted, by its \<open>id\<close>.
\<close>

definition remove_unreachable :: "nat \<Rightarrow> (string \<times> discovered_agent) list \<Rightarrow> (string \<times> discovered_agent) list" where
  "remove_unreachable port regs =
     (let agentsToRemove =
            filter (\<lambda>agent. str_includes (d_url agent) (CHR '':'' # string_of_nat port))
              (map snd regs)
      in fold (\<lambda>agent regs'. AList.delete (d_id agent) regs') agentsToRemove regs)"

text \<open>The body of the loop over the ports, for one port.\<close>

definition discover_port :: "world \<Rightarrow> nat \<Rightarrow> agentE \<Rightarrow> agentE" where
  "discover_port w port s =
     (if port = e_port s then s
      else
        (let agentUrl = localhost_url port
         in case axios_get w (agentUrl @ ''/status'') (Some 2000) (e_now s) of
              (t1, Inl err) \<Rightarrow>
                s\<lparr>discoveredAgents := remove_unreachable port (discoveredAgents s),
                  e_now := t1\<rparr>
            | (t1, Inr data) \<Rightarrow>
                (case get_prop data ''status'' of
                   Inl err \<Rightarrow>
                     s\<lparr>discoveredAgents := remove_unreachable port (discoveredAgents s),
                       e_now := t1\<rparr>
                 | Inr status \<Rightarrow>
                     if status = JStr ''ok'' then
                       (case axios_get_card w (agentUrl @ ''/agent-card'') (Some 2000) t1 of
                          (t2, Inl err) \<Rightarrow>
                            s\<lparr>discoveredAgents :=
                                remove_unreachable port (discoveredAgents s),
                              e_now := t2\<rparr>
                        | (t2, Inr agentCard) \<Rightarrow>
                            s\<lparr>discoveredAgents :=
                                AList.update (card_id agentCard)
                                  \<lparr>d_id = card_id agentCard, d_name = card_name agentCard,
                                   d_type = card_type agentCard, d_url = agentUrl,
                                   d_capabilities = card_capabilities agentCard,
                                   d_last_seen = t2, d_card = agentCard\<rparr>
                                  (discoveredAgents s),
                              e_now := t2\<rparr>)
                     else s\<lparr>e_now := t1\<rparr>)))"

definition portRange :: "nat list" where
  "portRange = [4001, 4002, 4003, 4004]"

definition performDiscovery :: "world \<Rightarrow> agentE \<Rightarrow> agentE" where
  "performDiscovery w s =
     (let s' = fold (discover_port w) portRange s
      in s'\<lparr>lastDiscovery := Some (e_now s')\<rparr>)"

definition findAgentByType :: "agentE \<Rightarrow> string \<Rightarrow> discovered_agent option" where
  "findAgentByType s type = find (\<lambda>agent. d_type agent = type) (map snd (discoveredAgents s))"

text \<open>
  \<open>waitForTaskCompletion(agentUrl, taskId, maxWaitTime)\<close>. Each poll has a 2 s timeout;
  after an unfinished poll the loop sleeps 500 ms. Everything thrown inside the \<open>try\<close>
  block, the \<open>Task failed\<close> error included, is caught by its \<open>catch\<close>, which leaves the
  loop; the function then throws the timeout error.
\<close>

function waitForTaskCompletion_loop :: "world \<Rightarrow> string \<Rightarrow> json \<Rightarrow> nat \<Rightarrow> nat \<Rightarrow> nat \<Rightarrow> nat \<times> (js_error + json)" where
  "waitForTaskCompletion_loop w agentUrl taskId maxWaitTime startTime now =
     (if now - startTime < maxWaitTime then
        (case axios_get_task w agentUrl taskId (Some 2000) now of
           (t1, Inl err) \<Rightarrow> (t1, Inl (TaskTimeout taskId))
         | (t1, Inr task) \<Rightarrow>
             (case get_prop task ''status'' of
                Inl err \<Rightarrow> (t1, Inl (TaskTimeout taskId))
              | Inr status \<Rightarrow>
                  if status = JStr ''completed'' then (t1, Inr (get_prop_opt task ''result''))
                  else if status = JStr ''failed'' then (t1, Inl (TaskTimeout taskId))
                  else waitForTaskCompletion_loop w agentUrl taskId maxWaitTime startTime
                         (t1 + 500)))
      else (now, Inl (TaskTimeout taskId)))"
  by pat_completeness auto
termination
  apply (relation "measure (\<lambda>(w, agentUrl, taskId, maxWaitTime, startTime, now).
                              startTime + maxWaitTime - now)")
   apply simp
  apply (auto dest: axios_get_task_later [OF sym])
  done

declare waitForTaskCompletion_loop.simps [simp del]

definition waitForTaskCompletion :: "world \<Rightarrow> string \<Rightarrow> json \<Rightarrow> nat \<Rightarrow> nat \<Rightarrow> nat \<times> (js_error + json)" where
  "waitForTaskCompletion w agentUrl taskId maxWaitTime now =
     waitForTaskCompletion_loop w agentUrl taskId maxWaitTime now now"

text \<open>
  \<open>delegateToAgent(agent, method, params)\<close> called at time \<open>now\<close>: the time it settles and
  what it returns or throws.
\<close>

definition delegateToAgent :: "world \<Rightarrow> discovered_agent \<Rightarrow> string \<Rightarrow> json \<Rightarrow> nat \<Rightarrow> nat \<times> (js_error + json)" where
  "delegateToAgent w agent method params now =
     (case axios_post w (d_url agent @ ''/rpc'')
             (JObj [(''jsonrpc'', JStr ''2.0''), (''method'', JStr method),
                    (''params'', params), (''id'', JStr (uuidv4 w now))])
             (Some 5000) now of
        (t1, Inl err) \<Rightarrow> (t1, Inl err)
      | (t1, Inr data) \<Rightarrow>
          (case get_prop data ''error'' of
             Inl err \<Rightarrow> (t1, Inl err)
           | Inr error \<Rightarrow>
               if truthy error then (t1, Inl (AgentError (get_prop_opt error ''message'')))
               else
                 (let result = get_prop_opt data ''result'';
                      task_id = get_prop_opt result ''task_id''
                  in if truthy task_id
                     then waitForTaskCompletion w (d_url agent) task_id 10000 t1
                     else (t1, Inr result))))"

text \<open>
  A result object under construction is the list of its properties in insertion
  order; \<open>obj.k = v\<close> is \<open>AList.update k v\<close>, \<open>obj.k\<close> is \<open>read_prop\<close>.
\<close>

definition read_prop :: "(string \<times> json) list \<Rightarrow> string \<Rightarrow> json" where
  "read_prop obj k = (case map_of obj k of None \<Rightarrow> JUndefined | Some v \<Rightarrow> v)"

fun array_push :: "json \<Rightarrow> json \<Rightarrow> json" where
  "array_push (JArr xs) x = JArr (xs @ [x])"
| "array_push v x = v"

text \<open>A destructuring default \<open>{ k = d }\<close> applies when the property is \<open>undefined\<close>.\<close>

definition with_default :: "json \<Rightarrow> json \<Rightarrow> json" where
  "with_default d v = (if v = JUndefined then d else v)"

text \<open>
  The sentiment block of \<open>intelligentTextAnalysis\<close>, run on the result object and the
  state: delegate to the first agent of type \<open>sentiment-analyzer\<close>, or fall back.
\<close>

definition analysis_sentiment :: "world \<Rightarrow> string \<Rightarrow> (string \<times> json) list \<times> agentE \<Rightarrow> (string \<times> json) list \<times> agentE" where
  "analysis_sentiment w text rs =
     (case rs of (result, s) \<Rightarrow>
        (case findAgentByType s ''sentiment-analyzer'' of
           Some sentimentAgent \<Rightarrow>
             (case delegateToAgent w sentimentAgent ''sentiment_analysis''
                     (JObj [(''text'', JStr text)]) (e_now s) of
                (t1, Inr sentimentResult) \<Rightarrow>
                  (let r1 = AList.update ''sentiment_analysis'' sentimentResult result;
                       r2 = AList.update ''delegation_used'' (JBool True) r1;
                       r3 = AList.update ''agents_called''
                              (array_push (read_prop r2 ''agents_called'')
                                 (JStr ''Agent C (sentiment)'')) r2
                   in (r3, s\<lparr>e_now := t1, delegationCount := delegationCount s + 1\<rparr>))
              | (t1, Inl error) \<Rightarrow>
                  (let r1 = AList.update ''sentiment_analysis'' (sentimentFallback text) result;
                       r2 = AList.update ''fallback_used'' (JStr ''sentiment'') r1
                   in (r2, s\<lparr>e_now := t1, fallbackCount := fallbackCount s + 1\<rparr>)))
         | None \<Rightarrow>
             (let r1 = AList.update ''sentiment_analysis'' (sentimentFallback text) result;
                  r2 = AList.update ''fallback_used'' (JStr ''sentiment'') r1
              in (r2, s\<lparr>fallbackCount := fallbackCount s + 1\<rparr>))))"

text \<open>
  \<open>result.fallback_used = result.fallback_used ? [result.fallback_used, 'language'] :
  'language'\<close>.
\<close>

definition add_language_fallback :: "(string \<times> json) list \<Rightarrow> (string \<times> json) list" where
  "add_language_fallback result =
     AList.update ''fallback_used''
       (if truthy (read_prop result ''fallback_used'')
        then JArr [read_prop result ''fallback_used'', JStr ''language'']
        else JStr ''language'') result"

text \<open>The language block of \<open>intelligentTextAnalysis\<close>.\<close>

definition analysis_language :: "world \<Rightarrow> local_text \<Rightarrow> string \<Rightarrow> (string \<times> json) list \<times> agentE \<Rightarrow> (string \<times> json) list \<times> agentE" where
  "analysis_language w L text rs =
     (case rs of (result, s) \<Rightarrow>
        (case findAgentByType s ''language-detector'' of
           Some languageAgent \<Rightarrow>
             (case delegateToAgent w languageAgent ''language_detection''
                     (JObj [(''text'', JStr text)]) (e_now s) of
                (t1, Inr languageResult) \<Rightarrow>
                  (let r1 = AList.update ''language_detection'' languageResult result;
                       r2 = AList.update ''delegation_used'' (JBool True) r1;
                       r3 = AList.update ''agents_called''
                              (array_push (read_prop r2 ''agents_called'')
                                 (JStr ''Agent D (language)'')) r2
                   in (r3, s\<lparr>e_now := t1, delegationCount := delegationCount s + 1\<rparr>))
              | (t1, Inl error) \<Rightarrow>
                  (let r1 = AList.update ''language_detection'' (languageFallback L text) result;
                       r2 = add_language_fallback r1
                   in (r2, s\<lparr>e_now := t1, fallbackCount := fallbackCount s + 1\<rparr>)))
         | None \<Rightarrow>
             (let r1 = AList.update ''language_detection'' (languageFallback L text) result;
                  r2 = add_language_fallback r1
              in (r2, s\<lparr>fallbackCount := fallbackCount s + 1\<rparr>))))"

text \<open>
  \<open>intelligentTextAnalysis(params)\<close>, run from its call to its return with no other
  handler in between. Destructuring \<open>params\<close> throws on \<open>undefined\<close> and \<open>null\<close>; a truthy
  \<open>text\<close> that is not a string has no \<open>split\<close>, so \<open>analyzeTextBasic\<close> throws.
\<close>

definition intelligentTextAnalysis :: "world \<Rightarrow> local_text \<Rightarrow> json \<Rightarrow> agentE \<Rightarrow> (js_error + json) \<times> agentE" where
  "intelligentTextAnalysis w L params s =
     (case get_prop params ''text'' of
        Inl err \<Rightarrow> (Inl err, s)
      | Inr text \<Rightarrow>
          (let include_sentiment =
                 with_default (JBool True) (get_prop_opt params ''include_sentiment'');
               include_language =
                 with_default (JBool True) (get_prop_opt params ''include_language'')
           in if \<not> truthy text then (Inl TextRequired, s)
              else
                (case text of
                   JStr str \<Rightarrow>
                     (let result = [(''text_analysis'', analyzeTextBasic L str),
                                    (''delegation_used'', JBool False),
                                    (''agents_called'', JArr [])];
                          s1 = (if discoveredAgents s = [] then performDiscovery w s else s);
                          rs1 = (if truthy include_sentiment
                                 then analysis_sentiment w str (result, s1)
                                 else (result, s1));
                          rs2 = (if truthy include_language
                                 then analysis_language w L str rs1
                                 else rs1)
                      in (Inr (JObj (fst rs2)), snd rs2))
                 | other \<Rightarrow> (Inl (TypeError ''text.split''), s))))"

text \<open>
  The result object of \<open>smartTextProcessing\<close> while it is built: its top-level
  properties in insertion order, and the arrays and counters nested in it, which the
  code updates in place.
\<close>

record smart_result =
  sm_props :: "(string \<times> json) list"
  operations_performed :: "string list"
  agents_used :: "string list"
  fallbacks_used :: "string list"
  total_delegations :: nat
  total_fallbacks :: nat

definition smart_result_json :: "smart_result \<Rightarrow> json" where
  "smart_result_json r =
     JObj (AList.update ''delegation_summary''
             (JObj [(''agents_used'', JArr (map JStr (agents_used r))),
                    (''fallbacks_used'', JArr (map JStr (fallbacks_used r))),
                    (''total_delegations'', JNum (of_nat (total_delegations r))),
                    (''total_fallbacks'', JNum (of_nat (total_fallbacks r)))])
             (AList.update ''operations_performed''
                (JArr (map JStr (operations_performed r))) (sm_props r)))"

text \<open>A local text routine called on a value that may not be a string.\<close>

definition on_text :: "(string \<Rightarrow> json) \<Rightarrow> string \<Rightarrow> json \<Rightarrow> js_error + json" where
  "on_text f name text = (case text of JStr str \<Rightarrow> Inr (f str) | other \<Rightarrow> Inl (TypeError name))"

text \<open>\<open>case 'sentiment'\<close> of the loop of \<open>smartTextProcessing\<close>.\<close>

definition smart_sentiment :: "world \<Rightarrow> json \<Rightarrow> smart_result \<Rightarrow> agentE \<Rightarrow> (js_error + smart_result) \<times> agentE" where
  "smart_sentiment w text r s =
     (case findAgentByType s ''sentiment-analyzer'' of
        Some sentimentAgent \<Rightarrow>
          (case delegateToAgent w sentimentAgent ''sentiment_analysis''
                  (JObj [(''text'', text)]) (e_now s) of
             (t1, Inr delegated) \<Rightarrow>
               (Inr (r\<lparr>sm_props := AList.update ''sentiment'' delegated (sm_props r),
                       agents_used := agents_used r @ [''Agent C (sentiment)''],
                       total_delegations := total_delegations r + 1,
                       operations_performed := operations_performed r @ [''sentiment_analysis'']\<rparr>),
                s\<lparr>e_now := t1, delegationCount := delegationCount s + 1\<rparr>)
           | (t1, Inl error) \<Rightarrow>
               (case on_text sentimentFallback ''text.toLowerCase'' text of
                  Inl err \<Rightarrow> (Inl err, s\<lparr>e_now := t1\<rparr>)
                | Inr local \<Rightarrow>
                    (Inr (r\<lparr>sm_props := AList.update ''sentiment'' local (sm_props r),
                            fallbacks_used := fallbacks_used r @ [''sentiment''],
                            total_fallbacks := total_fallbacks r + 1,
                            operations_performed :=
                              operations_performed r @ [''sentiment_analysis'']\<rparr>),
                     s\<lparr>e_now := t1, fallbackCount := fallbackCount s + 1\<rparr>)))
      | None \<Rightarrow>
          (case on_text sentimentFallback ''text.toLowerCase'' text of
             Inl err \<Rightarrow> (Inl err, s)
           | Inr local \<Rightarrow>
               (Inr (r\<lparr>sm_props := AList.update ''sentiment'' local (sm_props r),
                       fallbacks_used := fallbacks_used r @ [''sentiment''],
                       total_fallbacks := total_fallbacks r + 1,
                       operations_performed := operations_performed r @ [''sentiment_analysis'']\<rparr>),
                s\<lparr>fallbackCount := fallbackCount s + 1\<rparr>)))"

text \<open>\<open>case 'language'\<close> of the loop of \<open>smartTextProcessing\<close>.\<close>

definition smart_language :: "world \<Rightarrow> local_text \<Rightarrow> json \<Rightarrow> smart_result \<Rightarrow> agentE \<Rightarrow> (js_error + smart_result) \<times> agentE" where
  "smart_language w L text r s =
     (case findAgentByType s ''language-detector'' of
        Some languageAgent \<Rightarrow>
          (case delegateToAgent w languageAgent ''language_detection''
                  (JObj [(''text'', text)]) (e_now s) of
             (t1, Inr delegated) \<Rightarrow>
               (Inr (r\<lparr>sm_props := AList.update ''language'' delegated (sm_props r),
                       agents_used := agents_used r @ [''Agent D (language)''],
                       total_delegations := total_delegations r + 1,
                       operations_performed := operations_performed r @ [''language_detection'']\<rparr>),
                s\<lparr>e_now := t1, delegationCount := delegationCount s + 1\<rparr>)
           | (t1, Inl error) \<Rightarrow>
               (case on_text (languageFallback L) ''text.match'' text of
                  Inl err \<Rightarrow> (Inl err, s\<lparr>e_now := t1\<rparr>)
                | Inr local \<Rightarrow>
                    (Inr (r\<lparr>sm_props := AList.update ''language'' local (sm_props r),
                            fallbacks_used := fallbacks_used r @ [''language''],
                            total_fallbacks := total_fallbacks r + 1,
                            operations_performed :=
                              operations_performed r @ [''language_detection'']\<rparr>),
                     s\<lparr>e_now := t1, fallbackCount := fallbackCount s + 1\<rparr>)))
      | None \<Rightarrow>
          (case on_text (languageFallback L) ''text.match'' text of
             Inl err \<Rightarrow> (Inl err, s)
           | Inr local \<Rightarrow>
               (Inr (r\<lparr>sm_props := AList.update ''language'' local (sm_props r),
                       fallbacks_used := fallbacks_used r @ [''language''],
                       total_fallbacks := total_fallbacks r + 1,
                       operations_performed := operations_performed r @ [''language_detection'']\<rparr>),
                s\<lparr>fallbackCount := fallbackCount s + 1\<rparr>)))"

text \<open>The \<open>switch (operation)\<close>; an unknown operation is only logged.\<close>

definition smart_operation :: "world \<Rightarrow> local_text \<Rightarrow> json \<Rightarrow> json \<Rightarrow> smart_result \<Rightarrow> agentE \<Rightarrow> (js_error + smart_result) \<times> agentE" where
  "smart_operation w L text operation r s =
     (if operation = JStr ''analyze'' then
        (case on_text (analyzeTextBasic L) ''text.split'' text of
           Inl err \<Rightarrow> (Inl err, s)
         | Inr basic \<Rightarrow>
             (Inr (r\<lparr>sm_props := AList.update ''basic_analysis'' basic (sm_props r),
                     operations_performed := operations_performed r @ [''basic_analysis'']\<rparr>),
              s))
      else if operation = JStr ''sentiment'' then smart_sentiment w text r s
      else if operation = JStr ''language'' then smart_language w L text r s
      else (Inr r, s))"

fun smart_operations :: "world \<Rightarrow> local_text \<Rightarrow> json \<Rightarrow> json list \<Rightarrow> smart_result \<Rightarrow> agentE \<Rightarrow> (js_error + smart_result) \<times> agentE" where
  "smart_operations w L text [] r s = (Inr r, s)"
| "smart_operations w L text (operation # rest) r s =
     (case smart_operation w L text operation r s of
        (Inl err, s') \<Rightarrow> (Inl err, s')
      | (Inr r', s') \<Rightarrow> smart_operations w L text rest r' s')"

text \<open>What \<open>for (const operation of operations)\<close> iterates over.\<close>

fun iterate :: "json \<Rightarrow> js_error + json list" where
  "iterate (JArr xs) = Inr xs"
| "iterate (JStr str) = Inr (map (\<lambda>c. JStr [c]) str)"
| "iterate v = Inl (TypeError ''operations is not iterable'')"

definition smartTextProcessing :: "world \<Rightarrow> local_text \<Rightarrow> json \<Rightarrow> agentE \<Rightarrow> (js_error + json) \<times> agentE" where
  "smartTextProcessing w L params s =
     (case get_prop params ''text'' of
        Inl err \<Rightarrow> (Inl err, s)
      | Inr text \<Rightarrow>
          (let operations =
                 with_default (JArr [JStr ''analyze'', JStr ''sentiment'', JStr ''language''])
                   (get_prop_opt params ''operations'')
           in if \<not> truthy text then (Inl TextRequired, s)
              else
                (let result = \<lparr>sm_props = [(''processed_text'', text),
                                            (''operations_performed'', JArr []),
                                            (''delegation_summary'', JObj [])],
                               operations_performed = [], agents_used = [],
                               fallbacks_used = [], total_delegations = 0,
                               total_fallbacks = 0\<rparr>;
                     s1 = (if discoveredAgents s = [] then performDiscovery w s else s)
                 in case iterate operations of
                      Inl err \<Rightarrow> (Inl err, s1)
                    | Inr ops \<Rightarrow>
                        (case smart_operations w L text ops result s1 of
                           (Inl err, s2) \<Rightarrow> (Inl err, s2)
                         | (Inr r, s2) \<Rightarrow> (Inr (smart_result_json r), s2)))))"

definition agentId_E :: string where
  "agentId_E = ''intelligent-orchestrator-agent-e''"

definition getOrchestratorStatus :: "local_text \<Rightarrow> agentE \<Rightarrow> json" where
  "getOrchestratorStatus L s =
     JObj [(''agent_id'', JStr agentId_E),
           (''port'', JNum (of_nat (e_port s))),
           (''discovered_agents'',
              JArr (map (\<lambda>(k, agent).
                      JObj [(''id'', JStr k), (''name'', JStr (d_name agent)),
                            (''type'', JStr (d_type agent)), (''url'', JStr (d_url agent)),
                            (''last_seen'', JNum (of_nat (d_last_seen agent))),
                            (''capabilities'',
                               JNum (of_nat (length (d_capabilities agent))))])
                    (discoveredAgents s))),
           (''delegation_metrics'',
              JObj [(''total_delegations'', JNum (of_nat (delegationCount s))),
                    (''total_fallbacks'', JNum (of_nat (fallbackCount s))),
                    (''delegation_rate'',
                       JStr (delegation_rate L (delegationCount s) (fallbackCount s)))]),
           (''discovery_info'',
              JObj [(''last_discovery'',
                       (case lastDiscovery s of None \<Rightarrow> JNull | Some t \<Rightarrow> JNum (of_nat t))),
                    (''discovery_interval_ms'', JNum 30000),
                    (''agents_discovered'', JNum (of_nat (length (discoveredAgents s))))])]"

definition forceDiscovery :: "world \<Rightarrow> agentE \<Rightarrow> json \<times> agentE" where
  "forceDiscovery w s =
     (let s' = performDiscovery w s
      in (JObj [(''message'', JStr ''Discovery completed''),
                (''discovered_agents'', JNum (of_nat (length (discoveredAgents s')))),
                (''timestamp'', JNum (of_nat (e_now s')))], s'))"

text \<open>The \<open>switch (method)\<close> of Agent E's \<open>processTask\<close>.\<close>

definition dispatchE :: "world \<Rightarrow> local_text \<Rightarrow> json \<Rightarrow> json \<Rightarrow> agentE \<Rightarrow> (js_error + json) \<times> agentE" where
  "dispatchE w L method params s =
     (if method = JStr ''intelligent_text_analysis'' then intelligentTextAnalysis w L params s
      else if method = JStr ''smart_text_processing'' then smartTextProcessing w L params s
      else if method = JStr ''orchestrator_status'' then (Inr (getOrchestratorStatus L s), s)
      else if method = JStr ''force_discovery'' then
        (case forceDiscovery w s of (result, s') \<Rightarrow> (Inr result, s'))
      else (Inl (UnknownMethod method), s))"

text \<open>
  \<open>processTask\<close> of Agent E, run from its call to its end: the handler, then the three
  assignments of the \<open>try\<close> block or of the \<open>catch\<close> block, with no \<open>await\<close> between them.
\<close>

definition processTaskE :: "world \<Rightarrow> local_text \<Rightarrow> string \<Rightarrow> json \<Rightarrow> json \<Rightarrow> agentE \<Rightarrow> agentE" where
  "processTaskE w L taskId method params s =
     (case dispatchE w L method params s of
        (Inr result, s') \<Rightarrow>
          (case e_tasks s' taskId of
             None \<Rightarrow> s'
           | Some task \<Rightarrow>
               s'\<lparr>e_tasks := (e_tasks s')(taskId \<mapsto>
                     task\<lparr>t_status := Completed, t_result := Some result,
                          t_completed_at := Some (e_now s')\<rparr>)\<rparr>)
      | (Inl err, s') \<Rightarrow>
          (case e_tasks s' taskId of
             None \<Rightarrow> s'
           | Some task \<Rightarrow>
               s'\<lparr>e_tasks := (e_tasks s')(taskId \<mapsto>
                     task\<lparr>t_status := Failed, t_error := Some err,
                          t_completed_at := Some (e_now s')\<rparr>)\<rparr>))"

text \<open>
  The handler of \<open>POST /rpc\<close> of Agent E. It checks the envelope and that a method is
  given; it does not compare the method with the agent's capabilities. The call of
  \<open>processTask\<close> is recorded in \<open>e_pending\<close> and run by a later step. The source runs
  the call up to its first \<open>await\<close> before it sends the response; for a method that the
  \<open>switch\<close> does not know that is the whole call, so that there the record is already
  \<open>failed\<close> when the acceptance is sent, and the step that runs the call is to be read as
  following the acceptance at once.
\<close>

definition agentE_rpc :: "string \<Rightarrow> rpc_request \<Rightarrow> agentE \<Rightarrow> http_response \<times> agentE" where
  "agentE_rpc taskId req s =
     (if rq_jsonrpc req \<noteq> JStr ''2.0'' then
        (\<lparr>r_status = 400,
          r_body = RpcError (- 32600) InvalidRequest
                     (if truthy (rq_id req) then rq_id req else JNull)\<rparr>, s)
      else if \<not> truthy (rq_method req) then
        (\<lparr>r_status = 400,
          r_body = RpcError (- 32600) MethodRequired
                     (if truthy (rq_id req) then rq_id req else JNull)\<rparr>, s)
      else
        (let s1 = s\<lparr>e_tasks := (e_tasks s)(taskId \<mapsto>
                      \<lparr>t_id = taskId, t_status = Processing, t_method = rq_method req,
                       t_params = rq_params req, t_created_at = e_now s,
                       t_agent = None, t_result = None, t_error = None,
                       t_completed_at = None, t_failed_at = None\<rparr>)\<rparr>;
             s2 = s1\<lparr>e_pending := e_pending s1 @ [(taskId, rq_method req, rq_params req)]\<rparr>
         in (\<lparr>r_status = 200, r_body = RpcAccepted taskId (rq_id req)\<rparr>, s2)))"

text \<open>
  What Agent E does between two states: it answers a request on \<open>/rpc\<close> (the identifier
  drawn is new, as a UUID is), a waiting \<open>processTask\<close> runs, the periodic discovery
  runs, or time passes.
\<close>

inductive agentE_step :: "world \<Rightarrow> local_text \<Rightarrow> agentE \<Rightarrow> agentE \<Rightarrow> bool" for w L where
  E_rpc: "taskId \<notin> dom (e_tasks s) \<Longrightarrow> agentE_step w L s (snd (agentE_rpc taskId req s))"
| E_run: "(taskId, method, params) \<in> set (e_pending s) \<Longrightarrow>
          agentE_step w L s
            (processTaskE w L taskId method params
               (s\<lparr>e_pending := remove1 (taskId, method, params) (e_pending s)\<rparr>))"
| E_discovery: "agentE_step w L s (performDiscovery w s)"
| E_idle: "agentE_step w L s (s\<lparr>e_now := e_now s + d\<rparr>)"

definition agentE_init :: "nat \<Rightarrow> nat \<Rightarrow> agentE" where
  "agentE_init port now =
     \<lparr>e_port = port, e_tasks = Map.empty, e_pending = [], discoveredAgents = [],
      lastDiscovery = None, delegationCount = 0, fallbackCount = 0, e_now = now\<rparr>"

inductive agentE_reachable :: "world \<Rightarrow> local_text \<Rightarrow> agentE \<Rightarrow> bool" for w L where
  E_init: "agentE_reachable w L (agentE_init port now)"
| E_next: "agentE_reachable w L s \<Longrightarrow> agentE_step w L s s' \<Longrightarrow> agentE_reachable w L s'"

section \<open>Properties of task acceptance\<close>

subsection \<open>Unknown methods\<close>

text \<open>Agent A answers an unknown method with HTTP 400 and code -32601, and stores nothing.\<close>

lemma agentA_rpc_unknown_method:
  assumes "rq_jsonrpc req = JStr ''2.0''"
    and "rq_method req \<notin> set (map JStr supportedMethods)"
  shows "agentA_rpc taskId now req s
           = (\<lparr>r_status = 400,
               r_body = RpcError (- 32601) (MethodNotFound (rq_method req)) (rq_id req)\<rparr>, s)"
  using assms by (simp add: agentA_rpc_def)

text \<open>The methods \<open>processTask\<close> of Agent E knows.\<close>

definition knownMethodsE :: "string list" where
  "knownMethodsE = [''intelligent_text_analysis'', ''smart_text_processing'',
     ''orchestrator_status'', ''force_discovery'']"

lemma dispatchE_unknown_method:
  assumes "method \<notin> set (map JStr knownMethodsE)"
  shows "dispatchE w L method params s = (Inl (UnknownMethod method), s)"
  using assms by (simp add: dispatchE_def knownMethodsE_def)

text \<open>
  C1. The claim: an unknown method is answered with HTTP 400 and code -32601, and no
  task record is created. Agent A does so (\<open>agentA_rpc_unknown_method\<close>). Agent E does
  not: for a well-formed envelope whose method is any non-empty name that \<open>processTask\<close>
  does not know, it answers 200 \<open>accepted\<close> and stores a task record, which \<open>processTask\<close>
  then marks \<open>failed\<close> with \<open>Unknown method\<close>.
\<close>

theorem agentE_rpc_accepts_unknown_method:
  assumes "rq_jsonrpc req = JStr ''2.0''"
    and "rq_method req \<notin> set (map JStr knownMethodsE)"
    and "truthy (rq_method req)"
  shows "\<exists>s1 task.
           agentE_rpc taskId req s
             = (\<lparr>r_status = 200, r_body = RpcAccepted taskId (rq_id req)\<rparr>, s1)
         \<and> e_tasks s1 taskId = Some task
         \<and> t_status task = Processing
         \<and> (taskId, rq_method req, rq_params req) \<in> set (e_pending s1)
         \<and> e_tasks (processTaskE w L taskId (rq_method req) (rq_params req) s1) taskId
             = Some (task\<lparr>t_status := Failed,
                          t_error := Some (UnknownMethod (rq_method req)),
                          t_completed_at := Some (e_now s1)\<rparr>)"
  using assms
  by (simp add: agentE_rpc_def Let_def processTaskE_def dispatchE_unknown_method)

definition unknown_method_request :: rpc_request where
  "unknown_method_request =
     \<lparr>rq_jsonrpc = JStr ''2.0'', rq_method = JStr ''no_such_method'',
      rq_params = JObj [], rq_id = JStr ''req-1''\<rparr>"

theorem agentE_rpc_accepts_unknown_method_witness:
  "rq_jsonrpc unknown_method_request = JStr ''2.0''
   \<and> rq_method unknown_method_request \<notin> set (map JStr knownMethodsE)
   \<and> truthy (rq_method unknown_method_request)
   \<and> r_status (fst (agentE_rpc ''task-1'' unknown_method_request (agentE_init 4005 0))) = 200
   \<and> r_body (fst (agentE_rpc ''task-1'' unknown_method_request (agentE_init 4005 0)))
       = RpcAccepted ''task-1'' (JStr ''req-1'')
   \<and> e_tasks (snd (agentE_rpc ''task-1'' unknown_method_request (agentE_init 4005 0))) ''task-1''
       \<noteq> None"
proof -
  have envelope: "rq_jsonrpc unknown_method_request = JStr ''2.0''"
    by (simp add: unknown_method_request_def)
  have unknown: "rq_method unknown_method_request \<notin> set (map JStr knownMethodsE)"
    by (simp add: unknown_method_request_def knownMethodsE_def)
  have given: "truthy (rq_method unknown_method_request)"
    by (simp add: unknown_method_request_def)
  from agentE_rpc_accepts_unknown_method
         [OF envelope unknown given, of "''task-1''" "agentE_init 4005 0" world_down
            "\<lparr>analyzeTextBasic = (\<lambda>t. JNull), languageFallback = (\<lambda>t. JNull),
              delegation_rate = (\<lambda>d f. ''0%'')\<rparr>"]
  obtain s1 task where
    "agentE_rpc ''task-1'' unknown_method_request (agentE_init 4005 0)
       = (\<lparr>r_status = 200, r_body = RpcAccepted ''task-1'' (rq_id unknown_method_request)\<rparr>, s1)"
    and "e_tasks s1 ''task-1'' = Some task"
    by blast
  then show ?thesis
    using envelope unknown given by (simp add: unknown_method_request_def)
qed


subsection \<open>The accepted task exists when the response is sent\<close>

lemma agentA_rpc_accepted_stored:
  assumes "agentA_rpc taskId now req s = (resp, s1)" and "r_body resp = RpcAccepted tid rid"
  shows "tid \<in> dom (a_tasks s1)"
  using assms by (auto simp: agentA_rpc_def Let_def split: if_splits)

lemma agentE_rpc_accepted_stored:
  assumes "agentE_rpc taskId req s = (resp, s1)" and "r_body resp = RpcAccepted tid rid"
  shows "tid \<in> dom (e_tasks s1)"
  using assms by (auto simp: agentE_rpc_def Let_def split: if_splits)

lemma agentA_rpc_keeps_tasks: "dom (a_tasks s) \<subseteq> dom (a_tasks (snd (agentA_rpc taskId now req s)))"
  by (auto simp: agentA_rpc_def Let_def)

lemma processTaskA_dom: "dom (a_tasks (processTaskA f now taskId method params s)) = dom (a_tasks s)"
  by (auto simp: processTaskA_def split: option.splits sum.splits)

lemma agentA_step_keeps_tasks:
  assumes "agentA_step f s s'"
  shows "dom (a_tasks s) \<subseteq> dom (a_tasks s')"
  using assms
proof cases
  case (A_rpc taskId now req)
  then show ?thesis using agentA_rpc_keeps_tasks by simp
next
  case (A_run taskId m p now)
  then show ?thesis by (simp add: processTaskA_dom)
qed

lemma agentA_steps_keep_tasks:
  assumes "(agentA_step f)\<^sup>*\<^sup>* s s'"
  shows "dom (a_tasks s) \<subseteq> dom (a_tasks s')"
  using assms
proof (induction rule: rtranclp_induct)
  case base
  show ?case by simp
next
  case (step y z)
  with agentA_step_keeps_tasks [of f y z] show ?case by blast
qed

text \<open>No handler of Agent E touches the task store or the waiting calls.\<close>

definition same_store :: "agentE \<Rightarrow> agentE \<Rightarrow> bool" where
  "same_store s s' = (e_tasks s' = e_tasks s \<and> e_pending s' = e_pending s)"

lemma same_store_refl: "same_store s s"
  by (simp add: same_store_def)

lemma same_store_trans: "same_store s s' \<Longrightarrow> same_store s' s'' \<Longrightarrow> same_store s s''"
  by (simp add: same_store_def)

lemma discover_port_store: "same_store s (discover_port w port s)"
  by (simp add: discover_port_def same_store_def Let_def split: prod.splits sum.splits)

lemma fold_discover_port_store: "same_store s (fold (discover_port w) ports s)"
proof (induction ports arbitrary: s)
  case Nil
  show ?case by (simp add: same_store_refl)
next
  case (Cons p ports)
  from discover_port_store [of s w p] Cons [of "discover_port w p s"]
  show ?case by (simp add: same_store_def)
qed

lemma performDiscovery_store: "same_store s (performDiscovery w s)"
  using fold_discover_port_store [of s w portRange]
  by (simp add: performDiscovery_def Let_def same_store_def)

lemma analysis_sentiment_store: "same_store s (snd (analysis_sentiment w text (result, s)))"
  by (simp add: analysis_sentiment_def same_store_def Let_def
      split: option.splits prod.splits sum.splits)

lemma analysis_language_store: "same_store s (snd (analysis_language w L text (result, s)))"
  by (simp add: analysis_language_def same_store_def Let_def
      split: option.splits prod.splits sum.splits)

lemma analysis_sentiment_store_after:
  "same_store s (snd rs) \<Longrightarrow> same_store s (snd (analysis_sentiment w text rs))"
  using analysis_sentiment_store [of "snd rs" w "text" "fst rs"]
  by (simp add: same_store_def)

lemma analysis_language_store_after:
  "same_store s (snd rs) \<Longrightarrow> same_store s (snd (analysis_language w L text rs))"
  using analysis_language_store [of "snd rs" w L "text" "fst rs"]
  by (simp add: same_store_def)

lemma intelligentTextAnalysis_store: "same_store s (snd (intelligentTextAnalysis w L params s))"
  unfolding intelligentTextAnalysis_def Let_def
  by (auto split: sum.splits json.splits
      intro!: analysis_language_store_after analysis_sentiment_store_after
        performDiscovery_store same_store_refl)

lemma smart_sentiment_store: "same_store s (snd (smart_sentiment w text r s))"
  by (simp add: smart_sentiment_def same_store_def
      split: option.splits prod.splits sum.splits)

lemma smart_language_store: "same_store s (snd (smart_language w L text r s))"
  by (simp add: smart_language_def same_store_def
      split: option.splits prod.splits sum.splits)

lemma smart_operation_store: "same_store s (snd (smart_operation w L text operation r s))"
  by (simp add: smart_operation_def smart_sentiment_store smart_language_store same_store_refl
      split: sum.splits)

lemma smart_operations_store: "same_store s (snd (smart_operations w L text ops r s))"
proof (induction ops arbitrary: r s)
  case Nil
  show ?case by (simp add: same_store_refl)
next
  case (Cons operation rest)
  show ?case
  proof (cases "smart_operation w L text operation r s")
    case (Pair outcome s')
    with smart_operation_store [of s w L "text" operation r]
    have first: "same_store s s'" by simp
    show ?thesis
    proof (cases outcome)
      case (Inl err)
      with Pair first show ?thesis by simp
    next
      case (Inr r')
      with Pair first Cons [of s' r'] show ?thesis
        by (simp add: same_store_def)
    qed
  qed
qed

lemma smart_operations_store_after:
  "same_store s s1 \<Longrightarrow> smart_operations w L text ops r s1 = (outcome, s2) \<Longrightarrow> same_store s s2"
  using smart_operations_store [of s1 w L "text" ops r]
  by (simp add: same_store_def)

lemma smartTextProcessing_store: "same_store s (snd (smartTextProcessing w L params s))"
  unfolding smartTextProcessing_def Let_def
  by (auto split: sum.splits prod.splits
      intro: performDiscovery_store same_store_refl
      elim: smart_operations_store_after [rotated])

lemma dispatchE_store: "same_store s (snd (dispatchE w L method params s))"
  by (simp add: dispatchE_def intelligentTextAnalysis_store smartTextProcessing_store
      same_store_refl forceDiscovery_def Let_def performDiscovery_store)

lemma processTaskE_dom:
  "dom (e_tasks (processTaskE w L taskId method params s)) = dom (e_tasks s)"
proof (cases "dispatchE w L method params s")
  case (Pair outcome s')
  with dispatchE_store [of s w L "method" params] have "e_tasks s' = e_tasks s"
    by (simp add: same_store_def)
  with Pair show ?thesis
    by (auto simp: processTaskE_def split: sum.splits option.splits)
qed

lemma agentE_step_keeps_tasks:
  assumes "agentE_step w L s s'"
  shows "dom (e_tasks s) \<subseteq> dom (e_tasks s')"
  using assms
proof cases
  case (E_rpc taskId req)
  then show ?thesis by (auto simp: agentE_rpc_def Let_def)
next
  case (E_run taskId m p)
  then show ?thesis by (simp add: processTaskE_dom)
next
  case E_discovery
  with performDiscovery_store [of s w] show ?thesis by (simp add: same_store_def)
next
  case (E_idle d)
  then show ?thesis by simp
qed

lemma agentE_steps_keep_tasks:
  assumes "(agentE_step w L)\<^sup>*\<^sup>* s s'"
  shows "dom (e_tasks s) \<subseteq> dom (e_tasks s')"
  using assms
proof (induction rule: rtranclp_induct)
  case base
  show ?case by simp
next
  case (step y z)
  with agentE_step_keeps_tasks [of w L y z] show ?case by blast
qed

text \<open>
  C10. In both agents the handler of \<open>/rpc\<close> has stored the task record in the state in
  which it sends the acceptance response, and nothing the agent does afterwards removes
  a record: a status query for the returned task id, in that state or in any later one,
  is answered 200 with the record, never 404.
\<close>

theorem accepted_task_is_found:
  "(agentA_rpc taskId now req s = (resp, s1) \<and> r_body resp = RpcAccepted tid rid
      \<and> (agentA_step f)\<^sup>*\<^sup>* s1 s2
    \<longrightarrow> task_response_status (get_task (a_tasks s2) tid) = 200)
   \<and> (agentE_rpc taskIdE reqE e = (respE, e1) \<and> r_body respE = RpcAccepted tidE ridE
      \<and> (agentE_step w L)\<^sup>*\<^sup>* e1 e2
    \<longrightarrow> task_response_status (get_task (e_tasks e2) tidE) = 200)"
proof (intro conjI impI)
  assume "agentA_rpc taskId now req s = (resp, s1) \<and> r_body resp = RpcAccepted tid rid
      \<and> (agentA_step f)\<^sup>*\<^sup>* s1 s2"
  then have "tid \<in> dom (a_tasks s2)"
    using agentA_rpc_accepted_stored agentA_steps_keep_tasks by blast
  then show "task_response_status (get_task (a_tasks s2) tid) = 200"
    by (auto simp: get_task_def)
next
  assume "agentE_rpc taskIdE reqE e = (respE, e1) \<and> r_body respE = RpcAccepted tidE ridE
      \<and> (agentE_step w L)\<^sup>*\<^sup>* e1 e2"
  then have "tidE \<in> dom (e_tasks e2)"
    using agentE_rpc_accepted_stored agentE_steps_keep_tasks by blast
  then show "task_response_status (get_task (e_tasks e2) tidE) = 200"
    by (auto simp: get_task_def)
qed

definition analysis_request :: rpc_request where
  "analysis_request =
     \<lparr>rq_jsonrpc = JStr ''2.0'', rq_method = JStr ''text_analysis'',
      rq_params = JObj [(''text'', JStr ''hello world'')], rq_id = JStr ''req-1''\<rparr>"

definition status_request :: rpc_request where
  "status_request =
     \<lparr>rq_jsonrpc = JStr ''2.0'', rq_method = JStr ''orchestrator_status'',
      rq_params = JUndefined, rq_id = JStr ''req-2''\<rparr>"

text \<open>Text functions for the examples: each returns its first argument as \<open>text\<close>.\<close>

definition echo_functions :: text_functions where
  "echo_functions =
     \<lparr>analyzeText = (\<lambda>t. Inr [(''text'', t)]),
      transformText = (\<lambda>t operation. Inr [(''text'', t)]),
      validateText = (\<lambda>t validation_type. Inr [(''text'', t)])\<rparr>"

definition plain_text :: local_text where
  "plain_text =
     \<lparr>analyzeTextBasic = (\<lambda>t. JObj [(''char_count'', JNum (of_nat (length t)))]),
      languageFallback = (\<lambda>t. JObj [(''language'', JStr ''english'')]),
      delegation_rate = (\<lambda>delegations fallbacks. ''0%'')\<rparr>"

theorem accepted_task_is_found_witness:
  "r_body (fst (agentA_rpc ''task-1'' 5 analysis_request agentA_init))
     = RpcAccepted ''task-1'' (JStr ''req-1'')
   \<and> task_response_status
        (get_task
           (a_tasks (processTaskA echo_functions 1505 ''task-1'' (JStr ''text_analysis'')
              (JObj [(''text'', JStr ''hello world'')])
              ((snd (agentA_rpc ''task-1'' 5 analysis_request agentA_init))\<lparr>a_pending := []\<rparr>)))
           ''task-1'') = 200
   \<and> r_body (fst (agentE_rpc ''task-2'' status_request (agentE_init 4005 0)))
     = RpcAccepted ''task-2'' (JStr ''req-2'')
   \<and> task_response_status
        (get_task
           (e_tasks ((snd (agentE_rpc ''task-2'' status_request (agentE_init 4005 0)))
              \<lparr>e_now := 100\<rparr>)) ''task-2'') = 200"
proof -
  let ?s1 = "snd (agentA_rpc ''task-1'' 5 analysis_request agentA_init)"
  let ?s2 = "processTaskA echo_functions 1505 ''task-1'' (JStr ''text_analysis'')
              (JObj [(''text'', JStr ''hello world'')]) (?s1\<lparr>a_pending := []\<rparr>)"
  let ?e1 = "snd (agentE_rpc ''task-2'' status_request (agentE_init 4005 0))"
  let ?e2 = "?e1\<lparr>e_now := 100\<rparr>"
  have acceptedA: "r_body (fst (agentA_rpc ''task-1'' 5 analysis_request agentA_init))
     = RpcAccepted ''task-1'' (JStr ''req-1'')"
    by (simp add: agentA_rpc_def analysis_request_def supportedMethods_def Let_def)
  have pendingA: "a_pending ?s1
                    = [(''task-1'', JStr ''text_analysis'', JObj [(''text'', JStr ''hello world'')])]"
    by (simp add: agentA_rpc_def analysis_request_def supportedMethods_def Let_def
        agentA_init_def)
  have "agentA_step echo_functions ?s1
          (processTaskA echo_functions 1505 ''task-1'' (JStr ''text_analysis'')
             (JObj [(''text'', JStr ''hello world'')])
             (?s1\<lparr>a_pending := remove1 (''task-1'', JStr ''text_analysis'',
                                            JObj [(''text'', JStr ''hello world'')])
                                     (a_pending ?s1)\<rparr>))"
    by (rule A_run) (simp add: pendingA)
  then have stepA: "(agentA_step echo_functions)\<^sup>*\<^sup>* ?s1 ?s2"
    by (simp add: pendingA)
  have acceptedE: "r_body (fst (agentE_rpc ''task-2'' status_request (agentE_init 4005 0)))
     = RpcAccepted ''task-2'' (JStr ''req-2'')"
    by (simp add: agentE_rpc_def status_request_def Let_def)
  have "agentE_step world_down plain_text ?e1 (?e1\<lparr>e_now := e_now ?e1 + 100\<rparr>)"
    by (rule E_idle)
  then have stepE: "(agentE_step world_down plain_text)\<^sup>*\<^sup>* ?e1 ?e2"
    by (simp add: agentE_rpc_def status_request_def Let_def agentE_init_def)
  from accepted_task_is_found
         [of "''task-1''" 5 analysis_request agentA_init
             "fst (agentA_rpc ''task-1'' 5 analysis_request agentA_init)" ?s1
             "''task-1''" "JStr ''req-1''" echo_functions ?s2
             "''task-2''" status_request "agentE_init 4005 0"
             "fst (agentE_rpc ''task-2'' status_request (agentE_init 4005 0))" ?e1
             "''task-2''" "JStr ''req-2''" world_down plain_text ?e2]
    acceptedA stepA acceptedE stepE
  show ?thesis by simp
qed

subsection \<open>The task state machine\<close>

text \<open>
  What a reader of a task record may see: \<open>processing\<close> with neither result nor error,
  \<open>completed\<close> with a result (an object) and no error, \<open>failed\<close> with an error
  message and no result.
\<close>

definition task_consistent :: "task \<Rightarrow> bool" where
  "task_consistent t =
     (case t_status t of
        Processing \<Rightarrow> t_result t = None \<and> t_error t = None
      | Completed \<Rightarrow> (\<exists>props. t_result t = Some (JObj props)) \<and> t_error t = None
      | Failed \<Rightarrow> (\<exists>err. t_error t = Some err) \<and> t_result t = None)"

text \<open>
  What one step of the agent may do to a record: nothing, or move it from \<open>processing\<close>
  to \<open>completed\<close> or to \<open>failed\<close>.
\<close>

definition lifecycle_move :: "task \<Rightarrow> task \<Rightarrow> bool" where
  "lifecycle_move t t' =
     (t' = t \<or> (t_status t = Processing \<and> (t_status t' = Completed \<or> t_status t' = Failed)))"

text \<open>
  The invariant of a task store and the calls of \<open>processTask\<close> that wait: one waiting
  call per task at most, each for a stored task that is \<open>processing\<close>, and every stored
  record consistent.
\<close>

definition store_ok :: "(string \<rightharpoonup> task) \<Rightarrow> (string \<times> json \<times> json) list \<Rightarrow> bool" where
  "store_ok tasks pending =
     (distinct (map fst pending)
      \<and> (\<forall>tid. tid \<in> fst ` set pending \<longrightarrow> (\<exists>t. tasks tid = Some t \<and> t_status t = Processing))
      \<and> (\<forall>tid t. tasks tid = Some t \<longrightarrow> task_consistent t))"

lemma store_ok_empty: "store_ok Map.empty []"
  by (simp add: store_ok_def)

lemma store_ok_accept:
  assumes "store_ok tasks pending" and "tid \<notin> dom tasks"
    and "t_status t = Processing" and "t_result t = None" and "t_error t = None"
  shows "store_ok (tasks(tid \<mapsto> t)) (pending @ [(tid, m, p)])"
proof -
  from assms(1,2) have "tid \<notin> fst ` set pending"
    unfolding store_ok_def by (metis domI)
  with assms show ?thesis
    unfolding store_ok_def task_consistent_def by auto
qed

lemma distinct_fst_remove1:
  assumes "distinct (map fst pending)" and "(tid, rest) \<in> set pending"
  shows "tid \<notin> fst ` set (remove1 (tid, rest) pending)"
  using assms
proof (induction pending)
  case Nil
  then show ?case by simp
next
  case (Cons x pending)
  then show ?case by (cases x) (auto simp: image_iff)
qed

lemma store_ok_finish:
  assumes "store_ok tasks pending" and "(tid, m, p) \<in> set pending"
    and "task_consistent t'"
  shows "store_ok (tasks(tid \<mapsto> t')) (remove1 (tid, m, p) pending)"
proof -
  from assms(1) have d: "distinct (map fst pending)"
    by (simp add: store_ok_def)
  from distinct_fst_remove1 [OF d assms(2)]
  have gone: "tid \<notin> fst ` set (remove1 (tid, m, p) pending)" .
  have sub: "fst ` set (remove1 (tid, m, p) pending) \<subseteq> fst ` set pending"
    using set_remove1_subset [of "(tid, m, p)" pending] by blast
  have "distinct (map fst (remove1 (tid, m, p) pending))"
    using d by (induction pending) (auto simp: image_iff dest: notin_set_remove1)
  moreover have "\<forall>k. k \<in> fst ` set (remove1 (tid, m, p) pending)
                   \<longrightarrow> (\<exists>t. (tasks(tid \<mapsto> t')) k = Some t \<and> t_status t = Processing)"
  proof (intro allI impI)
    fix k
    assume k: "k \<in> fst ` set (remove1 (tid, m, p) pending)"
    with gone have "k \<noteq> tid" by blast
    moreover from k sub have "k \<in> fst ` set pending" by blast
    with assms(1) obtain t where "tasks k = Some t" "t_status t = Processing"
      unfolding store_ok_def by blast
    ultimately show "\<exists>t. (tasks(tid \<mapsto> t')) k = Some t \<and> t_status t = Processing"
      by simp
  qed
  moreover have "\<forall>k t. (tasks(tid \<mapsto> t')) k = Some t \<longrightarrow> task_consistent t"
    using assms(1,3) unfolding store_ok_def by auto
  ultimately show ?thesis
    unfolding store_ok_def by blast
qed

lemma store_ok_waiting:
  assumes "store_ok tasks pending" and "(tid, m, p) \<in> set pending"
  shows "\<exists>t. tasks tid = Some t \<and> t_status t = Processing \<and> t_result t = None
             \<and> t_error t = None"
proof -
  from assms obtain t where t: "tasks tid = Some t" "t_status t = Processing"
    unfolding store_ok_def by (metis fst_conv image_eqI)
  with assms(1) have "task_consistent t"
    unfolding store_ok_def by blast
  with t show ?thesis
    by (auto simp: task_consistent_def)
qed

text \<open>Agent A.\<close>

lemma agentA_rpc_store_ok:
  assumes "store_ok (a_tasks s) (a_pending s)" and "taskId \<notin> dom (a_tasks s)"
  shows "store_ok (a_tasks (snd (agentA_rpc taskId now req s)))
           (a_pending (snd (agentA_rpc taskId now req s)))"
  using assms by (simp add: agentA_rpc_def Let_def store_ok_accept)

lemma processTaskA_store_ok:
  assumes "store_ok (a_tasks s) (a_pending s)" and "(taskId, method, params) \<in> set (a_pending s)"
  shows "store_ok
           (a_tasks (processTaskA f now taskId method params
              (s\<lparr>a_pending := remove1 (taskId, method, params) (a_pending s)\<rparr>)))
           (a_pending (processTaskA f now taskId method params
              (s\<lparr>a_pending := remove1 (taskId, method, params) (a_pending s)\<rparr>)))"
proof -
  from store_ok_waiting [OF assms] obtain t
    where t: "a_tasks s taskId = Some t" "t_status t = Processing" "t_result t = None"
      "t_error t = None"
    by blast
  show ?thesis
  proof (cases "dispatchA f method params")
    case (Inl err)
    have "task_consistent (t\<lparr>t_status := Failed, t_error := Some err, t_failed_at := Some now\<rparr>)"
      using t by (simp add: task_consistent_def)
    from store_ok_finish [OF assms this] t Inl show ?thesis
      by (simp add: processTaskA_def)
  next
    case (Inr result)
    have "task_consistent
            (t\<lparr>t_status := Completed, t_result := Some (JObj result),
               t_completed_at := Some now\<rparr>)"
      using t by (simp add: task_consistent_def)
    from store_ok_finish [OF assms this] t Inr show ?thesis
      by (simp add: processTaskA_def)
  qed
qed

lemma agentA_step_store_ok:
  assumes "agentA_step f s s'" and "store_ok (a_tasks s) (a_pending s)"
  shows "store_ok (a_tasks s') (a_pending s')"
  using assms
proof cases
  case (A_rpc taskId now req)
  with assms(2) show ?thesis by (simp add: agentA_rpc_store_ok)
next
  case (A_run taskId m p now)
  with assms(2) show ?thesis by (simp add: processTaskA_store_ok)
qed

lemma agentA_reachable_store_ok:
  assumes "agentA_reachable f s"
  shows "store_ok (a_tasks s) (a_pending s)"
  using assms
proof induction
  case A_init
  show ?case by (simp add: agentA_init_def store_ok_empty)
next
  case (A_next s s')
  then show ?case using agentA_step_store_ok by blast
qed

lemma agentA_step_move:
  assumes "agentA_step f s s'" and "store_ok (a_tasks s) (a_pending s)"
    and "a_tasks s tid = Some t"
  shows "\<exists>t'. a_tasks s' tid = Some t' \<and> lifecycle_move t t'"
  using assms(1)
proof cases
  case (A_rpc taskId now req)
  with assms(3) have "taskId \<noteq> tid" by auto
  with A_rpc assms(3) show ?thesis
    by (auto simp: agentA_rpc_def Let_def lifecycle_move_def)
next
  case (A_run taskId m p now)
  from store_ok_waiting [OF assms(2) A_run(2)] obtain u
    where u: "a_tasks s taskId = Some u" "t_status u = Processing"
    by blast
  show ?thesis
  proof (cases "taskId = tid")
    case True
    with u assms(3) A_run(1) show ?thesis
      by (auto simp: processTaskA_def lifecycle_move_def split: sum.splits)
  next
    case False
    with u assms(3) A_run(1) show ?thesis
      by (auto simp: processTaskA_def lifecycle_move_def split: sum.splits)
  qed
qed

text \<open>Agent E.\<close>

lemma agentE_rpc_store_ok:
  assumes "store_ok (e_tasks s) (e_pending s)" and "taskId \<notin> dom (e_tasks s)"
  shows "store_ok (e_tasks (snd (agentE_rpc taskId req s)))
           (e_pending (snd (agentE_rpc taskId req s)))"
  using assms by (simp add: agentE_rpc_def Let_def store_ok_accept)

lemma intelligentTextAnalysis_object:
  "intelligentTextAnalysis w L params s = (Inr result, s') \<Longrightarrow> \<exists>props. result = JObj props"
  unfolding intelligentTextAnalysis_def Let_def
  by (auto split: sum.splits json.splits if_splits)

lemma smartTextProcessing_object:
  "smartTextProcessing w L params s = (Inr result, s') \<Longrightarrow> \<exists>props. result = JObj props"
  unfolding smartTextProcessing_def Let_def
  by (auto simp: smart_result_json_def split: sum.splits prod.splits if_splits)

text \<open>Every handler of Agent E returns an object.\<close>

lemma dispatchE_object:
  "dispatchE w L method params s = (Inr result, s') \<Longrightarrow> \<exists>props. result = JObj props"
  unfolding dispatchE_def
  by (auto simp: getOrchestratorStatus_def forceDiscovery_def Let_def
      dest: intelligentTextAnalysis_object smartTextProcessing_object split: if_splits)

lemma processTaskE_finish:
  assumes "e_tasks s taskId = Some t"
  shows "\<exists>s' t'. processTaskE w L taskId method params s = s'\<lparr>e_tasks := (e_tasks s)(taskId \<mapsto> t')\<rparr>
           \<and> e_pending s' = e_pending s
           \<and> ((\<exists>props. t' = t\<lparr>t_status := Completed, t_result := Some (JObj props),
                                 t_completed_at := Some (e_now s')\<rparr>)
              \<or> (\<exists>err. t' = t\<lparr>t_status := Failed, t_error := Some err,
                                t_completed_at := Some (e_now s')\<rparr>))"
proof (cases "dispatchE w L method params s")
  case (Pair outcome s')
  with dispatchE_store [of s w L "method" params]
  have same: "e_tasks s' = e_tasks s" "e_pending s' = e_pending s"
    by (simp_all add: same_store_def)
  show ?thesis
  proof (cases outcome)
    case (Inl err)
    with Pair same assms show ?thesis
      by (simp add: processTaskE_def) blast
  next
    case (Inr result)
    with Pair dispatchE_object [of w L "method" params s result s']
    obtain props where "result = JObj props" by blast
    with Inr Pair same assms show ?thesis
      by (simp add: processTaskE_def) blast
  qed
qed

lemma processTaskE_store_ok:
  assumes "store_ok (e_tasks s) (e_pending s)" and "(taskId, method, params) \<in> set (e_pending s)"
  shows "store_ok
           (e_tasks (processTaskE w L taskId method params
              (s\<lparr>e_pending := remove1 (taskId, method, params) (e_pending s)\<rparr>)))
           (e_pending (processTaskE w L taskId method params
              (s\<lparr>e_pending := remove1 (taskId, method, params) (e_pending s)\<rparr>)))"
proof -
  let ?s0 = "s\<lparr>e_pending := remove1 (taskId, method, params) (e_pending s)\<rparr>"
  from store_ok_waiting [OF assms] obtain t
    where t: "e_tasks s taskId = Some t" "t_status t = Processing" "t_result t = None"
      "t_error t = None"
    by blast
  then have "e_tasks ?s0 taskId = Some t" by simp
  from processTaskE_finish [OF this, of w L "method" params] obtain s' t'
    where fin: "processTaskE w L taskId method params ?s0
                  = s'\<lparr>e_tasks := (e_tasks ?s0)(taskId \<mapsto> t')\<rparr>"
      and pend: "e_pending s' = e_pending ?s0"
      and t': "(\<exists>props. t' = t\<lparr>t_status := Completed, t_result := Some (JObj props),
                                 t_completed_at := Some (e_now s')\<rparr>)
              \<or> (\<exists>err. t' = t\<lparr>t_status := Failed, t_error := Some err,
                                t_completed_at := Some (e_now s')\<rparr>)"
    by blast
  from t' t have "task_consistent t'"
    by (auto simp: task_consistent_def)
  from store_ok_finish [OF assms this] fin pend show ?thesis
    by simp
qed

lemma agentE_step_store_ok:
  assumes "agentE_step w L s s'" and "store_ok (e_tasks s) (e_pending s)"
  shows "store_ok (e_tasks s') (e_pending s')"
  using assms(1)
proof cases
  case (E_rpc taskId req)
  with assms(2) show ?thesis by (simp add: agentE_rpc_store_ok)
next
  case (E_run taskId m p)
  with assms(2) show ?thesis by (simp add: processTaskE_store_ok)
next
  case E_discovery
  with performDiscovery_store [of s w] assms(2) show ?thesis
    by (simp add: same_store_def)
next
  case (E_idle d)
  with assms(2) show ?thesis by simp
qed

lemma agentE_reachable_store_ok:
  assumes "agentE_reachable w L s"
  shows "store_ok (e_tasks s) (e_pending s)"
  using assms
proof induction
  case (E_init port now)
  show ?case by (simp add: agentE_init_def store_ok_empty)
next
  case (E_next s s')
  then show ?case using agentE_step_store_ok by blast
qed

lemma agentE_step_move:
  assumes "agentE_step w L s s'" and "store_ok (e_tasks s) (e_pending s)"
    and "e_tasks s tid = Some t"
  shows "\<exists>t'. e_tasks s' tid = Some t' \<and> lifecycle_move t t'"
  using assms(1)
proof cases
  case (E_rpc taskId req)
  with assms(3) have "taskId \<noteq> tid" by auto
  with E_rpc assms(3) show ?thesis
    by (auto simp: agentE_rpc_def Let_def lifecycle_move_def)
next
  case (E_run taskId m p)
  let ?s0 = "s\<lparr>e_pending := remove1 (taskId, m, p) (e_pending s)\<rparr>"
  from store_ok_waiting [OF assms(2) E_run(2)] obtain u
    where u: "e_tasks s taskId = Some u" "t_status u = Processing"
    by blast
  then have "e_tasks ?s0 taskId = Some u" by simp
  from processTaskE_finish [OF this, of w L m p] obtain s1 u'
    where fin: "processTaskE w L taskId m p ?s0
                  = s1\<lparr>e_tasks := (e_tasks ?s0)(taskId \<mapsto> u')\<rparr>"
      and u': "(\<exists>props. u' = u\<lparr>t_status := Completed, t_result := Some (JObj props),
                                 t_completed_at := Some (e_now s1)\<rparr>)
              \<or> (\<exists>err. u' = u\<lparr>t_status := Failed, t_error := Some err,
                                t_completed_at := Some (e_now s1)\<rparr>)"
    by blast
  show ?thesis
  proof (cases "taskId = tid")
    case True
    with u assms(3) E_run(1) fin u' show ?thesis
      by (auto simp: lifecycle_move_def)
  next
    case False
    with assms(3) E_run(1) fin show ?thesis
      by (auto simp: lifecycle_move_def)
  qed
next
  case E_discovery
  with performDiscovery_store [of s w] assms(3) show ?thesis
    by (simp add: same_store_def lifecycle_move_def)
next
  case (E_idle d)
  with assms(3) show ?thesis by (simp add: lifecycle_move_def)
qed

text \<open>
  C7. In every reachable state of Agent A and of Agent E, every stored task is
  \<open>processing\<close> with neither result nor error, \<open>completed\<close> with a result and no error, or
  \<open>failed\<close> with an error message and no result; and every step of the agent leaves the record as
  it is or moves it from \<open>processing\<close> to \<open>completed\<close> or \<open>failed\<close>. A record that has left
  \<open>processing\<close> is therefore never changed again. (Task identifiers are new when drawn.)
\<close>

theorem task_lifecycle:
  "(agentA_reachable f s \<and> a_tasks s tid = Some t
    \<longrightarrow> task_consistent t
        \<and> (\<forall>s'. agentA_step f s s' \<longrightarrow> (\<exists>t'. a_tasks s' tid = Some t' \<and> lifecycle_move t t')))
   \<and> (agentE_reachable w L e \<and> e_tasks e tidE = Some u
    \<longrightarrow> task_consistent u
        \<and> (\<forall>e'. agentE_step w L e e' \<longrightarrow> (\<exists>u'. e_tasks e' tidE = Some u' \<and> lifecycle_move u u')))"
proof (intro conjI impI allI)
  assume "agentA_reachable f s \<and> a_tasks s tid = Some t"
  with agentA_reachable_store_ok [of f s] show "task_consistent t"
    unfolding store_ok_def by blast
next
  fix s'
  assume "agentA_reachable f s \<and> a_tasks s tid = Some t" and "agentA_step f s s'"
  with agentA_reachable_store_ok [of f s] agentA_step_move [of f s s' tid t]
  show "\<exists>t'. a_tasks s' tid = Some t' \<and> lifecycle_move t t'"
    by blast
next
  assume "agentE_reachable w L e \<and> e_tasks e tidE = Some u"
  with agentE_reachable_store_ok [of w L e] show "task_consistent u"
    unfolding store_ok_def by blast
next
  fix e'
  assume "agentE_reachable w L e \<and> e_tasks e tidE = Some u" and "agentE_step w L e e'"
  with agentE_reachable_store_ok [of w L e] agentE_step_move [of w L e e' tidE u]
  show "\<exists>u'. e_tasks e' tidE = Some u' \<and> lifecycle_move u u'"
    by blast
qed

text \<open>Example states: each agent after it accepted one request, and after the task ran.\<close>

definition exampleA :: agentA where
  "exampleA = snd (agentA_rpc ''task-1'' 5 analysis_request agentA_init)"

definition exampleA_done :: agentA where
  "exampleA_done =
     processTaskA echo_functions 1505 ''task-1'' (JStr ''text_analysis'')
       (JObj [(''text'', JStr ''hello world'')])
       (exampleA\<lparr>a_pending := remove1 (''task-1'', JStr ''text_analysis'',
                                        JObj [(''text'', JStr ''hello world'')])
                                 (a_pending exampleA)\<rparr>)"

definition exampleE :: agentE where
  "exampleE = snd (agentE_rpc ''task-2'' status_request (agentE_init 4005 0))"

definition exampleE_done :: agentE where
  "exampleE_done =
     processTaskE world_down plain_text ''task-2'' (JStr ''orchestrator_status'') JUndefined
       (exampleE\<lparr>e_pending := remove1 (''task-2'', JStr ''orchestrator_status'', JUndefined)
                                 (e_pending exampleE)\<rparr>)"

theorem task_lifecycle_witness:
  "agentA_reachable echo_functions exampleA
   \<and> (\<exists>t. a_tasks exampleA ''task-1'' = Some t \<and> t_status t = Processing
          \<and> task_consistent t
          \<and> (\<exists>t'. a_tasks exampleA_done ''task-1'' = Some t' \<and> lifecycle_move t t'))
   \<and> agentE_reachable world_down plain_text exampleE
   \<and> (\<exists>u. e_tasks exampleE ''task-2'' = Some u \<and> t_status u = Processing
          \<and> task_consistent u
          \<and> (\<exists>u'. e_tasks exampleE_done ''task-2'' = Some u' \<and> lifecycle_move u u'))"
proof -
  have reachA: "agentA_reachable echo_functions exampleA"
    unfolding exampleA_def
    by (rule A_next [OF A_init]) (rule A_rpc, simp add: agentA_init_def)
  obtain t where t: "a_tasks exampleA ''task-1'' = Some t" "t_status t = Processing"
    by (simp add: exampleA_def agentA_rpc_def analysis_request_def supportedMethods_def Let_def)
  have "(''task-1'', JStr ''text_analysis'', JObj [(''text'', JStr ''hello world'')])
          \<in> set (a_pending exampleA)"
    by (simp add: exampleA_def agentA_rpc_def analysis_request_def supportedMethods_def Let_def)
  then have stepA: "agentA_step echo_functions exampleA exampleA_done"
    unfolding exampleA_done_def by (rule A_run)
  have reachE: "agentE_reachable world_down plain_text exampleE"
    unfolding exampleE_def
    by (rule E_next [OF E_init]) (rule E_rpc, simp add: agentE_init_def)
  obtain u where u: "e_tasks exampleE ''task-2'' = Some u" "t_status u = Processing"
    by (simp add: exampleE_def agentE_rpc_def status_request_def Let_def)
  have "(''task-2'', JStr ''orchestrator_status'', JUndefined) \<in> set (e_pending exampleE)"
    by (simp add: exampleE_def agentE_rpc_def status_request_def Let_def agentE_init_def)
  then have stepE: "agentE_step world_down plain_text exampleE exampleE_done"
    unfolding exampleE_done_def by (rule E_run)
  note both = task_lifecycle [where f = echo_functions and s = exampleA and tid = "''task-1''"
      and t = t and w = world_down and L = plain_text and e = exampleE
      and tidE = "''task-2''" and u = u]
  from both reachA t(1) stepA
  have "task_consistent t \<and> (\<exists>t'. a_tasks exampleA_done ''task-1'' = Some t' \<and> lifecycle_move t t')"
    by blast
  moreover from both reachE u(1) stepE
  have "task_consistent u \<and> (\<exists>u'. e_tasks exampleE_done ''task-2'' = Some u' \<and> lifecycle_move u u')"
    by blast
  ultimately show ?thesis
    using reachA reachE t u by blast
qed

section \<open>Routing, delegation and fallback in Agent E\<close>

subsection \<open>Worlds used in the examples\<close>

lemma port_strings:
  "string_of_nat 4001 = ''4001''" "string_of_nat 4002 = ''4002''"
  "string_of_nat 4003 = ''4003''" "string_of_nat 4004 = ''4004''"
  by (simp_all add: string_of_nat.simps digit_char_def)

text \<open>The registry entries of Agent C and Agent D, as a discovery pass at time \<open>seen\<close> stores them.\<close>

definition agent_c :: "nat \<Rightarrow> discovered_agent" where
  "agent_c seen =
     \<lparr>d_id = ''sentiment-analyzer-agent-c'', d_name = ''Agent C - Sentiment Analyzer'',
      d_type = ''sentiment-analyzer'', d_url = ''http://localhost:4003'',
      d_capabilities = [], d_last_seen = seen,
      d_card = \<lparr>card_id = ''sentiment-analyzer-agent-c'',
                card_name = ''Agent C - Sentiment Analyzer'',
                card_type = ''sentiment-analyzer'', card_capabilities = []\<rparr>\<rparr>"

definition agent_d :: "nat \<Rightarrow> discovered_agent" where
  "agent_d seen =
     \<lparr>d_id = ''language-detector-agent-d'', d_name = ''Agent D - Language Detector'',
      d_type = ''language-detector'', d_url = ''http://localhost:4004'',
      d_capabilities = [], d_last_seen = seen,
      d_card = \<lparr>card_id = ''language-detector-agent-d'',
                card_name = ''Agent D - Language Detector'',
                card_type = ''language-detector'', card_capabilities = []\<rparr>\<rparr>"

text \<open>
  A world in which Agent C and Agent D are up and nothing else is. Both accept every
  request on \<open>/rpc\<close> as task \<open>remote-1\<close>; \<open>poll\<close> is what a status query for it, sent at a
  given time, is answered with.
\<close>

definition world_cd :: "(nat \<Rightarrow> json) \<Rightarrow> world" where
  "world_cd poll =
     \<lparr>http_get = (\<lambda>url t.
         if url = ''http://localhost:4003/status'' \<or> url = ''http://localhost:4004/status''
         then (12, Inr (JObj [(''status'', JStr ''ok'')]))
         else (3, Inl (AxiosError ''ECONNREFUSED''))),
      http_get_card = (\<lambda>url t.
         if url = ''http://localhost:4003/agent-card'' then (12, Inr (d_card (agent_c 0)))
         else if url = ''http://localhost:4004/agent-card'' then (12, Inr (d_card (agent_d 0)))
         else (3, Inl (AxiosError ''ECONNREFUSED''))),
      http_get_task = (\<lambda>url taskId t.
         if (url = ''http://localhost:4003'' \<or> url = ''http://localhost:4004'')
            \<and> taskId = JStr ''remote-1''
         then (12, Inr (poll t))
         else (3, Inl (AxiosError ''404''))),
      http_post = (\<lambda>url body t.
         if url = ''http://localhost:4003/rpc'' \<or> url = ''http://localhost:4004/rpc''
         then (12, Inr (JObj [(''jsonrpc'', JStr ''2.0''),
                              (''result'', JObj [(''task_id'', JStr ''remote-1''),
                                                 (''status'', JStr ''accepted'')])]))
         else (3, Inl (AxiosError ''ECONNREFUSED''))),
      uuidv4 = (\<lambda>t. ''uuid''),
      dirname = ''/app/src/dynamic-discovery'',
      spawn_child = (\<lambda>script t. 1000 + t),
      kill_delivered = (\<lambda>child t. True),
      exit_delay = (\<lambda>child t. Some 40)\<rparr>"

text \<open>The remote task is reported completed at once, never, or from 3 s on.\<close>

definition done_task :: json where
  "done_task = JObj [(''id'', JStr ''remote-1''), (''status'', JStr ''completed''),
                     (''result'', JObj [(''processed_by'', JStr ''remote'')])]"

definition world_serving :: world where
  "world_serving = world_cd (\<lambda>t. done_task)"

definition world_stalled :: world where
  "world_stalled = world_cd (\<lambda>t. JObj [(''id'', JStr ''remote-1''), (''status'', JStr ''processing'')])"

definition world_slow :: world where
  "world_slow =
     world_cd (\<lambda>t. if t < 3000
                    then JObj [(''id'', JStr ''remote-1''), (''status'', JStr ''processing'')]
                    else done_task)"

text \<open>Agent E on port 4005 after its first discovery pass, in these worlds.\<close>

lemma discovery_world_down:
  "performDiscovery world_down (agentE_init 4005 0)
     = (agentE_init 4005 0)\<lparr>lastDiscovery := Some 12, e_now := 12\<rparr>"
  by (simp add: performDiscovery_def portRange_def discover_port_def axios_get_def
      with_timeout_def world_down_def agentE_init_def remove_unreachable_def Let_def)

lemma discovery_world_cd:
  "performDiscovery (world_cd poll) (agentE_init 4005 0)
     = (agentE_init 4005 0)
         \<lparr>discoveredAgents := [(''sentiment-analyzer-agent-c'', agent_c 30),
                               (''language-detector-agent-d'', agent_d 54)],
          lastDiscovery := Some 54, e_now := 54\<rparr>"
  by (simp add: performDiscovery_def portRange_def discover_port_def axios_get_def
      axios_get_card_def with_timeout_def world_cd_def agentE_init_def
      remove_unreachable_def Let_def localhost_url_def port_strings agent_c_def agent_d_def)

definition discovered_cd :: agentE where
  "discovered_cd =
     (agentE_init 4005 0)
       \<lparr>discoveredAgents := [(''sentiment-analyzer-agent-c'', agent_c 30),
                             (''language-detector-agent-d'', agent_d 54)],
        lastDiscovery := Some 54, e_now := 54\<rparr>"

lemma discovered_cd_reachable: "agentE_reachable (world_cd poll) L discovered_cd"
proof -
  have "agentE_reachable (world_cd poll) L (agentE_init 4005 0)"
    by (rule E_init)
  from E_next [OF this E_discovery] show ?thesis
    by (simp add: discovery_world_cd discovered_cd_def)
qed

lemma discovered_cd_finds:
  "findAgentByType discovered_cd ''sentiment-analyzer'' = Some (agent_c 30)"
  "findAgentByType discovered_cd ''language-detector'' = Some (agent_d 54)"
  by (simp_all add: findAgentByType_def discovered_cd_def agent_c_def agent_d_def)

subsection \<open>The delegation and fallback counters\<close>

definition counters :: "agentE \<Rightarrow> nat \<times> nat" where
  "counters s = (delegationCount s, fallbackCount s)"

lemma discover_port_counters: "counters (discover_port w port s) = counters s"
  by (simp add: discover_port_def counters_def Let_def split: prod.splits sum.splits)

lemma fold_discover_port_counters: "counters (fold (discover_port w) ports s) = counters s"
  by (induction ports arbitrary: s) (simp_all add: discover_port_counters)

lemma performDiscovery_counters: "counters (performDiscovery w s) = counters s"
  using fold_discover_port_counters [of w portRange s]
  by (simp add: performDiscovery_def Let_def counters_def)

lemma read_prop_update:
  "read_prop (AList.update k v obj) k' = (if k' = k then v else read_prop obj k')"
  by (simp add: read_prop_def update_conv')

text \<open>Each sentiment or language step increments exactly one of the two counters by one.\<close>

definition counted :: "agentE \<Rightarrow> nat" where
  "counted s = delegationCount s + fallbackCount s"

lemma analysis_sentiment_counted:
  "counted (snd (analysis_sentiment w str rs)) = counted (snd rs) + 1"
  by (cases rs)
    (simp add: analysis_sentiment_def counted_def Let_def
      split: option.splits prod.splits sum.splits)

lemma analysis_language_counted:
  "counted (snd (analysis_language w L str rs)) = counted (snd rs) + 1"
  by (cases rs)
    (simp add: analysis_language_def counted_def Let_def
      split: option.splits prod.splits sum.splits)

lemma performDiscovery_counted: "counted (performDiscovery w s) = counted s"
  using performDiscovery_counters [of w s] by (simp add: counters_def counted_def)

lemma intelligentTextAnalysis_counted:
  assumes "intelligentTextAnalysis w L params s = (Inr result, s')"
  shows "counted s' = counted s
           + (if truthy (with_default (JBool True) (get_prop_opt params ''include_sentiment''))
              then 1 else 0)
           + (if truthy (with_default (JBool True) (get_prop_opt params ''include_language''))
              then 1 else 0)"
  using assms unfolding intelligentTextAnalysis_def Let_def
  by (auto simp: analysis_sentiment_counted analysis_language_counted performDiscovery_counted
      split: sum.splits json.splits if_splits)

text \<open>The steps of \<open>smartTextProcessing\<close> that route: the entries \<open>sentiment\<close> and \<open>language\<close>.\<close>

definition routed :: "json list \<Rightarrow> nat" where
  "routed ops = length (filter (\<lambda>operation. operation = JStr ''sentiment''
                                  \<or> operation = JStr ''language'') ops)"

lemma smart_operation_counted:
  assumes "smart_operation w L tx operation r s = (Inr r', s')"
  shows "counted s' = counted s + routed [operation]"
  using assms
  by (auto simp: smart_operation_def smart_sentiment_def smart_language_def counted_def
      routed_def split: if_splits option.splits prod.splits sum.splits)

lemma smart_operations_counted:
  assumes "smart_operations w L tx ops r s = (Inr r', s')"
  shows "counted s' = counted s + routed ops"
  using assms
proof (induction ops arbitrary: r s)
  case Nil
  then show ?case by (simp add: routed_def)
next
  case (Cons operation rest)
  from Cons.prems obtain r1 s1
    where first: "smart_operation w L tx operation r s = (Inr r1, s1)"
      and others: "smart_operations w L tx rest r1 s1 = (Inr r', s')"
    by (auto split: prod.splits sum.splits)
  from smart_operation_counted [OF first] Cons.IH [OF others]
  show ?case by (simp add: routed_def)
qed

lemma smartTextProcessing_counted:
  assumes "smartTextProcessing w L params s = (Inr result, s')"
  shows "\<exists>ops. iterate (with_default (JArr [JStr ''analyze'', JStr ''sentiment'', JStr ''language''])
                          (get_prop_opt params ''operations'')) = Inr ops
               \<and> counted s' = counted s + routed ops"
  using assms unfolding smartTextProcessing_def Let_def
  by (auto simp: performDiscovery_counted dest!: smart_operations_counted
      split: sum.splits prod.splits if_splits)

lemma analysis_sentiment_counters:
  "counters (snd (analysis_sentiment w str (result, s))) =
     (case findAgentByType s ''sentiment-analyzer'' of
        None \<Rightarrow> (delegationCount s, fallbackCount s + 1)
      | Some agent \<Rightarrow>
          (case snd (delegateToAgent w agent ''sentiment_analysis''
                       (JObj [(''text'', JStr str)]) (e_now s)) of
             Inr delegated \<Rightarrow> (delegationCount s + 1, fallbackCount s)
           | Inl err \<Rightarrow> (delegationCount s, fallbackCount s + 1)))"
  by (simp add: analysis_sentiment_def counters_def Let_def
      split: option.splits prod.splits sum.splits)

lemma analysis_language_counters:
  "counters (snd (analysis_language w L str (result, s))) =
     (case findAgentByType s ''language-detector'' of
        None \<Rightarrow> (delegationCount s, fallbackCount s + 1)
      | Some agent \<Rightarrow>
          (case snd (delegateToAgent w agent ''language_detection''
                       (JObj [(''text'', JStr str)]) (e_now s)) of
             Inr delegated \<Rightarrow> (delegationCount s + 1, fallbackCount s)
           | Inl err \<Rightarrow> (delegationCount s, fallbackCount s + 1)))"
  by (simp add: analysis_language_def counters_def Let_def
      split: option.splits prod.splits sum.splits)

text \<open>
  Whether a value is a string. The local fallbacks call \<open>text.toLowerCase()\<close> and
  \<open>text.match(...)\<close>, which only a string has.
\<close>

fun is_string :: "json \<Rightarrow> bool" where
  "is_string (JStr str) = True"
| "is_string other = False"

lemma on_text_string: "is_string tx \<Longrightarrow> \<exists>v. on_text f name tx = Inr v"
  by (cases tx) (simp_all add: on_text_def)

lemma on_text_other: "\<not> is_string tx \<Longrightarrow> on_text f name tx = Inl (TypeError name)"
  by (cases tx) (simp_all add: on_text_def)

lemma smart_sentiment_counters:
  "counters (snd (smart_sentiment w tx r s)) =
     (case findAgentByType s ''sentiment-analyzer'' of
        None \<Rightarrow> (delegationCount s, fallbackCount s + (if is_string tx then 1 else 0))
      | Some agent \<Rightarrow>
          (case snd (delegateToAgent w agent ''sentiment_analysis''
                       (JObj [(''text'', tx)]) (e_now s)) of
             Inr delegated \<Rightarrow> (delegationCount s + 1, fallbackCount s)
           | Inl err \<Rightarrow>
               (delegationCount s, fallbackCount s + (if is_string tx then 1 else 0))))"
proof (cases "is_string tx")
  case True
  from on_text_string [OF this] obtain v
    where "on_text sentimentFallback ''text.toLowerCase'' tx = Inr v" by blast
  with True show ?thesis
    by (simp add: smart_sentiment_def counters_def split: option.splits prod.splits sum.splits)
next
  case False
  from on_text_other [OF this]
  have "on_text sentimentFallback ''text.toLowerCase'' tx = Inl (TypeError ''text.toLowerCase'')" .
  with False show ?thesis
    by (simp add: smart_sentiment_def counters_def split: option.splits prod.splits sum.splits)
qed

lemma smart_language_counters:
  "counters (snd (smart_language w L tx r s)) =
     (case findAgentByType s ''language-detector'' of
        None \<Rightarrow> (delegationCount s, fallbackCount s + (if is_string tx then 1 else 0))
      | Some agent \<Rightarrow>
          (case snd (delegateToAgent w agent ''language_detection''
                       (JObj [(''text'', tx)]) (e_now s)) of
             Inr delegated \<Rightarrow> (delegationCount s + 1, fallbackCount s)
           | Inl err \<Rightarrow>
               (delegationCount s, fallbackCount s + (if is_string tx then 1 else 0))))"
proof (cases "is_string tx")
  case True
  from on_text_string [OF this] obtain v
    where "on_text (languageFallback L) ''text.match'' tx = Inr v" by blast
  with True show ?thesis
    by (simp add: smart_language_def counters_def split: option.splits prod.splits sum.splits)
next
  case False
  from on_text_other [OF this]
  have "on_text (languageFallback L) ''text.match'' tx = Inl (TypeError ''text.match'')" .
  with False show ?thesis
    by (simp add: smart_language_def counters_def split: option.splits prod.splits sum.splits)
qed

text \<open>A step throws only when its fallback is given a text that is not a string.\<close>

lemma smart_sentiment_throws:
  assumes "fst (smart_sentiment w tx r s) = Inl err"
  shows "\<not> is_string tx \<and> err = TypeError ''text.toLowerCase''
       \<and> counters (snd (smart_sentiment w tx r s)) = counters s"
  using assms
  by (cases tx)
    (auto simp: smart_sentiment_def on_text_def counters_def
      split: option.splits prod.splits sum.splits)

lemma smart_language_throws:
  assumes "fst (smart_language w L tx r s) = Inl err"
  shows "\<not> is_string tx \<and> err = TypeError ''text.match''
       \<and> counters (snd (smart_language w L tx r s)) = counters s"
  using assms
  by (cases tx)
    (auto simp: smart_language_def on_text_def counters_def
      split: option.splits prod.splits sum.splits)

text \<open>
  Whether the delegation of a step succeeds: an agent of the step's type is registered
  and the delegation to it returns.
\<close>

definition delegates :: "world \<Rightarrow> agentE \<Rightarrow> string \<Rightarrow> string \<Rightarrow> json \<Rightarrow> bool" where
  "delegates w s agentType m tx =
     (case findAgentByType s agentType of
        None \<Rightarrow> False
      | Some agent \<Rightarrow>
          (case snd (delegateToAgent w agent m (JObj [(''text'', tx)]) (e_now s)) of
             Inr delegated \<Rightarrow> True
           | Inl err \<Rightarrow> False))"

lemma smart_sentiment_throws_iff:
  "(fst (smart_sentiment w tx r s) = Inl (TypeError ''text.toLowerCase''))
     = (\<not> is_string tx \<and> \<not> delegates w s ''sentiment-analyzer'' ''sentiment_analysis'' tx)"
  by (cases tx)
    (auto simp: smart_sentiment_def on_text_def delegates_def
      split: option.splits prod.splits sum.splits)

lemma smart_language_throws_iff:
  "(fst (smart_language w L tx r s) = Inl (TypeError ''text.match''))
     = (\<not> is_string tx \<and> \<not> delegates w s ''language-detector'' ''language_detection'' tx)"
  by (cases tx)
    (auto simp: smart_language_def on_text_def delegates_def
      split: option.splits prod.splits sum.splits)

text \<open>
  C4, as the code has it. The counters are incremented per routed step, not per
  request. A step is the sentiment or the language block of \<open>intelligentTextAnalysis\<close>
  (where the text is a string) or the \<open>sentiment\<close> or \<open>language\<close> case of
  \<open>smartTextProcessing\<close> (where the text is any truthy value). In each step: with an
  agent of the step's type registered and the delegation to it successful, \<open>delegations\<close>
  goes up by exactly one and \<open>fallbacks\<close> stays. Otherwise, with no such agent or with
  the delegation failing, the local fallback is called: on a string it returns,
  \<open>fallbacks\<close> goes up by exactly one and \<open>delegations\<close> stays; on a text that is not a
  string it throws a TypeError, the step throws with it and neither counter changes.
  A step throws in no other case. A request that returns has incremented the counters,
  together, once per step it asked for: one per truthy flag of
  \<open>intelligentTextAnalysis\<close>, one per \<open>sentiment\<close> or \<open>language\<close> entry of \<open>operations\<close> in
  \<open>smartTextProcessing\<close>.
\<close>

theorem routing_counters:
  "counters (snd (analysis_sentiment w str (result, s)))
     = (case findAgentByType s ''sentiment-analyzer'' of
          None \<Rightarrow> (delegationCount s, fallbackCount s + 1)
        | Some agent \<Rightarrow>
            (case snd (delegateToAgent w agent ''sentiment_analysis''
                         (JObj [(''text'', JStr str)]) (e_now s)) of
               Inr delegated \<Rightarrow> (delegationCount s + 1, fallbackCount s)
             | Inl err \<Rightarrow> (delegationCount s, fallbackCount s + 1)))
   \<and> counters (snd (analysis_language w L str (result, s)))
     = (case findAgentByType s ''language-detector'' of
          None \<Rightarrow> (delegationCount s, fallbackCount s + 1)
        | Some agent \<Rightarrow>
            (case snd (delegateToAgent w agent ''language_detection''
                         (JObj [(''text'', JStr str)]) (e_now s)) of
               Inr delegated \<Rightarrow> (delegationCount s + 1, fallbackCount s)
             | Inl err \<Rightarrow> (delegationCount s, fallbackCount s + 1)))
   \<and> counters (snd (smart_sentiment w tx r s))
     = (case findAgentByType s ''sentiment-analyzer'' of
          None \<Rightarrow> (delegationCount s, fallbackCount s + (if is_string tx then 1 else 0))
        | Some agent \<Rightarrow>
            (case snd (delegateToAgent w agent ''sentiment_analysis''
                         (JObj [(''text'', tx)]) (e_now s)) of
               Inr delegated \<Rightarrow> (delegationCount s + 1, fallbackCount s)
             | Inl err \<Rightarrow>
                 (delegationCount s, fallbackCount s + (if is_string tx then 1 else 0))))
   \<and> counters (snd (smart_language w L tx r s))
     = (case findAgentByType s ''language-detector'' of
          None \<Rightarrow> (delegationCount s, fallbackCount s + (if is_string tx then 1 else 0))
        | Some agent \<Rightarrow>
            (case snd (delegateToAgent w agent ''language_detection''
                         (JObj [(''text'', tx)]) (e_now s)) of
               Inr delegated \<Rightarrow> (delegationCount s + 1, fallbackCount s)
             | Inl err \<Rightarrow>
                 (delegationCount s, fallbackCount s + (if is_string tx then 1 else 0))))
   \<and> (\<forall>err. fst (smart_sentiment w tx r s) = Inl err \<longrightarrow>
         \<not> is_string tx \<and> err = TypeError ''text.toLowerCase''
         \<and> counters (snd (smart_sentiment w tx r s)) = counters s)
   \<and> (\<forall>err. fst (smart_language w L tx r s) = Inl err \<longrightarrow>
         \<not> is_string tx \<and> err = TypeError ''text.match''
         \<and> counters (snd (smart_language w L tx r s)) = counters s)
   \<and> (fst (smart_sentiment w tx r s) = Inl (TypeError ''text.toLowerCase''))
       = (\<not> is_string tx \<and> \<not> delegates w s ''sentiment-analyzer'' ''sentiment_analysis'' tx)
   \<and> (fst (smart_language w L tx r s) = Inl (TypeError ''text.match''))
       = (\<not> is_string tx \<and> \<not> delegates w s ''language-detector'' ''language_detection'' tx)
   \<and> (\<forall>answer s'. intelligentTextAnalysis w L params s = (Inr answer, s') \<longrightarrow>
         counted s' = counted s
           + (if truthy (with_default (JBool True) (get_prop_opt params ''include_sentiment''))
              then 1 else 0)
           + (if truthy (with_default (JBool True) (get_prop_opt params ''include_language''))
              then 1 else 0))
   \<and> (\<forall>answer s'. smartTextProcessing w L params s = (Inr answer, s') \<longrightarrow>
         (\<exists>ops. iterate (with_default
                            (JArr [JStr ''analyze'', JStr ''sentiment'', JStr ''language''])
                            (get_prop_opt params ''operations'')) = Inr ops
                \<and> counted s' = counted s + routed ops))"
proof (intro conjI allI impI)
  show "counters (snd (analysis_sentiment w str (result, s)))
     = (case findAgentByType s ''sentiment-analyzer'' of
          None \<Rightarrow> (delegationCount s, fallbackCount s + 1)
        | Some agent \<Rightarrow>
            (case snd (delegateToAgent w agent ''sentiment_analysis''
                         (JObj [(''text'', JStr str)]) (e_now s)) of
               Inr delegated \<Rightarrow> (delegationCount s + 1, fallbackCount s)
             | Inl err \<Rightarrow> (delegationCount s, fallbackCount s + 1)))"
    by (rule analysis_sentiment_counters)
  show "counters (snd (analysis_language w L str (result, s)))
     = (case findAgentByType s ''language-detector'' of
          None \<Rightarrow> (delegationCount s, fallbackCount s + 1)
        | Some agent \<Rightarrow>
            (case snd (delegateToAgent w agent ''language_detection''
                         (JObj [(''text'', JStr str)]) (e_now s)) of
               Inr delegated \<Rightarrow> (delegationCount s + 1, fallbackCount s)
             | Inl err \<Rightarrow> (delegationCount s, fallbackCount s + 1)))"
    by (rule analysis_language_counters)
  show "counters (snd (smart_sentiment w tx r s))
     = (case findAgentByType s ''sentiment-analyzer'' of
          None \<Rightarrow> (delegationCount s, fallbackCount s + (if is_string tx then 1 else 0))
        | Some agent \<Rightarrow>
            (case snd (delegateToAgent w agent ''sentiment_analysis''
                         (JObj [(''text'', tx)]) (e_now s)) of
               Inr delegated \<Rightarrow> (delegationCount s + 1, fallbackCount s)
             | Inl err \<Rightarrow>
                 (delegationCount s, fallbackCount s + (if is_string tx then 1 else 0))))"
    by (rule smart_sentiment_counters)
  show "counters (snd (smart_language w L tx r s))
     = (case findAgentByType s ''language-detector'' of
          None \<Rightarrow> (delegationCount s, fallbackCount s + (if is_string tx then 1 else 0))
        | Some agent \<Rightarrow>
            (case snd (delegateToAgent w agent ''language_detection''
                         (JObj [(''text'', tx)]) (e_now s)) of
               Inr delegated \<Rightarrow> (delegationCount s + 1, fallbackCount s)
             | Inl err \<Rightarrow>
                 (delegationCount s, fallbackCount s + (if is_string tx then 1 else 0))))"
    by (rule smart_language_counters)
  show "(fst (smart_sentiment w tx r s) = Inl (TypeError ''text.toLowerCase''))
       = (\<not> is_string tx \<and> \<not> delegates w s ''sentiment-analyzer'' ''sentiment_analysis'' tx)"
    by (rule smart_sentiment_throws_iff)
  show "(fst (smart_language w L tx r s) = Inl (TypeError ''text.match''))
       = (\<not> is_string tx \<and> \<not> delegates w s ''language-detector'' ''language_detection'' tx)"
    by (rule smart_language_throws_iff)
next
  fix err
  assume thrown: "fst (smart_sentiment w tx r s) = Inl err"
  from smart_sentiment_throws [OF thrown]
  show "\<not> is_string tx" and "err = TypeError ''text.toLowerCase''"
    and "counters (snd (smart_sentiment w tx r s)) = counters s"
    by simp_all
next
  fix err
  assume thrown: "fst (smart_language w L tx r s) = Inl err"
  from smart_language_throws [OF thrown]
  show "\<not> is_string tx" and "err = TypeError ''text.match''"
    and "counters (snd (smart_language w L tx r s)) = counters s"
    by simp_all
next
  fix answer s'
  assume "intelligentTextAnalysis w L params s = (Inr answer, s')"
  then show "counted s' = counted s
           + (if truthy (with_default (JBool True) (get_prop_opt params ''include_sentiment''))
              then 1 else 0)
           + (if truthy (with_default (JBool True) (get_prop_opt params ''include_language''))
              then 1 else 0)"
    by (rule intelligentTextAnalysis_counted)
next
  fix answer s'
  assume "smartTextProcessing w L params s = (Inr answer, s')"
  then show "\<exists>ops. iterate (with_default
                            (JArr [JStr ''analyze'', JStr ''sentiment'', JStr ''language''])
                            (get_prop_opt params ''operations'')) = Inr ops
                \<and> counted s' = counted s + routed ops"
    by (rule smartTextProcessing_counted)
qed

definition default_analysis_params :: json where
  "default_analysis_params = JObj [(''text'', JStr ''x'')]"

definition sentiment_only_params :: json where
  "sentiment_only_params = JObj [(''text'', JStr ''x''), (''include_language'', JBool False)]"

definition sentiment_of_five :: json where
  "sentiment_of_five = JObj [(''text'', JNum 5), (''operations'', JArr [JStr ''sentiment''])]"

definition sentiment_of_x :: json where
  "sentiment_of_x = JObj [(''text'', JStr ''x''), (''operations'', JArr [JStr ''sentiment''])]"

text \<open>
  C4 as stated fails: one \<open>intelligent_text_analysis\<close> request with the default flags,
  sent when no agent is reachable, increments \<open>fallbacks\<close> twice (once for sentiment,
  once for language).
\<close>

theorem one_request_two_fallbacks:
  "discoveredAgents (performDiscovery world_down (agentE_init 4005 0)) = []
   \<and> counters (agentE_init 4005 0) = (0, 0)
   \<and> counters (snd (intelligentTextAnalysis world_down plain_text default_analysis_params
                      (agentE_init 4005 0))) = (0, 2)"
  by (simp add: intelligentTextAnalysis_def performDiscovery_def portRange_def
      discover_port_def axios_get_def with_timeout_def world_down_def agentE_init_def
      remove_unreachable_def Let_def analysis_sentiment_def analysis_language_def
      findAgentByType_def counters_def default_analysis_params_def with_default_def)

text \<open>
  The three kinds of step, and requests that return. With nothing reachable the
  sentiment step on \<open>'x'\<close> falls back and counts one fallback; with Agent C registered
  and serving it delegates and counts one delegation; on the text \<open>5\<close> with nothing
  reachable the fallback throws and nothing is counted. A default
  \<open>intelligent_text_analysis\<close> request served by Agent C and Agent D counts two, a
  \<open>smart_text_processing\<close> request for \<open>['sentiment']\<close> counts one.
\<close>

lemma delegation_served:
  "snd (delegateToAgent world_serving (agent_c 30) ''sentiment_analysis''
          (JObj [(''text'', JStr ''x'')]) 54)
     = Inr (JObj [(''processed_by'', JStr ''remote'')])"
  by (simp add: delegateToAgent_def agent_c_def axios_post_def with_timeout_def
      world_serving_def world_cd_def Let_def waitForTaskCompletion_def axios_get_task_def
      done_task_def waitForTaskCompletion_loop.simps [of _ _ _ _ 66 66])

theorem routing_counters_witness:
  "findAgentByType (performDiscovery world_down (agentE_init 4005 0)) ''sentiment-analyzer''
     = None
   \<and> counters (snd (analysis_sentiment world_down ''x''
                      ([], performDiscovery world_down (agentE_init 4005 0)))) = (0, 1)
   \<and> agentE_reachable world_serving plain_text discovered_cd
   \<and> findAgentByType discovered_cd ''sentiment-analyzer'' = Some (agent_c 30)
   \<and> counters (snd (analysis_sentiment world_serving ''x'' ([], discovered_cd))) = (1, 0)
   \<and> fst (smartTextProcessing world_down plain_text sentiment_of_five (agentE_init 4005 0))
       = Inl (TypeError ''text.toLowerCase'')
   \<and> counters (snd (smartTextProcessing world_down plain_text sentiment_of_five
                      (agentE_init 4005 0))) = (0, 0)
   \<and> (\<exists>answer. fst (intelligentTextAnalysis world_serving plain_text default_analysis_params
                       (agentE_init 4005 0)) = Inr answer)
   \<and> counted (snd (intelligentTextAnalysis world_serving plain_text default_analysis_params
                     (agentE_init 4005 0))) = 2
   \<and> (\<exists>answer. fst (smartTextProcessing world_down plain_text sentiment_of_x
                       (agentE_init 4005 0)) = Inr answer)
   \<and> counted (snd (smartTextProcessing world_down plain_text sentiment_of_x
                     (agentE_init 4005 0))) = 1"
proof -
  let ?down = "performDiscovery world_down (agentE_init 4005 0)"
  let ?r0 = "\<lparr>sm_props = [(''processed_text'', JNum 5), (''operations_performed'', JArr []),
                         (''delegation_summary'', JObj [])],
              operations_performed = [], agents_used = [], fallbacks_used = [],
              total_delegations = 0, total_fallbacks = 0\<rparr>"
  have none: "findAgentByType ?down ''sentiment-analyzer'' = None"
    by (simp only: discovery_world_down) (simp add: findAgentByType_def agentE_init_def)
  have zero: "counters ?down = (0, 0)"
    by (simp only: discovery_world_down) (simp add: counters_def agentE_init_def)
  note down = routing_counters [where w = world_down and L = plain_text and s = "?down"
      and str = "''x''" and result = "[]" and tx = "JNum 5" and r = "?r0"]
  from down none zero
  have fallback: "counters (snd (analysis_sentiment world_down ''x'' ([], ?down))) = (0, 1)"
    by (simp add: counters_def)
  have empty: "discoveredAgents (agentE_init 4005 0) = []"
    by (simp add: agentE_init_def)
  have step: "smartTextProcessing world_down plain_text sentiment_of_five (agentE_init 4005 0)
                = (case smart_sentiment world_down (JNum 5) ?r0 ?down of
                     (Inl err, s2) \<Rightarrow> (Inl err, s2)
                   | (Inr r', s2) \<Rightarrow> (Inr (smart_result_json r'), s2))"
    by (simp add: smartTextProcessing_def sentiment_of_five_def with_default_def
        smart_operation_def empty split: prod.splits sum.splits)
  have thrown: "fst (smart_sentiment world_down (JNum 5) ?r0 ?down)
                  = Inl (TypeError ''text.toLowerCase'')"
    using none by (simp add: smart_sentiment_def on_text_def)
  with down have kept: "counters (snd (smart_sentiment world_down (JNum 5) ?r0 ?down)) = counters ?down"
    by blast
  from thrown kept zero step
  have five: "fst (smartTextProcessing world_down plain_text sentiment_of_five (agentE_init 4005 0))
                = Inl (TypeError ''text.toLowerCase'')"
    and five_counters: "counters (snd (smartTextProcessing world_down plain_text sentiment_of_five
                      (agentE_init 4005 0))) = (0, 0)"
    by (simp_all split: prod.splits sum.splits)
  have reach: "agentE_reachable world_serving plain_text discovered_cd"
    unfolding world_serving_def by (rule discovered_cd_reachable)
  have start: "counters discovered_cd = (0, 0)" "e_now discovered_cd = 54"
    by (simp_all add: counters_def discovered_cd_def agentE_init_def)
  note serving = routing_counters [where w = world_serving and L = plain_text
      and s = discovered_cd and str = "''x''" and result = "[]"
      and params = default_analysis_params]
  from serving discovered_cd_finds(1) delegation_served start
  have delegated: "counters (snd (analysis_sentiment world_serving ''x'' ([], discovered_cd))) = (1, 0)"
    by (simp add: counters_def)
  let ?run = "intelligentTextAnalysis world_serving plain_text default_analysis_params
                (agentE_init 4005 0)"
  obtain answer where returned: "fst ?run = Inr answer"
    by (simp add: intelligentTextAnalysis_def default_analysis_params_def Let_def)
  then have run: "?run = (Inr answer, snd ?run)"
    by (metis prod.collapse)
  from routing_counters [where w = world_serving and L = plain_text
      and s = "agentE_init 4005 0" and params = default_analysis_params] run
  have "counted (snd ?run) = counted (agentE_init 4005 0)
           + (if truthy (with_default (JBool True)
                           (get_prop_opt default_analysis_params ''include_sentiment''))
              then 1 else 0)
           + (if truthy (with_default (JBool True)
                           (get_prop_opt default_analysis_params ''include_language''))
              then 1 else 0)"
    by blast
  then have two: "counted (snd ?run) = 2"
    by (simp add: counted_def agentE_init_def default_analysis_params_def with_default_def)
  let ?smart = "smartTextProcessing world_down plain_text sentiment_of_x (agentE_init 4005 0)"
  have none': "findAgentByType ?down ''sentiment-analyzer'' = None"
    by (rule none)
  obtain answer' where returned': "fst ?smart = Inr answer'"
    by (simp add: smartTextProcessing_def sentiment_of_x_def with_default_def
        smart_operation_def smart_sentiment_def on_text_def empty none' Let_def)
  then have smart: "?smart = (Inr answer', snd ?smart)"
    by (metis prod.collapse)
  from routing_counters [where w = world_down and L = plain_text
      and s = "agentE_init 4005 0" and params = sentiment_of_x] smart
  obtain ops where "iterate (with_default
                      (JArr [JStr ''analyze'', JStr ''sentiment'', JStr ''language''])
                      (get_prop_opt sentiment_of_x ''operations'')) = Inr ops"
    and "counted (snd ?smart) = counted (agentE_init 4005 0) + routed ops"
    by blast
  then have one: "counted (snd ?smart) = 1"
    by (auto simp: sentiment_of_x_def with_default_def routed_def counted_def agentE_init_def)
  from none fallback reach discovered_cd_finds(1) delegated five five_counters returned two
    returned' one
  show ?thesis by blast
qed

subsection \<open>The sentiment fallback\<close>

text \<open>Whether a call returned, and a property of the object it returned.\<close>

definition returned :: "js_error + json \<Rightarrow> bool" where
  "returned outcome = (case outcome of Inr v \<Rightarrow> True | Inl err \<Rightarrow> False)"

definition result_prop :: "js_error + json \<Rightarrow> string \<Rightarrow> json" where
  "result_prop outcome k = (case outcome of Inr v \<Rightarrow> get_prop_opt v k | Inl err \<Rightarrow> JUndefined)"

lemma sentimentFallback_label:
  "get_prop_opt (sentimentFallback str) ''sentiment''
     \<in> {JStr ''positive'', JStr ''negative'', JStr ''neutral''}"
  by (simp add: sentimentFallback_def Let_def sentiment_label_def)

lemma analysis_sentiment_none:
  assumes "findAgentByType s ''sentiment-analyzer'' = None"
  shows "analysis_sentiment w str (result, s)
           = (AList.update ''fallback_used'' (JStr ''sentiment'')
                (AList.update ''sentiment_analysis'' (sentimentFallback str) result),
              s\<lparr>fallbackCount := fallbackCount s + 1\<rparr>)"
  using assms by (simp add: analysis_sentiment_def Let_def)

text \<open>
  The language block leaves \<open>sentiment_analysis\<close> as it is, and leaves \<open>fallback_used\<close> as
  it is or makes it the pair of the old value and \<open>language\<close>.
\<close>

lemma analysis_language_props:
  assumes "read_prop (fst rs) ''fallback_used'' = JStr ''sentiment''"
  shows "read_prop (fst (analysis_language w L str rs)) ''sentiment_analysis''
           = read_prop (fst rs) ''sentiment_analysis''
         \<and> (read_prop (fst (analysis_language w L str rs)) ''fallback_used'' = JStr ''sentiment''
            \<or> read_prop (fst (analysis_language w L str rs)) ''fallback_used''
                = JArr [JStr ''sentiment'', JStr ''language''])"
  using assms
  by (cases rs)
    (simp add: analysis_language_def add_language_fallback_def Let_def read_prop_update
      split: option.splits prod.splits sum.splits)

text \<open>
  C6, as the code has it. When no agent of type \<open>sentiment-analyzer\<close> is registered (after
  the discovery pass that an empty registry triggers), an \<open>intelligent_text_analysis\<close>
  request that asks for sentiment returns; its \<open>sentiment_analysis\<close> is the result of the
  local fallback, whose \<open>sentiment\<close> is one of \<open>positive\<close>, \<open>negative\<close>, \<open>neutral\<close>; and its
  \<open>fallback_used\<close> is the string \<open>sentiment\<close>, or the array \<open>['sentiment', 'language']\<close> when
  the language step fell back as well. It is never the boolean \<open>true\<close>.
\<close>

theorem sentiment_fallback_result:
  assumes "get_prop params ''text'' = Inr (JStr str)" and "str \<noteq> []"
    and "truthy (with_default (JBool True) (get_prop_opt params ''include_sentiment''))"
    and "findAgentByType (if discoveredAgents s = [] then performDiscovery w s else s)
           ''sentiment-analyzer'' = None"
  shows "returned (fst (intelligentTextAnalysis w L params s))
       \<and> result_prop (fst (intelligentTextAnalysis w L params s)) ''sentiment_analysis''
           = sentimentFallback str
       \<and> get_prop_opt (sentimentFallback str) ''sentiment''
           \<in> {JStr ''positive'', JStr ''negative'', JStr ''neutral''}
       \<and> result_prop (fst (intelligentTextAnalysis w L params s)) ''fallback_used''
           \<in> {JStr ''sentiment'', JArr [JStr ''sentiment'', JStr ''language'']}
       \<and> result_prop (fst (intelligentTextAnalysis w L params s)) ''fallback_used''
           \<noteq> JBool True"
proof -
  define s1 where "s1 = (if discoveredAgents s = [] then performDiscovery w s else s)"
  define result where "result = [(''text_analysis'', analyzeTextBasic L str),
                  (''delegation_used'', JBool False), (''agents_called'', JArr [])]"
  define rs1 where "rs1 = analysis_sentiment w str (result, s1)"
  define rs2 where
    "rs2 = (if truthy (with_default (JBool True) (get_prop_opt params ''include_language''))
            then analysis_language w L str rs1 else rs1)"
  have run: "fst (intelligentTextAnalysis w L params s) = Inr (JObj (fst rs2))"
    using assms(1-3)
    by (simp add: intelligentTextAnalysis_def Let_def rs2_def rs1_def result_def s1_def)
  have "rs1 = (AList.update ''fallback_used'' (JStr ''sentiment'')
                 (AList.update ''sentiment_analysis'' (sentimentFallback str) result),
               s1\<lparr>fallbackCount := fallbackCount s1 + 1\<rparr>)"
    unfolding rs1_def using assms(4) unfolding s1_def [symmetric]
    by (rule analysis_sentiment_none)
  then have used1: "read_prop (fst rs1) ''fallback_used'' = JStr ''sentiment''"
    and sent1: "read_prop (fst rs1) ''sentiment_analysis'' = sentimentFallback str"
    by (simp_all add: read_prop_update)
  have sent2: "read_prop (fst rs2) ''sentiment_analysis'' = sentimentFallback str"
    and used2: "read_prop (fst rs2) ''fallback_used'' = JStr ''sentiment''
                \<or> read_prop (fst rs2) ''fallback_used'' = JArr [JStr ''sentiment'', JStr ''language'']"
    using analysis_language_props [OF used1, of w L str] used1 sent1
    unfolding rs2_def by (simp_all split: if_splits)
  have looked: "result_prop (fst (intelligentTextAnalysis w L params s)) k = read_prop (fst rs2) k"
    for k
    by (simp add: run result_prop_def read_prop_def)
  have "returned (fst (intelligentTextAnalysis w L params s))"
    by (simp add: run returned_def)
  moreover have "result_prop (fst (intelligentTextAnalysis w L params s)) ''sentiment_analysis''
           = sentimentFallback str"
    by (simp add: looked sent2)
  moreover have "result_prop (fst (intelligentTextAnalysis w L params s)) ''fallback_used''
           \<in> {JStr ''sentiment'', JArr [JStr ''sentiment'', JStr ''language'']}"
    using used2 by (auto simp: looked)
  moreover have "result_prop (fst (intelligentTextAnalysis w L params s)) ''fallback_used''
           \<noteq> JBool True"
    using used2 by (auto simp: looked)
  ultimately show ?thesis
    using sentimentFallback_label [of str] by blast
qed

theorem sentiment_fallback_result_witness:
  "get_prop sentiment_only_params ''text'' = Inr (JStr ''x'')
   \<and> truthy (with_default (JBool True) (get_prop_opt sentiment_only_params ''include_sentiment''))
   \<and> findAgentByType (performDiscovery world_down (agentE_init 4005 0)) ''sentiment-analyzer''
       = None
   \<and> returned (fst (intelligentTextAnalysis world_down plain_text sentiment_only_params
                      (agentE_init 4005 0)))
   \<and> result_prop (fst (intelligentTextAnalysis world_down plain_text sentiment_only_params
                         (agentE_init 4005 0))) ''sentiment_analysis''
       = sentimentFallback ''x''"
proof -
  have given: "get_prop sentiment_only_params ''text'' = Inr (JStr ''x'')"
    by (simp add: sentiment_only_params_def)
  have nonempty: "''x'' \<noteq> []"
    by simp
  have asked: "truthy (with_default (JBool True)
                         (get_prop_opt sentiment_only_params ''include_sentiment''))"
    by (simp add: sentiment_only_params_def with_default_def)
  have registry: "discoveredAgents (performDiscovery world_down (agentE_init 4005 0)) = []"
    by (simp add: performDiscovery_def portRange_def discover_port_def axios_get_def
        with_timeout_def world_down_def agentE_init_def remove_unreachable_def Let_def)
  then have none: "findAgentByType (performDiscovery world_down (agentE_init 4005 0))
                     ''sentiment-analyzer'' = None"
    by (simp add: findAgentByType_def)
  then have none': "findAgentByType
                      (if discoveredAgents (agentE_init 4005 0) = []
                       then performDiscovery world_down (agentE_init 4005 0)
                       else agentE_init 4005 0) ''sentiment-analyzer'' = None"
    by (simp add: agentE_init_def)
  from sentiment_fallback_result [OF given nonempty asked none', of plain_text] given asked none
  show ?thesis by blast
qed

text \<open>
  C6 as stated fails: with no agent reachable, a request for sentiment only gets
  \<open>fallback_used: 'sentiment'\<close>, and a request with the default flags gets
  \<open>fallback_used: ['sentiment', 'language']\<close>; neither is the boolean \<open>true\<close>.
\<close>

theorem fallback_used_is_not_true:
  "result_prop (fst (intelligentTextAnalysis world_down plain_text sentiment_only_params
                       (agentE_init 4005 0))) ''fallback_used'' = JStr ''sentiment''
   \<and> result_prop (fst (intelligentTextAnalysis world_down plain_text default_analysis_params
                       (agentE_init 4005 0))) ''fallback_used''
       = JArr [JStr ''sentiment'', JStr ''language'']
   \<and> result_prop (fst (intelligentTextAnalysis world_down plain_text sentiment_only_params
                       (agentE_init 4005 0))) ''fallback_used'' \<noteq> JBool True"
  by (simp add: intelligentTextAnalysis_def performDiscovery_def portRange_def
      discover_port_def axios_get_def with_timeout_def world_down_def agentE_init_def
      remove_unreachable_def Let_def analysis_sentiment_def analysis_language_def
      add_language_fallback_def read_prop_def findAgentByType_def result_prop_def
      default_analysis_params_def sentiment_only_params_def with_default_def)

subsection \<open>Polling with a ceiling\<close>

lemma axios_get_task_bound:
  "axios_get_task w url taskId (Some limit) t = (t', r) \<Longrightarrow> t' \<le> t + limit"
  unfolding axios_get_task_def by (rule with_timeout_bound)

text \<open>
  The polling loop returns, and not later than one poll (2 s) and one sleep (500 ms)
  after the last instant at which it may start a poll.
\<close>

lemma waitForTaskCompletion_loop_bound:
  "fst (waitForTaskCompletion_loop w agentUrl taskId maxWaitTime startTime now)
     \<le> max now (startTime + maxWaitTime + 2499)"
proof (induction w agentUrl taskId maxWaitTime startTime now
    rule: waitForTaskCompletion_loop.induct)
  case (1 w agentUrl taskId maxWaitTime startTime now)
  show ?case
  proof (cases "now - startTime < maxWaitTime")
    case False
    then show ?thesis
      by (simp add: waitForTaskCompletion_loop.simps [of w agentUrl taskId maxWaitTime startTime now])
  next
    case True
    then have before: "now < startTime + maxWaitTime" by simp
    obtain t1 r where poll: "axios_get_task w agentUrl taskId (Some 2000) now = (t1, r)"
      by (cases "axios_get_task w agentUrl taskId (Some 2000) now")
    from axios_get_task_bound [OF poll] before
    have t1: "t1 \<le> startTime + maxWaitTime + 1999" by simp
    show ?thesis
    proof (cases r)
      case (Inl err)
      with True poll t1 show ?thesis
        by (simp add: waitForTaskCompletion_loop.simps [of w agentUrl taskId maxWaitTime startTime now])
    next
      case (Inr task)
      show ?thesis
      proof (cases "get_prop task ''status''")
        case (Inl err)
        with True poll Inr t1 show ?thesis
          by (simp add: waitForTaskCompletion_loop.simps [of w agentUrl taskId maxWaitTime startTime now])
      next
        case status: (Inr status)
        show ?thesis
        proof (cases "status = JStr ''completed'' \<or> status = JStr ''failed''")
          case True
          with \<open>now - startTime < maxWaitTime\<close> poll Inr status t1 show ?thesis
            by (auto simp: waitForTaskCompletion_loop.simps [of w agentUrl taskId maxWaitTime startTime now])
        next
          case False
          then have neither: "status \<noteq> JStr ''completed''" "status \<noteq> JStr ''failed''"
            by simp_all
          from "1.IH" [OF True poll [symmetric] Inr status neither]
          have "fst (waitForTaskCompletion_loop w agentUrl taskId maxWaitTime startTime (t1 + 500))
                  \<le> max (t1 + 500) (startTime + maxWaitTime + 2499)" .
          with True poll Inr status neither t1 show ?thesis
            by (simp add: waitForTaskCompletion_loop.simps [of w agentUrl taskId maxWaitTime startTime now])
        qed
      qed
    qed
  qed
qed

text \<open>The loop returns the result of a completed poll or throws the timeout error.\<close>

lemma waitForTaskCompletion_loop_outcome:
  "snd (waitForTaskCompletion_loop w agentUrl taskId maxWaitTime startTime now)
     = Inl (TaskTimeout taskId)
   \<or> (\<exists>t task. snd (axios_get_task w agentUrl taskId (Some 2000) t) = Inr task
         \<and> get_prop task ''status'' = Inr (JStr ''completed'')
         \<and> snd (waitForTaskCompletion_loop w agentUrl taskId maxWaitTime startTime now)
             = Inr (get_prop_opt task ''result''))"
proof (induction w agentUrl taskId maxWaitTime startTime now
    rule: waitForTaskCompletion_loop.induct)
  case (1 w agentUrl taskId maxWaitTime startTime now)
  show ?case
  proof (cases "now - startTime < maxWaitTime")
    case False
    then show ?thesis
      by (simp add: waitForTaskCompletion_loop.simps [of w agentUrl taskId maxWaitTime startTime now])
  next
    case True
    obtain t1 r where poll: "axios_get_task w agentUrl taskId (Some 2000) now = (t1, r)"
      by (cases "axios_get_task w agentUrl taskId (Some 2000) now")
    show ?thesis
    proof (cases r)
      case (Inl err)
      with True poll show ?thesis
        by (simp add: waitForTaskCompletion_loop.simps [of w agentUrl taskId maxWaitTime startTime now])
    next
      case (Inr task)
      show ?thesis
      proof (cases "get_prop task ''status''")
        case (Inl err)
        with True poll Inr show ?thesis
          by (simp add: waitForTaskCompletion_loop.simps [of w agentUrl taskId maxWaitTime startTime now])
      next
        case status: (Inr status)
        show ?thesis
        proof (cases "status = JStr ''completed''")
          case True
          have "snd (axios_get_task w agentUrl taskId (Some 2000) now) = Inr task"
            using poll Inr by simp
          moreover have "snd (waitForTaskCompletion_loop w agentUrl taskId maxWaitTime startTime now)
                           = Inr (get_prop_opt task ''result'')"
            using \<open>now - startTime < maxWaitTime\<close> poll Inr status True
            by (simp add: waitForTaskCompletion_loop.simps [of w agentUrl taskId maxWaitTime startTime now])
          ultimately show ?thesis
            using status True by blast
        next
          case False
          show ?thesis
          proof (cases "status = JStr ''failed''")
            case True
            with \<open>now - startTime < maxWaitTime\<close> poll Inr status False show ?thesis
              by (simp add: waitForTaskCompletion_loop.simps [of w agentUrl taskId maxWaitTime startTime now])
          next
            case failed: False
            from "1.IH" [OF True poll [symmetric] Inr status False failed]
            have "snd (waitForTaskCompletion_loop w agentUrl taskId maxWaitTime startTime (t1 + 500))
                    = Inl (TaskTimeout taskId)
                  \<or> (\<exists>t task. snd (axios_get_task w agentUrl taskId (Some 2000) t) = Inr task
                        \<and> get_prop task ''status'' = Inr (JStr ''completed'')
                        \<and> snd (waitForTaskCompletion_loop w agentUrl taskId maxWaitTime startTime
                                 (t1 + 500)) = Inr (get_prop_opt task ''result''))" .
            moreover have "waitForTaskCompletion_loop w agentUrl taskId maxWaitTime startTime now
                    = waitForTaskCompletion_loop w agentUrl taskId maxWaitTime startTime (t1 + 500)"
              using True poll Inr status False failed
              by (simp add: waitForTaskCompletion_loop.simps [of w agentUrl taskId maxWaitTime startTime now])
            ultimately show ?thesis by simp
          qed
        qed
      qed
    qed
  qed
qed

lemma waitForTaskCompletion_bound:
  "fst (waitForTaskCompletion w agentUrl taskId maxWaitTime now) \<le> now + maxWaitTime + 2499"
  using waitForTaskCompletion_loop_bound [of w agentUrl taskId maxWaitTime now now]
  unfolding waitForTaskCompletion_def by simp

lemma axios_post_bound:
  "axios_post w url body (Some limit) t = (t', r) \<Longrightarrow> t' \<le> t + limit"
  unfolding axios_post_def by (rule with_timeout_bound)

text \<open>
  What the loop reads from the poll it sends at time \<open>t\<close>: the status of the task, when
  the poll is answered within its 2 s and the answer has one.
\<close>

definition poll_status :: "world \<Rightarrow> string \<Rightarrow> json \<Rightarrow> nat \<Rightarrow> json option" where
  "poll_status w agentUrl taskId t =
     (case snd (axios_get_task w agentUrl taskId (Some 2000) t) of
        Inl err \<Rightarrow> None
      | Inr task \<Rightarrow>
          (case get_prop task ''status'' of Inl err \<Rightarrow> None | Inr status \<Rightarrow> Some status))"

text \<open>The poll sent at \<open>t\<close> finds the task unfinished; it finds it completed with result \<open>r\<close>.\<close>

definition pending_at :: "world \<Rightarrow> string \<Rightarrow> json \<Rightarrow> nat \<Rightarrow> bool" where
  "pending_at w agentUrl taskId t =
     (case poll_status w agentUrl taskId t of
        None \<Rightarrow> False
      | Some status \<Rightarrow> status \<noteq> JStr ''completed'' \<and> status \<noteq> JStr ''failed'')"

definition completed_at :: "world \<Rightarrow> string \<Rightarrow> json \<Rightarrow> nat \<Rightarrow> json \<Rightarrow> bool" where
  "completed_at w agentUrl taskId t r =
     (case snd (axios_get_task w agentUrl taskId (Some 2000) t) of
        Inl err \<Rightarrow> False
      | Inr task \<Rightarrow>
          get_prop task ''status'' = Inr (JStr ''completed'') \<and> get_prop_opt task ''result'' = r)"

text \<open>
  What the remote agent does while the loop may poll, from \<open>start\<close> to the ceiling
  \<open>until\<close>: no poll sent in that time finds the task completed; every poll sent in that
  time finds it unfinished; the polls sent before \<open>T\<close> find it unfinished and those sent
  from \<open>T\<close> on find it completed with result \<open>r\<close>. Nothing is said about polls sent later.
\<close>

definition not_completed_within :: "world \<Rightarrow> string \<Rightarrow> json \<Rightarrow> nat \<Rightarrow> nat \<Rightarrow> bool" where
  "not_completed_within w agentUrl taskId start until =
     (\<forall>t \<in> {start ..< until}. poll_status w agentUrl taskId t \<noteq> Some (JStr ''completed''))"

definition pending_within :: "world \<Rightarrow> string \<Rightarrow> json \<Rightarrow> nat \<Rightarrow> nat \<Rightarrow> bool" where
  "pending_within w agentUrl taskId start until =
     (\<forall>t \<in> {start ..< until}. pending_at w agentUrl taskId t)"

definition completes_from :: "world \<Rightarrow> string \<Rightarrow> json \<Rightarrow> nat \<Rightarrow> nat \<Rightarrow> nat \<Rightarrow> json \<Rightarrow> bool" where
  "completes_from w agentUrl taskId start T until r =
     (\<forall>t \<in> {start ..< until}.
        if t < T then pending_at w agentUrl taskId t else completed_at w agentUrl taskId t r)"

text \<open>
  The first half of \<open>delegateToAgent\<close>: the request is answered in time, without an
  \<open>error\<close>, with a task id; the time of the answer and the id.
\<close>

definition accepted_as :: "world \<Rightarrow> discovered_agent \<Rightarrow> string \<Rightarrow> json \<Rightarrow> nat \<Rightarrow> (nat \<times> json) option" where
  "accepted_as w agent m params now =
     (case axios_post w (d_url agent @ ''/rpc'')
             (JObj [(''jsonrpc'', JStr ''2.0''), (''method'', JStr m),
                    (''params'', params), (''id'', JStr (uuidv4 w now))])
             (Some 5000) now of
        (t0, Inl err) \<Rightarrow> None
      | (t0, Inr data) \<Rightarrow>
          (case get_prop data ''error'' of
             Inl err \<Rightarrow> None
           | Inr error \<Rightarrow>
               if truthy error then None
               else
                 (let task_id = get_prop_opt (get_prop_opt data ''result'') ''task_id''
                  in if truthy task_id then Some (t0, task_id) else None)))"

lemma delegateToAgent_accepted:
  assumes "accepted_as w agent m params now = Some (t0, task_id)"
  shows "delegateToAgent w agent m params now
           = waitForTaskCompletion w (d_url agent) task_id 10000 t0"
    and "now \<le> t0" and "t0 \<le> now + 5000"
proof -
  obtain t data where posted: "axios_post w (d_url agent @ ''/rpc'')
             (JObj [(''jsonrpc'', JStr ''2.0''), (''method'', JStr m),
                    (''params'', params), (''id'', JStr (uuidv4 w now))])
             (Some 5000) now = (t, Inr data)"
    using assms
    by (auto simp: accepted_as_def split: prod.splits sum.splits)
  from assms posted have same: "t = t0"
    by (auto simp: accepted_as_def Let_def split: sum.splits if_splits)
  from assms posted show "delegateToAgent w agent m params now
           = waitForTaskCompletion w (d_url agent) task_id 10000 t0"
    by (auto simp: accepted_as_def delegateToAgent_def Let_def split: sum.splits if_splits)
  from posted same show "now \<le> t0"
    unfolding axios_post_def by (auto dest: with_timeout_later)
  from axios_post_bound [OF posted] same show "t0 \<le> now + 5000"
    by simp
qed

subsection \<open>The loop, poll by poll\<close>

lemma waitForTaskCompletion_loop_expired:
  "\<not> now - startTime < maxWaitTime \<Longrightarrow>
   waitForTaskCompletion_loop w agentUrl taskId maxWaitTime startTime now
     = (now, Inl (TaskTimeout taskId))"
  by (simp add: waitForTaskCompletion_loop.simps [of w agentUrl taskId maxWaitTime startTime now])

lemma waitForTaskCompletion_loop_pending:
  assumes "now - startTime < maxWaitTime" and "pending_at w agentUrl taskId now"
  shows "waitForTaskCompletion_loop w agentUrl taskId maxWaitTime startTime now
           = waitForTaskCompletion_loop w agentUrl taskId maxWaitTime startTime
               (fst (axios_get_task w agentUrl taskId (Some 2000) now) + 500)"
  using assms
  by (cases "axios_get_task w agentUrl taskId (Some 2000) now")
    (auto simp: waitForTaskCompletion_loop.simps [of w agentUrl taskId maxWaitTime startTime now]
      pending_at_def poll_status_def split: sum.splits)

lemma waitForTaskCompletion_loop_completed:
  assumes "now - startTime < maxWaitTime" and "completed_at w agentUrl taskId now r"
  shows "snd (waitForTaskCompletion_loop w agentUrl taskId maxWaitTime startTime now) = Inr r"
  using assms
  by (cases "axios_get_task w agentUrl taskId (Some 2000) now")
    (auto simp: waitForTaskCompletion_loop.simps [of w agentUrl taskId maxWaitTime startTime now]
      completed_at_def split: sum.splits)

lemma waitForTaskCompletion_loop_other:
  assumes "now - startTime < maxWaitTime" and "\<not> pending_at w agentUrl taskId now"
    and "poll_status w agentUrl taskId now \<noteq> Some (JStr ''completed'')"
  shows "snd (waitForTaskCompletion_loop w agentUrl taskId maxWaitTime startTime now)
           = Inl (TaskTimeout taskId)"
  using assms
  by (cases "axios_get_task w agentUrl taskId (Some 2000) now")
    (auto simp: waitForTaskCompletion_loop.simps [of w agentUrl taskId maxWaitTime startTime now]
      pending_at_def poll_status_def split: sum.splits)

lemma next_poll:
  "now \<le> fst (axios_get_task w agentUrl taskId (Some 2000) now) + 500"
  "now < fst (axios_get_task w agentUrl taskId (Some 2000) now) + 500"
  "fst (axios_get_task w agentUrl taskId (Some 2000) now) + 500 \<le> now + 2500"
proof -
  obtain t1 r where poll: "axios_get_task w agentUrl taskId (Some 2000) now = (t1, r)"
    by (cases "axios_get_task w agentUrl taskId (Some 2000) now")
  from axios_get_task_later [OF poll] axios_get_task_bound [OF poll] poll
  show "now \<le> fst (axios_get_task w agentUrl taskId (Some 2000) now) + 500"
    and "now < fst (axios_get_task w agentUrl taskId (Some 2000) now) + 500"
    and "fst (axios_get_task w agentUrl taskId (Some 2000) now) + 500 \<le> now + 2500"
    by simp_all
qed

text \<open>
  While the task stays unfinished the loop goes on polling: it gives up only once the
  ceiling has passed.
\<close>

lemma waitForTaskCompletion_loop_waits:
  assumes "\<forall>t \<in> {now ..< startTime + maxWaitTime}. pending_at w agentUrl taskId t"
    and "startTime \<le> now"
  shows "snd (waitForTaskCompletion_loop w agentUrl taskId maxWaitTime startTime now)
           = Inl (TaskTimeout taskId)
       \<and> startTime + maxWaitTime
           \<le> fst (waitForTaskCompletion_loop w agentUrl taskId maxWaitTime startTime now)"
  using assms
proof (induction "startTime + maxWaitTime - now" arbitrary: now rule: less_induct)
  case less
  show ?case
  proof (cases "now - startTime < maxWaitTime")
    case False
    with less.prems(2) show ?thesis
      by (simp add: waitForTaskCompletion_loop_expired)
  next
    case True
    with less.prems have here: "pending_at w agentUrl taskId now"
      by simp
    let ?next = "fst (axios_get_task w agentUrl taskId (Some 2000) now) + 500"
    have closer: "startTime + maxWaitTime - ?next < startTime + maxWaitTime - now"
      using True next_poll(2) [of now w agentUrl taskId] by simp
    have rest: "\<forall>t \<in> {?next ..< startTime + maxWaitTime}. pending_at w agentUrl taskId t"
      using less.prems(1) next_poll(1) [of now w agentUrl taskId] by simp
    have later: "startTime \<le> ?next"
      using less.prems(2) next_poll(1) [of now w agentUrl taskId] by simp
    from less.hyps [OF closer rest later] waitForTaskCompletion_loop_pending [OF True here]
    show ?thesis by simp
  qed
qed

text \<open>A task that is never found completed before the ceiling ends in the timeout error.\<close>

lemma waitForTaskCompletion_loop_gives_up:
  assumes "\<forall>t \<in> {now ..< startTime + maxWaitTime}.
             poll_status w agentUrl taskId t \<noteq> Some (JStr ''completed'')"
    and "startTime \<le> now"
  shows "snd (waitForTaskCompletion_loop w agentUrl taskId maxWaitTime startTime now)
           = Inl (TaskTimeout taskId)"
  using assms
proof (induction "startTime + maxWaitTime - now" arbitrary: now rule: less_induct)
  case less
  show ?case
  proof (cases "now - startTime < maxWaitTime")
    case False
    then show ?thesis
      by (simp add: waitForTaskCompletion_loop_expired)
  next
    case True
    with less.prems have here: "poll_status w agentUrl taskId now \<noteq> Some (JStr ''completed'')"
      by simp
    show ?thesis
    proof (cases "pending_at w agentUrl taskId now")
      case False
      from waitForTaskCompletion_loop_other [OF True False here] show ?thesis .
    next
      case pending: True
      let ?next = "fst (axios_get_task w agentUrl taskId (Some 2000) now) + 500"
      have closer: "startTime + maxWaitTime - ?next < startTime + maxWaitTime - now"
        using True next_poll(2) [of now w agentUrl taskId] by simp
      have rest: "\<forall>t \<in> {?next ..< startTime + maxWaitTime}.
                    poll_status w agentUrl taskId t \<noteq> Some (JStr ''completed'')"
        using less.prems(1) next_poll(1) [of now w agentUrl taskId] by simp
      have later: "startTime \<le> ?next"
        using less.prems(2) next_poll(1) [of now w agentUrl taskId] by simp
      from less.hyps [OF closer rest later] waitForTaskCompletion_loop_pending [OF True pending]
      show ?thesis by simp
    qed
  qed
qed

text \<open>
  A task that is found completed from \<open>T\<close> on, with \<open>T\<close> at least one poll and one sleep
  (2.5 s) before the ceiling, has its result returned.
\<close>

lemma waitForTaskCompletion_loop_returns:
  assumes "\<forall>t \<in> {now ..< startTime + maxWaitTime}.
             if t < T then pending_at w agentUrl taskId t else completed_at w agentUrl taskId t r"
    and "startTime \<le> now" and "now < startTime + maxWaitTime"
    and "T + 2500 \<le> startTime + maxWaitTime"
  shows "snd (waitForTaskCompletion_loop w agentUrl taskId maxWaitTime startTime now) = Inr r"
  using assms
proof (induction "startTime + maxWaitTime - now" arbitrary: now rule: less_induct)
  case less
  from less.prems(2,3) have inside: "now - startTime < maxWaitTime"
    by simp
  show ?case
  proof (cases "now < T")
    case False
    with less.prems(1,3) have "completed_at w agentUrl taskId now r"
      by simp
    from waitForTaskCompletion_loop_completed [OF inside this] show ?thesis .
  next
    case True
    with less.prems(1,3) have here: "pending_at w agentUrl taskId now"
      by simp
    let ?next = "fst (axios_get_task w agentUrl taskId (Some 2000) now) + 500"
    have closer: "startTime + maxWaitTime - ?next < startTime + maxWaitTime - now"
      using inside next_poll(2) [of now w agentUrl taskId] by simp
    have rest: "\<forall>t \<in> {?next ..< startTime + maxWaitTime}.
                  if t < T then pending_at w agentUrl taskId t
                  else completed_at w agentUrl taskId t r"
      using less.prems(1) next_poll(1) [of now w agentUrl taskId] by simp
    have later: "startTime \<le> ?next"
      using less.prems(2) next_poll(1) [of now w agentUrl taskId] by simp
    have before: "?next < startTime + maxWaitTime"
      using True less.prems(4) next_poll(3) [of w agentUrl taskId now] by simp
    from less.hyps [OF closer rest later before less.prems(4)]
      waitForTaskCompletion_loop_pending [OF inside here]
    show ?thesis by simp
  qed
qed
subsection \<open>A delegation, from its request to its end\<close>

text \<open>
  Whatever the remote agent does, a delegation ends at most 5 s (the request) plus
  10 s (the ceiling) plus one poll and one sleep after it began.
\<close>

lemma delegateToAgent_bound:
  "fst (delegateToAgent w agent m params now) \<le> now + 17499"
proof -
  obtain t0 answer where posted: "axios_post w (d_url agent @ ''/rpc'')
             (JObj [(''jsonrpc'', JStr ''2.0''), (''method'', JStr m),
                    (''params'', params), (''id'', JStr (uuidv4 w now))])
             (Some 5000) now = (t0, answer)"
    by (cases "axios_post w (d_url agent @ ''/rpc'')
             (JObj [(''jsonrpc'', JStr ''2.0''), (''method'', JStr m),
                    (''params'', params), (''id'', JStr (uuidv4 w now))])
             (Some 5000) now")
  from axios_post_bound [OF posted] have t0: "t0 \<le> now + 5000" .
  have polled: "fst (waitForTaskCompletion w (d_url agent) task_id 10000 t0) \<le> now + 17499"
    for task_id
    using waitForTaskCompletion_bound [of w "d_url agent" task_id 10000 t0] t0 by simp
  from posted t0 polled show ?thesis
    by (auto simp: delegateToAgent_def Let_def split: sum.splits)
qed

lemma delegateToAgent_gives_up:
  assumes "accepted_as w agent m params now = Some (t0, task_id)"
    and "not_completed_within w (d_url agent) task_id t0 (t0 + 10000)"
  shows "\<exists>t1. delegateToAgent w agent m params now = (t1, Inl (TaskTimeout task_id))
            \<and> t1 \<le> t0 + 12499
            \<and> (pending_within w (d_url agent) task_id t0 (t0 + 10000) \<longrightarrow> t0 + 10000 \<le> t1)"
proof -
  let ?loop = "waitForTaskCompletion_loop w (d_url agent) task_id 10000 t0 t0"
  have run: "delegateToAgent w agent m params now = ?loop"
    using delegateToAgent_accepted(1) [OF assms(1)] by (simp add: waitForTaskCompletion_def)
  have "snd ?loop = Inl (TaskTimeout task_id)"
    using assms(2) unfolding not_completed_within_def
    by (intro waitForTaskCompletion_loop_gives_up) simp_all
  then have thrown: "?loop = (fst ?loop, Inl (TaskTimeout task_id))"
    by (simp add: prod_eq_iff)
  have late: "fst ?loop \<le> t0 + 12499"
    using waitForTaskCompletion_loop_bound [of w "d_url agent" task_id 10000 t0 t0] by simp
  have "t0 + 10000 \<le> fst ?loop" if "pending_within w (d_url agent) task_id t0 (t0 + 10000)"
    using that unfolding pending_within_def
    by (intro conjunct2 [OF waitForTaskCompletion_loop_waits]) simp_all
  with run thrown late show ?thesis
    by metis
qed

lemma delegateToAgent_returns:
  assumes "accepted_as w agent m params now = Some (t0, task_id)"
    and "completes_from w (d_url agent) task_id t0 T (t0 + 10000) final"
    and "T + 2500 \<le> t0 + 10000"
  shows "snd (delegateToAgent w agent m params now) = Inr final"
proof -
  have "snd (waitForTaskCompletion_loop w (d_url agent) task_id 10000 t0 t0) = Inr final"
    using assms(2,3) unfolding completes_from_def
    by (intro waitForTaskCompletion_loop_returns [where T = T]) simp_all
  with delegateToAgent_accepted(1) [OF assms(1)] show ?thesis
    by (simp add: waitForTaskCompletion_def)
qed

text \<open>
  The four places that delegate. When the delegation throws, each catches the error,
  calls its local fallback and counts one fallback; nothing else is sent, so the step
  ends at the time the delegation ended.
\<close>

lemma analysis_sentiment_caught:
  assumes "findAgentByType s ''sentiment-analyzer'' = Some agent"
    and "delegateToAgent w agent ''sentiment_analysis'' (JObj [(''text'', JStr str)]) (e_now s)
           = (t1, Inl err)"
  shows "analysis_sentiment w str (result, s)
           = (AList.update ''fallback_used'' (JStr ''sentiment'')
                (AList.update ''sentiment_analysis'' (sentimentFallback str) result),
              s\<lparr>e_now := t1, fallbackCount := fallbackCount s + 1\<rparr>)"
  using assms by (simp add: analysis_sentiment_def Let_def)

lemma analysis_language_caught:
  assumes "findAgentByType s ''language-detector'' = Some agent"
    and "delegateToAgent w agent ''language_detection'' (JObj [(''text'', JStr str)]) (e_now s)
           = (t1, Inl err)"
  shows "analysis_language w L str (result, s)
           = (add_language_fallback
                (AList.update ''language_detection'' (languageFallback L str) result),
              s\<lparr>e_now := t1, fallbackCount := fallbackCount s + 1\<rparr>)"
  using assms by (simp add: analysis_language_def Let_def)

lemma smart_sentiment_caught:
  assumes "findAgentByType s ''sentiment-analyzer'' = Some agent"
    and "delegateToAgent w agent ''sentiment_analysis'' (JObj [(''text'', tx)]) (e_now s)
           = (t1, Inl err)"
  shows "smart_sentiment w tx r s
           = (case on_text sentimentFallback ''text.toLowerCase'' tx of
                Inl thrown \<Rightarrow> (Inl thrown, s\<lparr>e_now := t1\<rparr>)
              | Inr local \<Rightarrow>
                  (Inr (r\<lparr>sm_props := AList.update ''sentiment'' local (sm_props r),
                          fallbacks_used := fallbacks_used r @ [''sentiment''],
                          total_fallbacks := total_fallbacks r + 1,
                          operations_performed :=
                            operations_performed r @ [''sentiment_analysis'']\<rparr>),
                   s\<lparr>e_now := t1, fallbackCount := fallbackCount s + 1\<rparr>))"
  using assms by (simp add: smart_sentiment_def)

lemma smart_language_caught:
  assumes "findAgentByType s ''language-detector'' = Some agent"
    and "delegateToAgent w agent ''language_detection'' (JObj [(''text'', tx)]) (e_now s)
           = (t1, Inl err)"
  shows "smart_language w L tx r s
           = (case on_text (languageFallback L) ''text.match'' tx of
                Inl thrown \<Rightarrow> (Inl thrown, s\<lparr>e_now := t1\<rparr>)
              | Inr local \<Rightarrow>
                  (Inr (r\<lparr>sm_props := AList.update ''language'' local (sm_props r),
                          fallbacks_used := fallbacks_used r @ [''language''],
                          total_fallbacks := total_fallbacks r + 1,
                          operations_performed :=
                            operations_performed r @ [''language_detection'']\<rparr>),
                   s\<lparr>e_now := t1, fallbackCount := fallbackCount s + 1\<rparr>))"
  using assms by (simp add: smart_language_def)

text \<open>
  C9. Every delegation of Agent E goes through \<open>delegateToAgent\<close>: its request has a 5 s
  timeout, each poll a 2 s timeout, and the loop sends no poll once 10 s have passed
  since the request was accepted. So a delegation ends at most 17.5 s after it began,
  whatever the remote agent does. For a delegation whose request is accepted at \<open>t0\<close>
  with a task id: if the task is found completed from some time on that lies at least
  2.5 s before the ceiling \<open>t0 + 10 s\<close>, its result is returned; if no poll sent before
  the ceiling finds it completed, the delegation throws the timeout error, at most 2.5 s
  after the ceiling, and, when every poll before the ceiling found the task unfinished,
  not before the ceiling. In each of the four places that delegate (the sentiment and
  the language block of \<open>intelligentTextAnalysis\<close>, the \<open>sentiment\<close> and \<open>language\<close> case of
  \<open>smartTextProcessing\<close>) that error is caught, the place's local fallback is called,
  \<open>fallbacks\<close> is incremented, and the step ends at the very time the delegation threw:
  there is no second request.
\<close>

theorem delegation_ceiling_falls_back:
  "fst (delegateToAgent w agent m params (e_now s)) \<le> e_now s + 17499
   \<and> (accepted_as w agent m params (e_now s) = Some (t0, task_id) \<longrightarrow>
        (completes_from w (d_url agent) task_id t0 T (t0 + 10000) final \<and> T + 2500 \<le> t0 + 10000
           \<longrightarrow> snd (delegateToAgent w agent m params (e_now s)) = Inr final)
      \<and> (not_completed_within w (d_url agent) task_id t0 (t0 + 10000) \<longrightarrow>
           (\<exists>t1. delegateToAgent w agent m params (e_now s) = (t1, Inl (TaskTimeout task_id))
               \<and> t1 \<le> t0 + 12499
               \<and> (pending_within w (d_url agent) task_id t0 (t0 + 10000) \<longrightarrow> t0 + 10000 \<le> t1)
               \<and> (m = ''sentiment_analysis''
                    \<and> findAgentByType s ''sentiment-analyzer'' = Some agent \<longrightarrow>
                    (params = JObj [(''text'', JStr str)] \<longrightarrow>
                       analysis_sentiment w str (result, s)
                         = (AList.update ''fallback_used'' (JStr ''sentiment'')
                              (AList.update ''sentiment_analysis'' (sentimentFallback str) result),
                            s\<lparr>e_now := t1, fallbackCount := fallbackCount s + 1\<rparr>))
                  \<and> (params = JObj [(''text'', tx)] \<longrightarrow>
                       smart_sentiment w tx r s
                         = (case on_text sentimentFallback ''text.toLowerCase'' tx of
                              Inl thrown \<Rightarrow> (Inl thrown, s\<lparr>e_now := t1\<rparr>)
                            | Inr local \<Rightarrow>
                                (Inr (r\<lparr>sm_props := AList.update ''sentiment'' local (sm_props r),
                                        fallbacks_used := fallbacks_used r @ [''sentiment''],
                                        total_fallbacks := total_fallbacks r + 1,
                                        operations_performed :=
                                          operations_performed r @ [''sentiment_analysis'']\<rparr>),
                                 s\<lparr>e_now := t1, fallbackCount := fallbackCount s + 1\<rparr>))))
               \<and> (m = ''language_detection''
                    \<and> findAgentByType s ''language-detector'' = Some agent \<longrightarrow>
                    (params = JObj [(''text'', JStr str)] \<longrightarrow>
                       analysis_language w L str (result, s)
                         = (add_language_fallback
                              (AList.update ''language_detection'' (languageFallback L str) result),
                            s\<lparr>e_now := t1, fallbackCount := fallbackCount s + 1\<rparr>))
                  \<and> (params = JObj [(''text'', tx)] \<longrightarrow>
                       smart_language w L tx r s
                         = (case on_text (languageFallback L) ''text.match'' tx of
                              Inl thrown \<Rightarrow> (Inl thrown, s\<lparr>e_now := t1\<rparr>)
                            | Inr local \<Rightarrow>
                                (Inr (r\<lparr>sm_props := AList.update ''language'' local (sm_props r),
                                        fallbacks_used := fallbacks_used r @ [''language''],
                                        total_fallbacks := total_fallbacks r + 1,
                                        operations_performed :=
                                          operations_performed r @ [''language_detection'']\<rparr>),
                                 s\<lparr>e_now := t1, fallbackCount := fallbackCount s + 1\<rparr>)))))))"
proof (intro conjI impI)
  show "fst (delegateToAgent w agent m params (e_now s)) \<le> e_now s + 17499"
    by (rule delegateToAgent_bound)
next
  assume "accepted_as w agent m params (e_now s) = Some (t0, task_id)"
    and "completes_from w (d_url agent) task_id t0 T (t0 + 10000) final \<and> T + 2500 \<le> t0 + 10000"
  then show "snd (delegateToAgent w agent m params (e_now s)) = Inr final"
    using delegateToAgent_returns by blast
next
  assume accepted: "accepted_as w agent m params (e_now s) = Some (t0, task_id)"
    and unfinished: "not_completed_within w (d_url agent) task_id t0 (t0 + 10000)"
  from delegateToAgent_gives_up [OF accepted unfinished] obtain t1
    where thrown: "delegateToAgent w agent m params (e_now s) = (t1, Inl (TaskTimeout task_id))"
      and late: "t1 \<le> t0 + 12499"
      and waited: "pending_within w (d_url agent) task_id t0 (t0 + 10000) \<longrightarrow> t0 + 10000 \<le> t1"
    by blast
  have sentiment1: "analysis_sentiment w str (result, s)
           = (AList.update ''fallback_used'' (JStr ''sentiment'')
                (AList.update ''sentiment_analysis'' (sentimentFallback str) result),
              s\<lparr>e_now := t1, fallbackCount := fallbackCount s + 1\<rparr>)"
    if "m = ''sentiment_analysis'' \<and> findAgentByType s ''sentiment-analyzer'' = Some agent"
      and "params = JObj [(''text'', JStr str)]"
    using that thrown by (intro analysis_sentiment_caught [where agent = agent]) simp_all
  have sentiment2: "smart_sentiment w tx r s
           = (case on_text sentimentFallback ''text.toLowerCase'' tx of
                Inl thrown \<Rightarrow> (Inl thrown, s\<lparr>e_now := t1\<rparr>)
              | Inr local \<Rightarrow>
                  (Inr (r\<lparr>sm_props := AList.update ''sentiment'' local (sm_props r),
                          fallbacks_used := fallbacks_used r @ [''sentiment''],
                          total_fallbacks := total_fallbacks r + 1,
                          operations_performed :=
                            operations_performed r @ [''sentiment_analysis'']\<rparr>),
                   s\<lparr>e_now := t1, fallbackCount := fallbackCount s + 1\<rparr>))"
    if "m = ''sentiment_analysis'' \<and> findAgentByType s ''sentiment-analyzer'' = Some agent"
      and "params = JObj [(''text'', tx)]"
    using that thrown by (intro smart_sentiment_caught [where agent = agent]) simp_all
  have language1: "analysis_language w L str (result, s)
           = (add_language_fallback
                (AList.update ''language_detection'' (languageFallback L str) result),
              s\<lparr>e_now := t1, fallbackCount := fallbackCount s + 1\<rparr>)"
    if "m = ''language_detection'' \<and> findAgentByType s ''language-detector'' = Some agent"
      and "params = JObj [(''text'', JStr str)]"
    using that thrown by (intro analysis_language_caught [where agent = agent]) simp_all
  have language2: "smart_language w L tx r s
           = (case on_text (languageFallback L) ''text.match'' tx of
                Inl thrown \<Rightarrow> (Inl thrown, s\<lparr>e_now := t1\<rparr>)
              | Inr local \<Rightarrow>
                  (Inr (r\<lparr>sm_props := AList.update ''language'' local (sm_props r),
                          fallbacks_used := fallbacks_used r @ [''language''],
                          total_fallbacks := total_fallbacks r + 1,
                          operations_performed :=
                            operations_performed r @ [''language_detection'']\<rparr>),
                   s\<lparr>e_now := t1, fallbackCount := fallbackCount s + 1\<rparr>))"
    if "m = ''language_detection'' \<and> findAgentByType s ''language-detector'' = Some agent"
      and "params = JObj [(''text'', tx)]"
    using that thrown by (intro smart_language_caught [where agent = agent]) simp_all
  show "\<exists>t1. delegateToAgent w agent m params (e_now s) = (t1, Inl (TaskTimeout task_id))
               \<and> t1 \<le> t0 + 12499
               \<and> (pending_within w (d_url agent) task_id t0 (t0 + 10000) \<longrightarrow> t0 + 10000 \<le> t1)
               \<and> (m = ''sentiment_analysis''
                    \<and> findAgentByType s ''sentiment-analyzer'' = Some agent \<longrightarrow>
                    (params = JObj [(''text'', JStr str)] \<longrightarrow>
                       analysis_sentiment w str (result, s)
                         = (AList.update ''fallback_used'' (JStr ''sentiment'')
                              (AList.update ''sentiment_analysis'' (sentimentFallback str) result),
                            s\<lparr>e_now := t1, fallbackCount := fallbackCount s + 1\<rparr>))
                  \<and> (params = JObj [(''text'', tx)] \<longrightarrow>
                       smart_sentiment w tx r s
                         = (case on_text sentimentFallback ''text.toLowerCase'' tx of
                              Inl thrown \<Rightarrow> (Inl thrown, s\<lparr>e_now := t1\<rparr>)
                            | Inr local \<Rightarrow>
                                (Inr (r\<lparr>sm_props := AList.update ''sentiment'' local (sm_props r),
                                        fallbacks_used := fallbacks_used r @ [''sentiment''],
                                        total_fallbacks := total_fallbacks r + 1,
                                        operations_performed :=
                                          operations_performed r @ [''sentiment_analysis'']\<rparr>),
                                 s\<lparr>e_now := t1, fallbackCount := fallbackCount s + 1\<rparr>))))
               \<and> (m = ''language_detection''
                    \<and> findAgentByType s ''language-detector'' = Some agent \<longrightarrow>
                    (params = JObj [(''text'', JStr str)] \<longrightarrow>
                       analysis_language w L str (result, s)
                         = (add_language_fallback
                              (AList.update ''language_detection'' (languageFallback L str) result),
                            s\<lparr>e_now := t1, fallbackCount := fallbackCount s + 1\<rparr>))
                  \<and> (params = JObj [(''text'', tx)] \<longrightarrow>
                       smart_language w L tx r s
                         = (case on_text (languageFallback L) ''text.match'' tx of
                              Inl thrown \<Rightarrow> (Inl thrown, s\<lparr>e_now := t1\<rparr>)
                            | Inr local \<Rightarrow>
                                (Inr (r\<lparr>sm_props := AList.update ''language'' local (sm_props r),
                                        fallbacks_used := fallbacks_used r @ [''language''],
                                        total_fallbacks := total_fallbacks r + 1,
                                        operations_performed :=
                                          operations_performed r @ [''language_detection'']\<rparr>),
                                 s\<lparr>e_now := t1, fallbackCount := fallbackCount s + 1\<rparr>))))"
    using thrown late waited sentiment1 sentiment2 language1 language2
    by (intro exI [of _ t1]) blast
qed
text \<open>
  Agent E after discovering Agent C and Agent D. When both accept every request and
  report the task as \<open>processing\<close> for ever, the delegation of the sentiment step, accepted
  at 66 ms, throws the timeout error between 10.066 s and 12.565 s, and the step stores
  the result of the local fallback and counts one fallback; so does the language step.
  A whole \<open>intelligent_text_analysis\<close> request for sentiment, sent to a fresh Agent E,
  returns in that time with the fallback's result. When the task is reported completed
  from 3 s on, the delegation returns its result.
\<close>

theorem delegation_ceiling_falls_back_witness:
  "agentE_reachable world_stalled plain_text discovered_cd
   \<and> findAgentByType discovered_cd ''sentiment-analyzer'' = Some (agent_c 30)
   \<and> accepted_as world_stalled (agent_c 30) ''sentiment_analysis''
        (JObj [(''text'', JStr ''x'')]) 54 = Some (66, JStr ''remote-1'')
   \<and> pending_within world_stalled ''http://localhost:4003'' (JStr ''remote-1'') 66 10066
   \<and> (\<exists>t1. delegateToAgent world_stalled (agent_c 30) ''sentiment_analysis''
               (JObj [(''text'', JStr ''x'')]) 54 = (t1, Inl (TaskTimeout (JStr ''remote-1'')))
          \<and> 10066 \<le> t1 \<and> t1 \<le> 12565
          \<and> analysis_sentiment world_stalled ''x'' ([], discovered_cd)
              = ([(''sentiment_analysis'', sentimentFallback ''x''),
                  (''fallback_used'', JStr ''sentiment'')],
                 discovered_cd\<lparr>e_now := t1, fallbackCount := 1\<rparr>))
   \<and> (\<exists>t1. 10066 \<le> t1 \<and> t1 \<le> 12565
          \<and> analysis_language world_stalled plain_text ''x'' ([], discovered_cd)
              = ([(''language_detection'', JObj [(''language'', JStr ''english'')]),
                  (''fallback_used'', JStr ''language'')],
                 discovered_cd\<lparr>e_now := t1, fallbackCount := 1\<rparr>))
   \<and> (\<exists>t1. 10066 \<le> t1 \<and> t1 \<le> 12565
          \<and> intelligentTextAnalysis world_stalled plain_text sentiment_only_params
                (agentE_init 4005 0)
              = (Inr (JObj [(''text_analysis'', JObj [(''char_count'', JNum 1)]),
                            (''delegation_used'', JBool False),
                            (''agents_called'', JArr []),
                            (''sentiment_analysis'', sentimentFallback ''x''),
                            (''fallback_used'', JStr ''sentiment'')]),
                 discovered_cd\<lparr>e_now := t1, fallbackCount := 1\<rparr>))
   \<and> completes_from world_slow ''http://localhost:4003'' (JStr ''remote-1'') 66 3000 10066
        (JObj [(''processed_by'', JStr ''remote'')])
   \<and> snd (delegateToAgent world_slow (agent_c 30) ''sentiment_analysis''
             (JObj [(''text'', JStr ''x'')]) 54)
       = Inr (JObj [(''processed_by'', JStr ''remote'')])"
proof -
  have reach: "agentE_reachable world_stalled plain_text discovered_cd"
    unfolding world_stalled_def by (rule discovered_cd_reachable)
  have now: "e_now discovered_cd = 54" and none: "fallbackCount discovered_cd = 0"
    by (simp_all add: discovered_cd_def agentE_init_def)
  have url: "d_url (agent_c 30) = ''http://localhost:4003''"
    "d_url (agent_d 54) = ''http://localhost:4004''"
    by (simp_all add: agent_c_def agent_d_def)
  have accepted_c: "accepted_as world_stalled (agent_c 30) ''sentiment_analysis''
        (JObj [(''text'', JStr ''x'')]) (e_now discovered_cd) = Some (66, JStr ''remote-1'')"
    by (simp add: now accepted_as_def url axios_post_def with_timeout_def world_stalled_def
        world_cd_def Let_def)
  have accepted_d: "accepted_as world_stalled (agent_d 54) ''language_detection''
        (JObj [(''text'', JStr ''x'')]) (e_now discovered_cd) = Some (66, JStr ''remote-1'')"
    by (simp add: now accepted_as_def url axios_post_def with_timeout_def world_stalled_def
        world_cd_def Let_def)
  have pending: "pending_within world_stalled (d_url (agent_c 30)) (JStr ''remote-1'') 66 (66 + 10000)"
    "pending_within world_stalled (d_url (agent_d 54)) (JStr ''remote-1'') 66 (66 + 10000)"
    by (simp_all add: pending_within_def pending_at_def poll_status_def url axios_get_task_def
        with_timeout_def world_stalled_def world_cd_def)
  then have unfinished:
    "not_completed_within world_stalled (d_url (agent_c 30)) (JStr ''remote-1'') 66 (66 + 10000)"
    "not_completed_within world_stalled (d_url (agent_d 54)) (JStr ''remote-1'') 66 (66 + 10000)"
    by (auto simp: pending_within_def not_completed_within_def pending_at_def
        split: option.splits)
  from delegation_ceiling_falls_back [where w = world_stalled and agent = "agent_c 30"
      and m = "''sentiment_analysis''" and params = "JObj [(''text'', JStr ''x'')]"
      and s = discovered_cd and ?t0.0 = 66 and task_id = "JStr ''remote-1''"
      and str = "''x''" and result = "[]"]
    accepted_c unfinished(1) pending(1) discovered_cd_finds(1)
  obtain t1 where
    "delegateToAgent world_stalled (agent_c 30) ''sentiment_analysis''
       (JObj [(''text'', JStr ''x'')]) (e_now discovered_cd)
       = (t1, Inl (TaskTimeout (JStr ''remote-1'')))"
    and "t1 \<le> 66 + 12499" and "66 + 10000 \<le> t1"
    and "analysis_sentiment world_stalled ''x'' ([], discovered_cd)
           = (AList.update ''fallback_used'' (JStr ''sentiment'')
                (AList.update ''sentiment_analysis'' (sentimentFallback ''x'') []),
              discovered_cd\<lparr>e_now := t1, fallbackCount := fallbackCount discovered_cd + 1\<rparr>)"
    by blast
  then have sentiment:
    "\<exists>t1. delegateToAgent world_stalled (agent_c 30) ''sentiment_analysis''
               (JObj [(''text'', JStr ''x'')]) 54 = (t1, Inl (TaskTimeout (JStr ''remote-1'')))
          \<and> 10066 \<le> t1 \<and> t1 \<le> 12565
          \<and> analysis_sentiment world_stalled ''x'' ([], discovered_cd)
              = ([(''sentiment_analysis'', sentimentFallback ''x''),
                  (''fallback_used'', JStr ''sentiment'')],
                 discovered_cd\<lparr>e_now := t1, fallbackCount := 1\<rparr>)"
    by (intro exI [of _ t1]) (simp add: now none)
  from delegation_ceiling_falls_back [where w = world_stalled and agent = "agent_d 54"
      and m = "''language_detection''" and params = "JObj [(''text'', JStr ''x'')]"
      and s = discovered_cd and ?t0.0 = 66 and task_id = "JStr ''remote-1''"
      and str = "''x''" and result = "[]" and L = plain_text]
    accepted_d unfinished(2) pending(2) discovered_cd_finds(2)
  obtain t2 where "t2 \<le> 66 + 12499" and "66 + 10000 \<le> t2"
    and "analysis_language world_stalled plain_text ''x'' ([], discovered_cd)
           = (add_language_fallback
                (AList.update ''language_detection'' (languageFallback plain_text ''x'') []),
              discovered_cd\<lparr>e_now := t2, fallbackCount := fallbackCount discovered_cd + 1\<rparr>)"
    by blast
  then have language:
    "\<exists>t1. 10066 \<le> t1 \<and> t1 \<le> 12565
          \<and> analysis_language world_stalled plain_text ''x'' ([], discovered_cd)
              = ([(''language_detection'', JObj [(''language'', JStr ''english'')]),
                  (''fallback_used'', JStr ''language'')],
                 discovered_cd\<lparr>e_now := t1, fallbackCount := 1\<rparr>)"
    by (intro exI [of _ t2])
      (simp add: none add_language_fallback_def read_prop_def plain_text_def)
  let ?result = "[(''text_analysis'', analyzeTextBasic plain_text ''x''),
                  (''delegation_used'', JBool False), (''agents_called'', JArr [])]"
  from delegation_ceiling_falls_back [where w = world_stalled and agent = "agent_c 30"
      and m = "''sentiment_analysis''" and params = "JObj [(''text'', JStr ''x'')]"
      and s = discovered_cd and ?t0.0 = 66 and task_id = "JStr ''remote-1''"
      and str = "''x''" and result = "?result"]
    accepted_c unfinished(1) pending(1) discovered_cd_finds(1)
  obtain t3 where "t3 \<le> 66 + 12499" and "66 + 10000 \<le> t3"
    and step: "analysis_sentiment world_stalled ''x'' (?result, discovered_cd)
           = (AList.update ''fallback_used'' (JStr ''sentiment'')
                (AList.update ''sentiment_analysis'' (sentimentFallback ''x'') ?result),
              discovered_cd\<lparr>e_now := t3, fallbackCount := fallbackCount discovered_cd + 1\<rparr>)"
    by blast
  from step have step': "analysis_sentiment world_stalled ''x''
            ([(''text_analysis'', JObj [(''char_count'', JNum 1)]),
              (''delegation_used'', JBool False), (''agents_called'', JArr [])], discovered_cd)
           = ([(''text_analysis'', JObj [(''char_count'', JNum 1)]),
               (''delegation_used'', JBool False),
               (''agents_called'', JArr []),
               (''sentiment_analysis'', sentimentFallback ''x''),
               (''fallback_used'', JStr ''sentiment'')],
              discovered_cd\<lparr>e_now := t3, fallbackCount := 1\<rparr>)"
    by (simp add: plain_text_def none)
  have first: "performDiscovery world_stalled (agentE_init 4005 0) = discovered_cd"
    by (simp only: world_stalled_def discovery_world_cd discovered_cd_def)
  have empty: "discoveredAgents (agentE_init 4005 0) = []"
    by (simp add: agentE_init_def)
  have "intelligentTextAnalysis world_stalled plain_text sentiment_only_params
          (agentE_init 4005 0)
        = (Inr (JObj [(''text_analysis'', JObj [(''char_count'', JNum 1)]),
                      (''delegation_used'', JBool False),
                      (''agents_called'', JArr []),
                      (''sentiment_analysis'', sentimentFallback ''x''),
                      (''fallback_used'', JStr ''sentiment'')]),
           discovered_cd\<lparr>e_now := t3, fallbackCount := 1\<rparr>)"
    by (simp add: intelligentTextAnalysis_def sentiment_only_params_def with_default_def
        empty first step' plain_text_def Let_def)
  with \<open>t3 \<le> 66 + 12499\<close> \<open>66 + 10000 \<le> t3\<close>
  have whole:
    "\<exists>t1. 10066 \<le> t1 \<and> t1 \<le> 12565
          \<and> intelligentTextAnalysis world_stalled plain_text sentiment_only_params
                (agentE_init 4005 0)
              = (Inr (JObj [(''text_analysis'', JObj [(''char_count'', JNum 1)]),
                            (''delegation_used'', JBool False),
                            (''agents_called'', JArr []),
                            (''sentiment_analysis'', sentimentFallback ''x''),
                            (''fallback_used'', JStr ''sentiment'')]),
                 discovered_cd\<lparr>e_now := t1, fallbackCount := 1\<rparr>)"
    by (intro exI [of _ t3]) simp
  have accepted_slow: "accepted_as world_slow (agent_c 30) ''sentiment_analysis''
        (JObj [(''text'', JStr ''x'')]) (e_now discovered_cd) = Some (66, JStr ''remote-1'')"
    by (simp add: now accepted_as_def url axios_post_def with_timeout_def world_slow_def
        world_cd_def Let_def)
  have slow: "completes_from world_slow (d_url (agent_c 30)) (JStr ''remote-1'') 66 3000
                (66 + 10000) (JObj [(''processed_by'', JStr ''remote'')])"
    by (simp add: completes_from_def pending_at_def completed_at_def poll_status_def url
        axios_get_task_def with_timeout_def world_slow_def world_cd_def done_task_def)
  from delegation_ceiling_falls_back [where w = world_slow and agent = "agent_c 30"
      and m = "''sentiment_analysis''" and params = "JObj [(''text'', JStr ''x'')]"
      and s = discovered_cd and ?t0.0 = 66 and task_id = "JStr ''remote-1''"
      and T = 3000 and final = "JObj [(''processed_by'', JStr ''remote'')]"]
    accepted_slow slow
  have served: "snd (delegateToAgent world_slow (agent_c 30) ''sentiment_analysis''
             (JObj [(''text'', JStr ''x'')]) (e_now discovered_cd))
       = Inr (JObj [(''processed_by'', JStr ''remote'')])"
    by simp
  from reach discovered_cd_finds(1) accepted_c pending(1) sentiment language whole slow served
  show ?thesis
    by (simp add: now url)
qed

subsection \<open>What a delegation returns\<close>

text \<open>
  A world in which every agent accepts every request as task \<open>remote-1\<close> and then reports
  it as \<open>processing\<close> for ever.
\<close>

definition world_stuck :: world where
  "world_stuck =
     \<lparr>http_get = (\<lambda>url t. (12, Inr (JObj [(''status'', JStr ''ok'')]))),
      http_get_card = (\<lambda>url t. (12, Inl (AxiosError ''404''))),
      http_get_task = (\<lambda>url taskId t. (12, Inr (JObj [(''status'', JStr ''processing'')]))),
      http_post = (\<lambda>url body t.
         (12, Inr (JObj [(''jsonrpc'', JStr ''2.0''),
                         (''result'', JObj [(''task_id'', JStr ''remote-1''),
                                            (''status'', JStr ''accepted'')])]))),
      uuidv4 = (\<lambda>t. ''uuid''),
      dirname = ''/app/src/dynamic-discovery'',
      spawn_child = (\<lambda>script t. 1000 + t),
      kill_delivered = (\<lambda>child t. True),
      exit_delay = (\<lambda>child t. Some 40)\<rparr>"

text \<open>
  In Agent E, a delegation whose request is accepted with a task id returns what the
  polling returns: the \<open>result\<close> of the remote task as a completed poll reports it, or
  the timeout error. It never returns the acceptance envelope.
\<close>

lemma delegateToAgent_polls:
  assumes "axios_post w (d_url agent @ ''/rpc'')
             (JObj [(''jsonrpc'', JStr ''2.0''), (''method'', JStr m),
                    (''params'', params), (''id'', JStr (uuidv4 w now))])
             (Some 5000) now = (t0, Inr data)"
    and "get_prop data ''error'' = Inr no_error" and "\<not> truthy no_error"
    and "task_id = get_prop_opt (get_prop_opt data ''result'') ''task_id''"
    and "truthy task_id"
  shows "delegateToAgent w agent m params now
           = waitForTaskCompletion w (d_url agent) task_id 10000 t0"
  using assms by (simp add: delegateToAgent_def Let_def)

lemma delegateToAgent_final_result:
  assumes "axios_post w (d_url agent @ ''/rpc'')
             (JObj [(''jsonrpc'', JStr ''2.0''), (''method'', JStr m),
                    (''params'', params), (''id'', JStr (uuidv4 w now))])
             (Some 5000) now = (t0, Inr data)"
    and "get_prop data ''error'' = Inr no_error" and "\<not> truthy no_error"
    and "task_id = get_prop_opt (get_prop_opt data ''result'') ''task_id''"
    and "truthy task_id"
  shows "snd (delegateToAgent w agent m params now) = Inl (TaskTimeout task_id)
       \<or> (\<exists>t task. snd (axios_get_task w (d_url agent) task_id (Some 2000) t) = Inr task
             \<and> get_prop task ''status'' = Inr (JStr ''completed'')
             \<and> snd (delegateToAgent w agent m params now) = Inr (get_prop_opt task ''result''))"
  using waitForTaskCompletion_loop_outcome [of w "d_url agent" task_id 10000 t0 t0]
  unfolding delegateToAgent_polls [OF assms] waitForTaskCompletion_def .

text \<open>
  \<open>routeAndExecuteTask(method, params)\<close> of the supervisor: choose the agent type from
  the method name, take the first configured agent of that type, post the request to
  \<open>/json-rpc\<close> on its port (no timeout option), and return an object whose \<open>result\<close> is
  \<open>response.data.result\<close>.
\<close>

definition routeAndExecuteTask :: "world \<Rightarrow> string \<Rightarrow> json \<Rightarrow> orchestrator \<Rightarrow> (js_error + json) \<times> orchestrator" where
  "routeAndExecuteTask w m params s =
     (let targetAgentType =
            (if prefix ''text_'' m then Some ''text-processor''
             else if prefix ''math_'' m \<or> str_includes m ''math'' then Some ''math-calculator''
             else if prefix ''sentiment_'' m \<or> str_includes m ''sentiment''
                     \<or> str_includes m ''emotion'' then Some ''sentiment-analyzer''
             else if prefix ''language_'' m \<or> str_includes m ''language''
               then Some ''language-detector''
             else None)
      in case targetAgentType of
           None \<Rightarrow> (Inl (UnableToRoute m), s)
         | Some agentType \<Rightarrow>
             (case find (\<lambda>c. cfg_type c = agentType) agentConfigs of
                None \<Rightarrow> (Inl (NoAgentForType agentType), s)
              | Some targetConfig \<Rightarrow>
                  (case axios_post w (localhost_url (cfg_port targetConfig) @ ''/json-rpc'')
                          (JObj [(''jsonrpc'', JStr ''2.0''), (''method'', JStr m),
                                 (''params'', params), (''id'', JNum (of_nat (clock s)))])
                          None (clock s) of
                     (t1, Inl err) \<Rightarrow> (Inl err, s\<lparr>clock := t1\<rparr>)
                   | (t1, Inr data) \<Rightarrow>
                       (case get_prop data ''result'' of
                          Inl err \<Rightarrow> (Inl err, s\<lparr>clock := t1\<rparr>)
                        | Inr result \<Rightarrow>
                            (Inr (JObj [(''agent'', JStr (cfg_name targetConfig)),
                                        (''method'', JStr m),
                                        (''result'', result),
                                        (''routed_to'', JStr agentType),
                                        (''execution_time'', JNum (of_nat t1))]),
                             s\<lparr>clock := t1\<rparr>)))))"

text \<open>
  A world with one leaf agent on port 4001 that behaves as Agent A does: \<open>POST /rpc\<close> is
  accepted as task \<open>remote-1\<close>, every status query for it reports it completed with its
  result, and no other path exists.
\<close>

definition world_agent_a :: world where
  "world_agent_a =
     \<lparr>http_get = (\<lambda>url t. (12, Inr (JObj [(''status'', JStr ''ok'')]))),
      http_get_card = (\<lambda>url t. (12, Inl (AxiosError ''404''))),
      http_get_task = (\<lambda>url taskId t.
         (12, Inr (JObj [(''id'', taskId), (''status'', JStr ''completed''),
                         (''result'', JObj [(''word_count'', JNum 2)])]))),
      http_post = (\<lambda>url body t.
         if url = ''http://localhost:4001/rpc''
         then (12, Inr (JObj [(''jsonrpc'', JStr ''2.0''),
                              (''result'', JObj [(''task_id'', JStr ''remote-1''),
                                                 (''status'', JStr ''accepted'')])]))
         else (12, Inl (AxiosError ''404''))),
      uuidv4 = (\<lambda>t. ''uuid''),
      dirname = ''/app/src/dynamic-discovery'',
      spawn_child = (\<lambda>script t. 1000 + t),
      kill_delivered = (\<lambda>child t. True),
      exit_delay = (\<lambda>child t. Some 40)\<rparr>"

definition agent_a :: discovered_agent where
  "agent_a =
     \<lparr>d_id = ''text-processor-agent-a'', d_name = ''Agent A - Text Processor'',
      d_type = ''text-processor'', d_url = ''http://localhost:4001'',
      d_capabilities = [], d_last_seen = 0,
      d_card = \<lparr>card_id = ''text-processor-agent-a'', card_name = ''Agent A - Text Processor'',
                card_type = ''text-processor'', card_capabilities = []\<rparr>\<rparr>"

definition hello_params :: json where
  "hello_params = JObj [(''text'', JStr ''hello world'')]"

lemma port_4001: "localhost_url 4001 = ''http://localhost:4001''"
  by (simp add: localhost_url_def string_of_nat.simps digit_char_def)

text \<open>
  C2. The claim: every delegation posts to the selected agent's RPC endpoint, polls its
  task-status endpoint and returns the remote task's final result. Agent E's
  \<open>delegateToAgent\<close> does (\<open>delegateToAgent_final_result\<close>); against the leaf agent above
  it returns the final result. The supervisor's \<open>routeAndExecuteTask\<close> does not: it posts
  to \<open>/json-rpc\<close>, which no leaf agent serves, so against the same agent the call is
  rejected; and in a world that answers that path as \<open>/rpc\<close> is answered, it returns the
  acceptance envelope \<open>{task_id, status: 'accepted'}\<close> as the result, without a poll.
\<close>

theorem routeAndExecuteTask_returns_no_final_result:
  "fst (routeAndExecuteTask world_agent_a ''text_analysis'' hello_params fresh_orchestrator)
     = Inl (AxiosError ''404'')
   \<and> snd (delegateToAgent world_agent_a agent_a ''text_analysis'' hello_params 0)
       = Inr (JObj [(''word_count'', JNum 2)])
   \<and> result_prop
        (fst (routeAndExecuteTask world_stuck ''text_analysis'' hello_params fresh_orchestrator))
        ''result''
       = JObj [(''task_id'', JStr ''remote-1''), (''status'', JStr ''accepted'')]"
proof (intro conjI)
  show "fst (routeAndExecuteTask world_agent_a ''text_analysis'' hello_params fresh_orchestrator)
          = Inl (AxiosError ''404'')"
    by (simp add: routeAndExecuteTask_def agentConfigs_def port_4001 axios_post_def
        with_timeout_def world_agent_a_def fresh_orchestrator_def)
  show "snd (delegateToAgent world_agent_a agent_a ''text_analysis'' hello_params 0)
          = Inr (JObj [(''word_count'', JNum 2)])"
    by (simp add: delegateToAgent_def agent_a_def axios_post_def with_timeout_def
        world_agent_a_def Let_def waitForTaskCompletion_def axios_get_task_def
        waitForTaskCompletion_loop.simps [of _ _ _ _ 12 12])
  show "result_prop
          (fst (routeAndExecuteTask world_stuck ''text_analysis'' hello_params fresh_orchestrator))
          ''result''
        = JObj [(''task_id'', JStr ''remote-1''), (''status'', JStr ''accepted'')]"
    by (simp add: routeAndExecuteTask_def agentConfigs_def axios_post_def with_timeout_def
        world_stuck_def fresh_orchestrator_def result_prop_def)
qed

section \<open>The supervisor in operation\<close>







subsection \<open>No agent is ever registered\<close>


lemma startAgent_throws: "\<exists>err. fst (startAgent w agentId s) = Inl err"
  by (simp add: startAgent_def split: option.splits)











section \<open>Discovery\<close>

subsection \<open>Passes that only store entries\<close>











subsection \<open>A discovery pass of Agent E, port by port\<close>

text \<open>
  What probing one port comes to: the port is skipped or answers with a status other
  than \<open>ok\<close> (the registry is left alone), a call fails (the \<open>catch\<close> block runs), or the
  agent's card is fetched.
\<close>

datatype probe = Untouched | Unreachable | Live agent_card

definition probe_port :: "world \<Rightarrow> nat \<Rightarrow> nat \<Rightarrow> nat \<Rightarrow> probe \<times> nat" where
  "probe_port w self port t =
     (if port = self then (Untouched, t)
      else
        (case axios_get w (localhost_url port @ ''/status'') (Some 2000) t of
           (t1, Inl err) \<Rightarrow> (Unreachable, t1)
         | (t1, Inr data) \<Rightarrow>
             (case get_prop data ''status'' of
                Inl err \<Rightarrow> (Unreachable, t1)
              | Inr status \<Rightarrow>
                  if status = JStr ''ok'' then
                    (case axios_get_card w (localhost_url port @ ''/agent-card'') (Some 2000) t1 of
                       (t2, Inl err) \<Rightarrow> (Unreachable, t2)
                     | (t2, Inr agentCard) \<Rightarrow> (Live agentCard, t2))
                  else (Untouched, t1))))"

definition registry_entry :: "agent_card \<Rightarrow> nat \<Rightarrow> nat \<Rightarrow> discovered_agent" where
  "registry_entry agentCard port seen =
     \<lparr>d_id = card_id agentCard, d_name = card_name agentCard, d_type = card_type agentCard,
      d_url = localhost_url port, d_capabilities = card_capabilities agentCard,
      d_last_seen = seen, d_card = agentCard\<rparr>"

fun apply_probe :: "nat \<Rightarrow> probe \<Rightarrow> nat \<Rightarrow> (string \<times> discovered_agent) list \<Rightarrow> (string \<times> discovered_agent) list" where
  "apply_probe port Untouched seen regs = regs"
| "apply_probe port Unreachable seen regs = remove_unreachable port regs"
| "apply_probe port (Live agentCard) seen regs =
     AList.update (card_id agentCard) (registry_entry agentCard port seen) regs"

lemma discover_port_probe:
  "discoveredAgents (discover_port w port s)
     = apply_probe port (fst (probe_port w (e_port s) port (e_now s)))
         (snd (probe_port w (e_port s) port (e_now s))) (discoveredAgents s)
   \<and> e_now (discover_port w port s) = snd (probe_port w (e_port s) port (e_now s))
   \<and> e_port (discover_port w port s) = e_port s"
  by (simp add: discover_port_def probe_port_def registry_entry_def Let_def
      split: prod.splits sum.splits)











subsection \<open>A second pass changes nothing but the time stamps\<close>


text \<open>
  A registry as the code builds it: one entry per key, each stored under its own \<open>id\<close>.
\<close>

definition registry_ok :: "(string \<times> discovered_agent) list \<Rightarrow> bool" where
  "registry_ok regs =
     (distinct (map fst regs) \<and> (\<forall>(k, agent) \<in> set regs. d_id agent = k))"







lemma fold_delete_subset:
  "set (fold (\<lambda>agent regs'. AList.delete (d_id agent) regs') gone regs) \<subseteq> set regs"
proof (induction gone arbitrary: regs)
  case Nil
  show ?case by simp
next
  case (Cons a gone)
  have "set (AList.delete (d_id a) regs) \<subseteq> set regs"
    by (auto simp: AList.delete_eq)
  with Cons [of "AList.delete (d_id a) regs"] show ?case by auto
qed

lemma fold_delete_distinct:
  "distinct (map fst regs)
   \<Longrightarrow> distinct (map fst (fold (\<lambda>agent regs'. AList.delete (d_id agent) regs') gone regs))"
  by (induction gone arbitrary: regs) (simp_all add: distinct_delete)

lemma remove_unreachable_subset: "set (remove_unreachable port regs) \<subseteq> set regs"
  by (simp add: remove_unreachable_def Let_def fold_delete_subset)


lemma remove_unreachable_ok:
  assumes "registry_ok regs"
  shows "registry_ok (remove_unreachable port regs)"
  using assms remove_unreachable_subset [of port regs]
  unfolding registry_ok_def
  by (auto simp: remove_unreachable_def Let_def fold_delete_distinct)




lemma update_subset: "set (AList.update k v al) \<subseteq> insert (k, v) (set al)"
  by (induction al) auto

lemma update_ok:
  assumes "registry_ok regs"
  shows "registry_ok (AList.update (card_id agentCard) (registry_entry agentCard port seen) regs)"
  using assms update_subset [of "card_id agentCard" "registry_entry agentCard port seen" regs]
  unfolding registry_ok_def
  by (auto simp: distinct_update registry_entry_def)







subsection \<open>Every registry Agent E builds is well formed\<close>

lemma apply_probe_ok:
  "registry_ok regs \<Longrightarrow> registry_ok (apply_probe port outcome seen regs)"
  by (cases outcome) (simp_all add: remove_unreachable_ok update_ok)

lemma discover_port_ok:
  "registry_ok (discoveredAgents s) \<Longrightarrow> registry_ok (discoveredAgents (discover_port w port s))"
  using discover_port_probe [of w port s] by (simp add: apply_probe_ok)

lemma fold_discover_port_ok:
  "registry_ok (discoveredAgents s)
   \<Longrightarrow> registry_ok (discoveredAgents (fold (discover_port w) ports s))"
  by (induction ports arbitrary: s) (simp_all add: discover_port_ok)

lemma performDiscovery_ok:
  "registry_ok (discoveredAgents s) \<Longrightarrow> registry_ok (discoveredAgents (performDiscovery w s))"
  using fold_discover_port_ok [of s w portRange]
  by (simp add: performDiscovery_def Let_def)

lemma analysis_sentiment_registry:
  "discoveredAgents (snd (analysis_sentiment w str (result, s))) = discoveredAgents s"
  by (simp add: analysis_sentiment_def Let_def split: option.splits prod.splits sum.splits)

lemma analysis_language_registry:
  "discoveredAgents (snd (analysis_language w L str (result, s))) = discoveredAgents s"
  by (simp add: analysis_language_def Let_def split: option.splits prod.splits sum.splits)

lemma analysis_sentiment_ok:
  "registry_ok (discoveredAgents (snd rs))
   \<Longrightarrow> registry_ok (discoveredAgents (snd (analysis_sentiment w str rs)))"
  using analysis_sentiment_registry [of w str "fst rs" "snd rs"] by simp

lemma analysis_language_ok:
  "registry_ok (discoveredAgents (snd rs))
   \<Longrightarrow> registry_ok (discoveredAgents (snd (analysis_language w L str rs)))"
  using analysis_language_registry [of w L str "fst rs" "snd rs"] by simp

lemma intelligentTextAnalysis_ok:
  assumes "registry_ok (discoveredAgents s)"
  shows "registry_ok (discoveredAgents (snd (intelligentTextAnalysis w L params s)))"
  using assms unfolding intelligentTextAnalysis_def Let_def
  by (auto split: sum.splits json.splits
      intro!: analysis_language_ok analysis_sentiment_ok performDiscovery_ok)

lemma smart_sentiment_registry:
  "discoveredAgents (snd (smart_sentiment w tx r s)) = discoveredAgents s"
  by (simp add: smart_sentiment_def split: option.splits prod.splits sum.splits)

lemma smart_language_registry:
  "discoveredAgents (snd (smart_language w L tx r s)) = discoveredAgents s"
  by (simp add: smart_language_def split: option.splits prod.splits sum.splits)

lemma smart_operation_registry:
  "discoveredAgents (snd (smart_operation w L tx operation r s)) = discoveredAgents s"
  by (simp add: smart_operation_def smart_sentiment_registry smart_language_registry
      split: sum.splits)

lemma smart_operations_registry:
  "discoveredAgents (snd (smart_operations w L tx ops r s)) = discoveredAgents s"
proof (induction ops arbitrary: r s)
  case Nil
  show ?case by simp
next
  case (Cons operation rest)
  show ?case
  proof (cases "smart_operation w L tx operation r s")
    case (Pair outcome s')
    with smart_operation_registry [of w L tx operation r s]
    have first: "discoveredAgents s' = discoveredAgents s" by simp
    show ?thesis
    proof (cases outcome)
      case (Inl err)
      with Pair first show ?thesis by simp
    next
      case (Inr r')
      with Pair first Cons [of r' s'] show ?thesis by simp
    qed
  qed
qed

lemma smart_operations_ok:
  "registry_ok (discoveredAgents s1) \<Longrightarrow> smart_operations w L tx ops r s1 = (outcome, s2)
   \<Longrightarrow> registry_ok (discoveredAgents s2)"
  using smart_operations_registry [of w L tx ops r s1] by simp

lemma smartTextProcessing_ok:
  assumes "registry_ok (discoveredAgents s)"
  shows "registry_ok (discoveredAgents (snd (smartTextProcessing w L params s)))"
  using assms unfolding smartTextProcessing_def Let_def
  by (auto split: sum.splits prod.splits
      intro: performDiscovery_ok elim: smart_operations_ok [rotated])

lemma dispatchE_ok:
  assumes "registry_ok (discoveredAgents s)"
  shows "registry_ok (discoveredAgents (snd (dispatchE w L m params s)))"
  using assms
  by (simp add: dispatchE_def intelligentTextAnalysis_ok smartTextProcessing_ok
      forceDiscovery_def Let_def performDiscovery_ok)

lemma processTaskE_ok:
  assumes "registry_ok (discoveredAgents s)"
  shows "registry_ok (discoveredAgents (processTaskE w L taskId m params s))"
proof (cases "dispatchE w L m params s")
  case (Pair outcome s')
  with dispatchE_ok [OF assms, of w L m params]
  have "registry_ok (discoveredAgents s')" by simp
  with Pair show ?thesis
    by (simp add: processTaskE_def split: sum.splits option.splits)
qed

lemma agentE_reachable_registry_ok:
  assumes "agentE_reachable w L s"
  shows "registry_ok (discoveredAgents s)"
  using assms
proof induction
  case (E_init port now)
  show ?case by (simp add: agentE_init_def registry_ok_def)
next
  case (E_next s s')
  from E_next(2) E_next(3) show ?case
  proof cases
    case (E_rpc taskId req)
    with E_next(3) show ?thesis by (simp add: agentE_rpc_def Let_def)
  next
    case (E_run taskId m p)
    with E_next(3) show ?thesis by (simp add: processTaskE_ok)
  next
    case E_discovery
    with E_next(3) show ?thesis by (simp add: performDiscovery_ok)
  next
    case (E_idle d)
    with E_next(3) show ?thesis by simp
  qed
qed

subsection \<open>The discovery client (discovery-client.js)\<close>

record client_entry =
  ce_url :: string
  ce_port :: nat
  ce_card :: agent_card
  ce_last_seen :: nat

record available_agent =
  av_port :: nat
  av_name :: string
  av_type :: string
  av_capabilities :: nat

text \<open>\<open>cl_discovered\<close> is \<open>this.discoveredAgents\<close>, keyed by port; \<open>cl_now\<close> is the clock.\<close>

record discovery_client =
  cl_discovered :: "(nat \<times> client_entry) list"
  cl_now :: nat

definition discoveryPorts :: "nat list" where
  "discoveryPorts = [4001, 4002, 4003, 4004, 4005]"

text \<open>
  The body of the loop of \<open>discoverAgents\<close> for one port; the \<open>catch\<close> block is empty.
\<close>

definition client_discover_port :: "world \<Rightarrow> nat \<Rightarrow> available_agent list \<times> discovery_client \<Rightarrow> available_agent list \<times> discovery_client" where
  "client_discover_port w port ac =
     (case ac of (availableAgents, c) \<Rightarrow>
        (let agentUrl = localhost_url port
         in case axios_get w (agentUrl @ ''/status'') (Some 2000) (cl_now c) of
              (t1, Inl err) \<Rightarrow> (availableAgents, c\<lparr>cl_now := t1\<rparr>)
            | (t1, Inr data) \<Rightarrow>
                (case get_prop data ''status'' of
                   Inl err \<Rightarrow> (availableAgents, c\<lparr>cl_now := t1\<rparr>)
                 | Inr status \<Rightarrow>
                     if status = JStr ''ok'' then
                       (case axios_get_card w (agentUrl @ ''/agent-card'') (Some 2000) t1 of
                          (t2, Inl err) \<Rightarrow> (availableAgents, c\<lparr>cl_now := t2\<rparr>)
                        | (t2, Inr agentCard) \<Rightarrow>
                            (availableAgents @
                               [\<lparr>av_port = port, av_name = card_name agentCard,
                                 av_type = card_type agentCard,
                                 av_capabilities = length (card_capabilities agentCard)\<rparr>],
                             c\<lparr>cl_discovered :=
                                 AList.update port
                                   \<lparr>ce_url = agentUrl, ce_port = port, ce_card = agentCard,
                                    ce_last_seen = t2\<rparr> (cl_discovered c),
                               cl_now := t2\<rparr>))
                     else (availableAgents, c\<lparr>cl_now := t1\<rparr>))))"

definition discoverAgents :: "world \<Rightarrow> discovery_client \<Rightarrow> available_agent list \<times> discovery_client" where
  "discoverAgents w c = fold (client_discover_port w) discoveryPorts ([], c)"

text \<open>The card a port answers the client's probe with, if the probe succeeds.\<close>

definition client_probe :: "world \<Rightarrow> nat \<Rightarrow> nat \<Rightarrow> agent_card option \<times> nat" where
  "client_probe w port t =
     (case axios_get w (localhost_url port @ ''/status'') (Some 2000) t of
        (t1, Inl err) \<Rightarrow> (None, t1)
      | (t1, Inr data) \<Rightarrow>
          (case get_prop data ''status'' of
             Inl err \<Rightarrow> (None, t1)
           | Inr status \<Rightarrow>
               if status = JStr ''ok'' then
                 (case axios_get_card w (localhost_url port @ ''/agent-card'') (Some 2000) t1 of
                    (t2, Inl err) \<Rightarrow> (None, t2)
                  | (t2, Inr agentCard) \<Rightarrow> (Some agentCard, t2))
               else (None, t1)))"





lemma client_discover_port_probe:
  "cl_discovered (snd (client_discover_port w port (available, c)))
     = (case fst (client_probe w port (cl_now c)) of
          None \<Rightarrow> cl_discovered c
        | Some agentCard \<Rightarrow>
            AList.update port
              \<lparr>ce_url = localhost_url port, ce_port = port, ce_card = agentCard,
               ce_last_seen = snd (client_probe w port (cl_now c))\<rparr> (cl_discovered c))"
  by (simp add: client_discover_port_def client_probe_def Let_def
      split: prod.splits sum.splits)


lemma client_discover_port_distinct:
  "distinct (map fst (cl_discovered (snd ac)))
   \<Longrightarrow> distinct (map fst (cl_discovered (snd (client_discover_port w port ac))))"
  using client_discover_port_probe [of w port "fst ac" "snd ac"]
  by (simp add: distinct_update split: option.splits)

lemma discoverAgents_distinct:
  assumes "distinct (map fst (cl_discovered c))"
  shows "distinct (map fst (cl_discovered (snd (discoverAgents w c))))"
proof -
  have "distinct (map fst (cl_discovered (snd ac)))
        \<Longrightarrow> distinct (map fst (cl_discovered (snd (fold (client_discover_port w) ports ac))))"
    for ports ac
    by (induction ports arbitrary: ac) (simp_all add: client_discover_port_distinct)
  from this [of "([], c)" discoveryPorts] assms show ?thesis
    by (simp add: discoverAgents_def)
qed












end
